theory Spec2Isabelle
  imports Main "HOL-Library.Word" "HOL-Library.AList"
begin

unbundle bit_operations_syntax

section \<open>Content hash (computeHash)\<close>

text \<open>
  A JavaScript string is a sequence of UTF-16 code units; \<open>charCodeAt\<close> reads one of them.
  The hash is computed on JavaScript numbers (IEEE doubles): \<open>hash ^= c\<close> converts both
  operands to signed 32-bit integers, \<open>hash * 16777619\<close> is a double multiplication (the
  exact product can need up to 56 bits, so it is rounded to 53 significant bits, ties to
  even), and \<open>>>> 0\<close> reduces the rounded product modulo \<open>2^32\<close>.
\<close>

type_synonym jsstring = "16 word list"

definition toInt32 :: "int \<Rightarrow> int" where
  "toInt32 n = (let m = n mod 2 ^ 32 in if 2 ^ 31 \<le> m then m - 2 ^ 32 else m)"

definition toUint32 :: "int \<Rightarrow> int" where
  "toUint32 n = n mod 2 ^ 32"

function excessBits :: "int \<Rightarrow> nat" where
  "excessBits a = (if a < 2 ^ 53 then 0 else Suc (excessBits (a div 2)))"
  by pat_completeness auto
termination
  by (relation "measure nat") auto

declare excessBits.simps [simp del]

definition roundDouble :: "int \<Rightarrow> int" where
  "roundDouble p =
     (let a = \<bar>p\<bar>;
          e = excessBits a;
          q = a div 2 ^ e;
          r = a mod 2 ^ e;
          q' = (if 2 ^ e < 2 * r \<or> (2 * r = 2 ^ e \<and> odd q) then q + 1 else q)
      in sgn p * (q' * 2 ^ e))"

definition hashStep :: "16 word \<Rightarrow> int \<Rightarrow> int" where
  "hashStep c hash = toUint32 (roundDouble ((toInt32 hash XOR uint c) * 16777619))"

definition hexDigit :: "nat \<Rightarrow> char" where
  "hexDigit d = ''0123456789abcdef'' ! d"

function toString16 :: "nat \<Rightarrow> string" where
  "toString16 n = (if n < 16 then [hexDigit n] else toString16 (n div 16) @ [hexDigit (n mod 16)])"
  by pat_completeness auto
termination
  by (relation "measure id") auto

declare toString16.simps [simp del]

definition computeHash :: "jsstring \<Rightarrow> string" where
  "computeHash content = toString16 (nat (fold hashStep content 2166136261))"


section \<open>Chat data model (types.ts)\<close>

record ChatReaction =
  emoji :: string
  users :: "string list"

record ChatImage =
  img_id :: string
  img_filename :: string
  img_path :: string

text \<open>Optional fields (\<open>field?: T\<close>) are options; \<open>None\<close> is \<open>undefined\<close>.\<close>

record ChatMessage =
  m_id :: string
  m_from :: string
  m_message :: string
  m_timestamp :: string
  m_fileLinks :: "string list option"
  m_mentions :: "string list option"
  m_channelMentions :: "string list option"
  m_images :: "ChatImage list option"
  m_reactions :: "ChatReaction list option"
  m_edited :: "bool option"
  m_editedAt :: "string option"
  m_deleted :: "bool option"
  m_replyTo :: "string option"

datatype ChannelType = General | Group | DM

record Channel =
  c_id :: string
  c_type :: ChannelType
  c_name :: string
  c_members :: "string list"
  c_createdBy :: string
  c_createdAt :: string

record DeletedChannel =
  d_id :: string
  d_deletedAt :: string
  d_deletedBy :: string

text \<open>
  Objects used as dictionaries are association lists in insertion order.
  \<open>checksum\<close> is the field \<open>_checksum\<close>; the field \<open>version: 2\<close> is the tag \<open>V2\<close> below.
\<close>

record ChatDataV2 =
  channels :: "Channel list"
  channelMessages :: "(string \<times> ChatMessage list) list"
  readState :: "(string \<times> (string \<times> string) list) list"
  mutedChannels :: "(string \<times> string list) list option"
  deletedChannels :: "DeletedChannel list option"
  checksum :: "string option"

record ChatDataV1 =
  messages :: "ChatMessage list option"
  lastReadTimestamp :: "(string \<times> string) list option"

datatype ChatData = V1 ChatDataV1 | V2 ChatDataV2

definition GENERAL_CHANNEL_ID :: string where
  "GENERAL_CHANNEL_ID = ''general''"

definition MAX_MESSAGES_PER_CHANNEL :: nat where
  "MAX_MESSAGES_PER_CHANNEL = 200"

definition MAX_LOAD_RETRIES :: nat where
  "MAX_LOAD_RETRIES = 3"

fun isV2Data :: "ChatData \<Rightarrow> bool" where
  "isV2Data (V2 d) = True"
| "isV2Data (V1 d) = False"

section \<open>Checksum (computeDataChecksum, validateDataIntegrity)\<close>

text \<open>
  \<open>JSON.stringify\<close> and \<open>JSON.parse\<close> belong to the platform. They are parameters:
  \<open>stringify\<close> is \<open>JSON.stringify(d)\<close>, \<open>pretty\<close> is \<open>JSON.stringify(d, null, 2)\<close>,
  and \<open>parse\<close> is \<open>JSON.parse\<close>, \<open>None\<close> when it throws.
\<close>

definition computeDataChecksum :: "(ChatDataV2 \<Rightarrow> jsstring) \<Rightarrow> ChatDataV2 \<Rightarrow> string" where
  "computeDataChecksum stringify data =
     (let dataWithoutChecksum = data\<lparr>checksum := None\<rparr>
      in computeHash (stringify dataWithoutChecksum))"

text \<open>\<open>!data._checksum\<close> holds for a missing field and for the empty string.\<close>

definition validateDataIntegrity :: "(ChatDataV2 \<Rightarrow> jsstring) \<Rightarrow> ChatDataV2 \<Rightarrow> bool" where
  "validateDataIntegrity stringify data =
     (case checksum data of
        None \<Rightarrow> True
      | Some c \<Rightarrow>
          if c = [] then True
          else (let expectedChecksum = computeDataChecksum stringify data
                in c = expectedChecksum))"

text \<open>
  One pass of the read loop of \<open>loadChat\<close>: read, parse, reject a V2 document whose
  checksum does not validate. \<open>None\<close> is a failed attempt (any exception).
\<close>

definition loadAttempt ::
  "(ChatDataV2 \<Rightarrow> jsstring) \<Rightarrow> (jsstring \<Rightarrow> ChatData option) \<Rightarrow> jsstring option \<Rightarrow> ChatData option" where
  "loadAttempt stringify parse r =
     (case r of
        None \<Rightarrow> None
      | Some content \<Rightarrow>
          (case parse content of
             None \<Rightarrow> None
           | Some (V1 d) \<Rightarrow> Some (V1 d)
           | Some (V2 d) \<Rightarrow> if \<not> validateDataIntegrity stringify d then None else Some (V2 d)))"

text \<open>
  The loop itself: \<open>reads k\<close> is what the \<open>k\<close>-th read returns (\<open>None\<close> when it throws);
  the first of the at most \<open>MAX_LOAD_RETRIES\<close> attempts that succeeds gives \<open>rawData\<close>.
\<close>

fun readLoop ::
  "(ChatDataV2 \<Rightarrow> jsstring) \<Rightarrow> (jsstring \<Rightarrow> ChatData option) \<Rightarrow> (nat \<Rightarrow> jsstring option)
     \<Rightarrow> nat \<Rightarrow> nat \<Rightarrow> ChatData option" where
  "readLoop stringify parse reads attempt 0 = None"
| "readLoop stringify parse reads attempt (Suc left) =
     (case loadAttempt stringify parse (reads attempt) of
        Some rawData \<Rightarrow> Some rawData
      | None \<Rightarrow> readLoop stringify parse reads (Suc attempt) left)"

definition readWithRetries ::
  "(ChatDataV2 \<Rightarrow> jsstring) \<Rightarrow> (jsstring \<Rightarrow> ChatData option) \<Rightarrow> (nat \<Rightarrow> jsstring option)
     \<Rightarrow> ChatData option" where
  "readWithRetries stringify parse reads = readLoop stringify parse reads 1 MAX_LOAD_RETRIES"

text \<open>
  The integrity step of \<open>saveChat\<close>: delete the old checksum, store the new one, and
  serialise the document for writing.
\<close>

definition stampChecksum :: "(ChatDataV2 \<Rightarrow> jsstring) \<Rightarrow> ChatDataV2 \<Rightarrow> ChatDataV2" where
  "stampChecksum stringify data =
     (let d = data\<lparr>checksum := None\<rparr>
      in d\<lparr>checksum := Some (computeDataChecksum stringify d)\<rparr>)"

definition saveContent ::
  "(ChatDataV2 \<Rightarrow> jsstring) \<Rightarrow> (ChatDataV2 \<Rightarrow> jsstring) \<Rightarrow> ChatDataV2 \<Rightarrow> jsstring" where
  "saveContent stringify pretty data = pretty (stampChecksum stringify data)"

section \<open>Registration lock (releaseLock)\<close>

text \<open>
  The value \<open>JSON.parse\<close> returns. Reading \<open>.holder\<close> of \<open>null\<close> throws; of an object it
  gives the property or \<open>undefined\<close>; of any other value it gives \<open>undefined\<close>.
\<close>

datatype json = JNull | JBool bool | JNum int | JStr string | JArr "json list"
  | JObj "(string \<times> json) list"

datatype 'a thrown = Throws | Value 'a

fun getHolder :: "json \<Rightarrow> json option thrown" where
  "getHolder JNull = Throws"
| "getHolder (JObj kvs) = Value (map_of kvs ''holder'')"
| "getHolder v = Value None"

text \<open>
  The adapter's lock file is \<open>None\<close> when it does not exist, else its content.
  \<open>releaseLock\<close> returns the lock file it leaves behind.
\<close>

definition releaseLock :: "string \<Rightarrow> (string \<Rightarrow> json option) \<Rightarrow> string option \<Rightarrow> string option" where
  "releaseLock localId parse lockFile =
     (case lockFile of
        None \<Rightarrow> None
      | Some content \<Rightarrow>
          (case parse content of
             None \<Rightarrow> None
           | Some lockData \<Rightarrow>
               (case getHolder lockData of
                  Throws \<Rightarrow> None
                | Value holder \<Rightarrow> if holder = Some (JStr localId) then None else Some content)))"

text \<open>The values of \<open>JSON.parse\<close> at the lock files used in the examples.\<close>

definition sampleParse :: "string \<Rightarrow> json option" where
  "sampleParse s =
     (if s = ''{\"holder\":\"bob@laptop\",\"timestamp\":1700000000000}''
      then Some (JObj [(''holder'', JStr ''bob@laptop''), (''timestamp'', JNum 1700000000000)])
      else if s = ''{\"holder\":\"bob@lap'' then None
      else None)"

text \<open>A document and its serialisation used in the examples.\<close>

definition sampleDoc :: ChatDataV2 where
  "sampleDoc = \<lparr>channels = [], channelMessages = [], readState = [], mutedChannels = None,
     deletedChannels = None, checksum = None\<rparr>"

definition sampleStringify :: "ChatDataV2 \<Rightarrow> jsstring" where
  "sampleStringify d = []"

definition samplePretty :: "ChatDataV2 \<Rightarrow> jsstring" where
  "samplePretty d = (case checksum d of None \<Rightarrow> [0] | Some c \<Rightarrow> map (\<lambda>ch. of_nat (of_char ch)) c)"

definition sampleParseChat :: "jsstring \<Rightarrow> ChatData option" where
  "sampleParseChat content =
     (if content = [0] then Some (V2 sampleDoc)
      else if content = map (\<lambda>ch. of_nat (of_char ch)) ''811c9dc5''
      then Some (V2 (sampleDoc\<lparr>checksum := Some ''811c9dc5''\<rparr>))
      else None)"

section \<open>Message merge (mergeMessageUpdates)\<close>

text \<open>
  JavaScript truthiness of an optional boolean and of an optional string.
\<close>

definition truthyB :: "bool option \<Rightarrow> bool" where
  "truthyB b = (b = Some True)"

definition truthyS :: "string option \<Rightarrow> bool" where
  "truthyS s = (case s of None \<Rightarrow> False | Some v \<Rightarrow> v \<noteq> [])"

text \<open>
  \<open>new Date(s).getTime()\<close> is a parameter \<open>tm\<close>; \<open>None\<close> is the time value \<open>NaN\<close> of an
  invalid date. \<open>new Date(a) > new Date(b)\<close> compares the time values and is false when
  either is \<open>NaN\<close>.
\<close>

definition dateGt :: "(string \<Rightarrow> int option) \<Rightarrow> string \<Rightarrow> string \<Rightarrow> bool" where
  "dateGt tm a b = (case (tm a, tm b) of (Some x, Some y) \<Rightarrow> y < x | _ \<Rightarrow> False)"

text \<open>
  The reaction-toggle ledger \<open>recentlyToggledReactions\<close>: per message id a
  \<open>Map\<close> from the key \<open>emoji|username\<close> to \<open>{added, timestamp}\<close>. Every key is built by
  \<open>trackReactionToggle\<close> from an emoji and a user name, so an entry keeps both; entries are
  in insertion order and two entries never have the same key.

  The ledgers are read by pure lookups at the clock reading \<open>now\<close> (\<open>Date.now()\<close>). The source
  also deletes an expired entry when a lookup meets one; an expired entry answers like a
  missing one, so this deletion does not change any result below and is left out.
\<close>

record ToggleEntry =
  t_emoji :: string
  t_username :: string
  t_added :: bool
  t_timestamp :: int

definition REACTION_TOGGLE_PROTECTION_DURATION :: int where
  "REACTION_TOGGLE_PROTECTION_DURATION = 60000"

definition toggleKey :: "string \<Rightarrow> string \<Rightarrow> string" where
  "toggleKey e u = e @ ''|'' @ u"

definition entryKey :: "ToggleEntry \<Rightarrow> string" where
  "entryKey t = toggleKey (t_emoji t) (t_username t)"

definition trackReactionToggle ::
  "int \<Rightarrow> (string \<Rightarrow> ToggleEntry list option) \<Rightarrow> string \<Rightarrow> string \<Rightarrow> string \<Rightarrow> bool
     \<Rightarrow> (string \<Rightarrow> ToggleEntry list option)" where
  "trackReactionToggle now toggles messageId e username added =
     (let msgToggles = (case toggles messageId of None \<Rightarrow> [] | Some ts \<Rightarrow> ts);
          key = toggleKey e username;
          entry = \<lparr>t_emoji = e, t_username = username, t_added = added, t_timestamp = now\<rparr>
      in toggles(messageId \<mapsto>
           (if key \<in> set (map entryKey msgToggles)
            then map (\<lambda>t. if entryKey t = key then entry else t) msgToggles
            else msgToggles @ [entry])))"

definition getRecentReactionToggle ::
  "int \<Rightarrow> (string \<Rightarrow> ToggleEntry list option) \<Rightarrow> string \<Rightarrow> string \<Rightarrow> string \<Rightarrow> bool option" where
  "getRecentReactionToggle now toggles messageId e username =
     (case toggles messageId of
        None \<Rightarrow> None
      | Some msgToggles \<Rightarrow>
          (let key = toggleKey e username
           in case find (\<lambda>t. entryKey t = key) msgToggles of
                None \<Rightarrow> None
              | Some toggle \<Rightarrow>
                  (let age = now - t_timestamp toggle
                   in if REACTION_TOGGLE_PROTECTION_DURATION < age then None
                      else Some (t_added toggle))))"

text \<open>\<open>key.split('|')\<close>, and the destructuring \<open>[emoji, username] = key.split('|')\<close>.\<close>

fun splitOn :: "char \<Rightarrow> string \<Rightarrow> string list" where
  "splitOn c [] = [[]]"
| "splitOn c (x # xs) =
     (if x = c then [] # splitOn c xs
      else (case splitOn c xs of s # ss \<Rightarrow> (x # s) # ss | [] \<Rightarrow> [[x]]))"

text \<open>
  A key always contains the separator, so the split has at least two parts; \<open>None\<close>
  stands for the case of a single part, which no key produces.
\<close>

definition keyParts :: "string \<Rightarrow> (string \<times> string) option" where
  "keyParts key = (case splitOn CHR ''|'' key of a # b # rest \<Rightarrow> Some (a, b) | _ \<Rightarrow> None)"

text \<open>
  \<open>emojiMap\<close>, a \<open>Map\<close> from emoji to a \<open>Set\<close> of user names, both in insertion order.
  \<open>emEnsure\<close> is \<open>if (!emojiMap.has(e)) emojiMap.set(e, new Set())\<close>,
  \<open>emAdd\<close> is \<open>emojiMap.get(e)!.add(u)\<close>.
\<close>

type_synonym emojiMap = "(string \<times> string list) list"

definition emEnsure :: "emojiMap \<Rightarrow> string \<Rightarrow> emojiMap" where
  "emEnsure em e = (if e \<in> set (map fst em) then em else em @ [(e, [])])"

definition emAdd :: "emojiMap \<Rightarrow> string \<Rightarrow> string \<Rightarrow> emojiMap" where
  "emAdd em e u =
     map (\<lambda>(k, us). if k = e then (k, if u \<in> set us then us else us @ [u]) else (k, us)) em"

definition collectOurs :: "emojiMap \<Rightarrow> ChatReaction list \<Rightarrow> emojiMap" where
  "collectOurs em reactions =
     foldl (\<lambda>em reaction. foldl (\<lambda>em user. emAdd em (emoji reaction) user)
                              (emEnsure em (emoji reaction)) (users reaction))
       em reactions"

definition collectDisk ::
  "int \<Rightarrow> (string \<Rightarrow> ToggleEntry list option) \<Rightarrow> string \<Rightarrow> emojiMap \<Rightarrow> ChatReaction list \<Rightarrow> emojiMap" where
  "collectDisk now toggles ourId em reactions =
     foldl (\<lambda>em reaction.
              foldl (\<lambda>em user.
                       if getRecentReactionToggle now toggles ourId (emoji reaction) user = Some False
                       then em
                       else emAdd em (emoji reaction) user)
                (emEnsure em (emoji reaction)) (users reaction))
       em reactions"

definition forceAdded :: "int \<Rightarrow> emojiMap \<Rightarrow> ToggleEntry list \<Rightarrow> emojiMap" where
  "forceAdded now em msgToggles =
     foldl (\<lambda>em toggle.
              if REACTION_TOGGLE_PROTECTION_DURATION < now - t_timestamp toggle then em
              else if t_added toggle then
                (case keyParts (entryKey toggle) of
                   Some (e, username) \<Rightarrow> emAdd (emEnsure em e) e username
                 | None \<Rightarrow> em)
              else em)
       em msgToggles"

definition toReactions :: "emojiMap \<Rightarrow> ChatReaction list" where
  "toReactions em =
     map (\<lambda>(e, us). \<lparr>emoji = e, users = us\<rparr>) (filter (\<lambda>(e, us). 0 < length us) em)"

definition mergedReactions ::
  "int \<Rightarrow> (string \<Rightarrow> ToggleEntry list option) \<Rightarrow> ChatMessage \<Rightarrow> ChatMessage \<Rightarrow> ChatReaction list" where
  "mergedReactions now toggles ourMsg diskMsg =
     (let em1 = (case m_reactions ourMsg of None \<Rightarrow> [] | Some rs \<Rightarrow> collectOurs [] rs);
          em2 = (case m_reactions diskMsg of None \<Rightarrow> em1
                 | Some rs \<Rightarrow> collectDisk now toggles (m_id ourMsg) em1 rs);
          em3 = (case toggles (m_id ourMsg) of None \<Rightarrow> em2
                 | Some msgToggles \<Rightarrow> forceAdded now em2 msgToggles)
      in toReactions em3)"

text \<open>
  The branch "disk has no reactions at all and we do, and disk is deleted or was edited
  after our version: trust disk".
\<close>

definition trustDisk :: "(string \<Rightarrow> int option) \<Rightarrow> ChatMessage \<Rightarrow> ChatMessage \<Rightarrow> bool" where
  "trustDisk tm ourMsg diskMsg =
     (m_reactions diskMsg = None
      \<and> (case m_reactions ourMsg of None \<Rightarrow> False | Some rs \<Rightarrow> 0 < length rs)
      \<and> (truthyB (m_deleted diskMsg)
         \<or> (truthyS (m_editedAt diskMsg) \<and> truthyS (m_editedAt ourMsg)
            \<and> dateGt tm (the (m_editedAt diskMsg)) (the (m_editedAt ourMsg)))))"

definition mergeReactionsStep ::
  "(string \<Rightarrow> int option) \<Rightarrow> int \<Rightarrow> (string \<Rightarrow> ToggleEntry list option) \<Rightarrow> ChatMessage \<Rightarrow> ChatMessage
     \<Rightarrow> ChatMessage" where
  "mergeReactionsStep tm now toggles ourMsg diskMsg =
     (let merged = mergedReactions now toggles ourMsg diskMsg
      in if trustDisk tm ourMsg diskMsg then ourMsg\<lparr>m_reactions := None\<rparr>
         else ourMsg\<lparr>m_reactions := (if 0 < length merged then Some merged else None)\<rparr>)"

definition mergeEditedStep :: "(string \<Rightarrow> int option) \<Rightarrow> ChatMessage \<Rightarrow> ChatMessage \<Rightarrow> ChatMessage" where
  "mergeEditedStep tm ourMsg diskMsg =
     (if truthyB (m_edited diskMsg) then
        (if \<not> truthyB (m_edited ourMsg) then
           ourMsg\<lparr>m_edited := m_edited diskMsg, m_editedAt := m_editedAt diskMsg,
                  m_message := m_message diskMsg, m_mentions := m_mentions diskMsg,
                  m_fileLinks := m_fileLinks diskMsg,
                  m_channelMentions := m_channelMentions diskMsg\<rparr>
         else if truthyS (m_editedAt diskMsg) \<and> truthyS (m_editedAt ourMsg) then
           (if dateGt tm (the (m_editedAt diskMsg)) (the (m_editedAt ourMsg)) then
              ourMsg\<lparr>m_editedAt := m_editedAt diskMsg,
                     m_message := m_message diskMsg, m_mentions := m_mentions diskMsg,
                     m_fileLinks := m_fileLinks diskMsg,
                     m_channelMentions := m_channelMentions diskMsg\<rparr>
            else ourMsg)
         else ourMsg)
      else ourMsg)"

definition mergeDeletedStep :: "ChatMessage \<Rightarrow> ChatMessage \<Rightarrow> ChatMessage" where
  "mergeDeletedStep ourMsg diskMsg =
     (if truthyB (m_deleted diskMsg) \<and> \<not> truthyB (m_deleted ourMsg) then
        ourMsg\<lparr>m_deleted := m_deleted diskMsg, m_message := [], m_images := None,
               m_fileLinks := None, m_mentions := None, m_channelMentions := None,
               m_reactions := None\<rparr>
      else ourMsg)"

definition mergeMessageUpdates ::
  "(string \<Rightarrow> int option) \<Rightarrow> int \<Rightarrow> (string \<Rightarrow> ToggleEntry list option) \<Rightarrow> ChatMessage \<Rightarrow> ChatMessage
     \<Rightarrow> ChatMessage" where
  "mergeMessageUpdates tm now toggles ourMsg diskMsg =
     mergeDeletedStep
       (mergeEditedStep tm (mergeReactionsStep tm now toggles ourMsg diskMsg) diskMsg) diskMsg"

text \<open>The (emoji, user) pairs of a reaction list and of an emoji map.\<close>

definition pairsR :: "ChatReaction list \<Rightarrow> (string \<times> string) set" where
  "pairsR rs = (\<Union>r \<in> set rs. {emoji r} \<times> set (users r))"

definition pairsOf :: "ChatReaction list option \<Rightarrow> (string \<times> string) set" where
  "pairsOf rs = (case rs of None \<Rightarrow> {} | Some l \<Rightarrow> pairsR l)"

definition pairsEM :: "emojiMap \<Rightarrow> (string \<times> string) set" where
  "pairsEM em = (\<Union>(e, us) \<in> set em. {e} \<times> set us)"

text \<open>
  The pairs that the ledger forces in: the decoded keys of the entries of the message
  that were toggled on and have not expired.
\<close>

definition forcedPairs :: "int \<Rightarrow> (string \<Rightarrow> ToggleEntry list option) \<Rightarrow> string \<Rightarrow> (string \<times> string) set" where
  "forcedPairs now toggles messageId =
     (case toggles messageId of
        None \<Rightarrow> {}
      | Some msgToggles \<Rightarrow>
          {p. \<exists>t \<in> set msgToggles. \<not> REACTION_TOGGLE_PROTECTION_DURATION < now - t_timestamp t
                \<and> t_added t \<and> keyParts (entryKey t) = Some p})"

text \<open>The field updates of \<open>deleteMessage\<close> on the message it found.\<close>

definition markDeleted :: "ChatMessage \<Rightarrow> ChatMessage" where
  "markDeleted message =
     message\<lparr>m_deleted := Some True, m_message := [], m_images := None, m_fileLinks := None,
             m_mentions := None, m_channelMentions := None\<rparr>"

text \<open>Messages, time values and a ledger used in the examples.\<close>

definition sampleMsg :: ChatMessage where
  "sampleMsg = \<lparr>m_id = ''m1'', m_from = ''alice'', m_message = ''hello'',
     m_timestamp = ''2024-05-01T10:00:00.000Z'', m_fileLinks = None, m_mentions = None,
     m_channelMentions = None, m_images = None, m_reactions = None, m_edited = None,
     m_editedAt = None, m_deleted = None, m_replyTo = None\<rparr>"

definition sampleTm :: "string \<Rightarrow> int option" where
  "sampleTm s =
     (if s = ''2024-05-01T10:00:00.000Z'' then Some 1714557600000
      else if s = ''2024-05-01T10:05:00.000Z'' then Some 1714557900000
      else if s = ''2024-05-01T10:06:00.000Z'' then Some 1714557960000
      else None)"

definition sampleToggles :: "string \<Rightarrow> ToggleEntry list option" where
  "sampleToggles =
     trackReactionToggle 1714557965000
       (trackReactionToggle 1714557962000 (\<lambda>messageId. None) ''m1'' ''+1'' ''bob'' False)
       ''m1'' ''tada'' ''bob'' True"

definition sampleOurs :: ChatMessage where
  "sampleOurs = sampleMsg\<lparr>m_reactions := Some [\<lparr>emoji = ''+1'', users = [''alice'']\<rparr>]\<rparr>"

definition sampleDisk :: ChatMessage where
  "sampleDisk = sampleMsg\<lparr>m_reactions :=
     Some [\<lparr>emoji = ''+1'', users = [''alice'', ''bob'']\<rparr>, \<lparr>emoji = ''heart'', users = [''carol'']\<rparr>]\<rparr>"

definition sampleDiskDeleted :: ChatMessage where
  "sampleDiskDeleted = markDeleted sampleMsg"

definition sampleOursEdited :: ChatMessage where
  "sampleOursEdited = sampleMsg\<lparr>m_reactions := Some [\<lparr>emoji = ''tada'', users = [''bob'']\<rparr>],
     m_edited := Some True, m_editedAt := Some ''2024-05-01T10:05:00.000Z''\<rparr>"

definition sampleDiskEdited :: ChatMessage where
  "sampleDiskEdited = sampleMsg\<lparr>m_message := ''hello there'',
     m_edited := Some True, m_editedAt := Some ''2024-05-01T10:06:00.000Z''\<rparr>"

definition sampleDiskReacted :: ChatMessage where
  "sampleDiskReacted = sampleMsg\<lparr>m_message := ''hello there'',
     m_reactions := Some [\<lparr>emoji = ''+1'', users = [''carol'']\<rparr>],
     m_edited := Some True, m_editedAt := Some ''2024-05-01T10:05:00.000Z''\<rparr>"

section \<open>Chat manager state\<close>

text \<open>
  The fields of \<open>ChatManager\<close>. \<open>currentUser\<close> is the vault name of
  \<open>userManager.getCurrentUser()\<close> (\<open>None\<close> when there is none) and \<open>currentUserIsAdmin\<close> is
  \<open>userManager.isCurrentUserAdmin()\<close>. \<open>recentlySentMessages\<close> is iterated, so it is a list
  of (message id, channel id, message, timestamp); the other ledgers are only looked up.
\<close>

record ChatManager =
  chatData :: ChatDataV2
  activeChannelId :: string
  currentUser :: "string option"
  currentUserIsAdmin :: bool
  recentlySentMessages :: "(string \<times> string \<times> ChatMessage \<times> int) list"
  recentlyDismissedMessages :: "string \<Rightarrow> int option"
  recentlyDeletedChannels :: "string \<Rightarrow> int option"
  recentlyLeftChannels :: "string \<Rightarrow> int option"
  recentlyAddedMembers :: "string \<Rightarrow> (string \<times> int) list option"
  recentlyToggledReactions :: "string \<Rightarrow> ToggleEntry list option"

text \<open>
  What one call reads from its surroundings: the clock (\<open>Date.now()\<close> and
  \<open>new Date().toISOString()\<close>), the fresh identifier of \<open>generateId()\<close>, what \<open>saveChat\<close>
  finds on disk, and the platform functions \<open>new Date(s).getTime()\<close> and \<open>JSON.stringify\<close>.
\<close>

datatype diskRead = NoFile | Unreadable | Parsed ChatData

record Env =
  e_now :: int
  e_iso :: string
  e_id :: string
  e_disk :: diskRead
  e_tm :: "string \<Rightarrow> int option"
  e_stringify :: "ChatDataV2 \<Rightarrow> jsstring"

definition MESSAGE_PROTECTION_DURATION :: int where "MESSAGE_PROTECTION_DURATION = 60000"
definition DISMISS_PROTECTION_DURATION :: int where "DISMISS_PROTECTION_DURATION = 60000"
definition CHANNEL_DELETE_PROTECTION :: int where "CHANNEL_DELETE_PROTECTION = 300000"
definition LEAVE_PROTECTION_DURATION :: int where "LEAVE_PROTECTION_DURATION = 300000"
definition ADD_MEMBER_PROTECTION_DURATION :: int where "ADD_MEMBER_PROTECTION_DURATION = 300000"
definition DELETED_CHANNEL_RETENTION_MS :: int where "DELETED_CHANNEL_RETENTION_MS = 24 * 60 * 60 * 1000"

text \<open>A stored time is falsy when it is missing or \<open>0\<close>.\<close>

definition isRecentlyDismissed :: "int \<Rightarrow> ChatManager \<Rightarrow> string \<Rightarrow> bool" where
  "isRecentlyDismissed now st messageId =
     (case recentlyDismissedMessages st messageId of
        None \<Rightarrow> False
      | Some dismissedTime \<Rightarrow>
          if dismissedTime = 0 then False
          else if DISMISS_PROTECTION_DURATION < now - dismissedTime then False
          else True)"

definition hasRecentlyLeftChannel :: "int \<Rightarrow> ChatManager \<Rightarrow> string \<Rightarrow> bool" where
  "hasRecentlyLeftChannel now st channelId =
     (case recentlyLeftChannels st channelId of
        None \<Rightarrow> False
      | Some leftTime \<Rightarrow>
          if leftTime = 0 then False
          else (let age = now - leftTime
                in if LEAVE_PROTECTION_DURATION < age then False else True))"

definition getRecentlyAddedMembers :: "int \<Rightarrow> ChatManager \<Rightarrow> string \<Rightarrow> string list" where
  "getRecentlyAddedMembers now st channelId =
     (case recentlyAddedMembers st channelId of
        None \<Rightarrow> []
      | Some channelMembers \<Rightarrow>
          map fst (filter (\<lambda>(username, addedTime). now - addedTime \<le> ADD_MEMBER_PROTECTION_DURATION)
                     channelMembers))"

definition trackMemberAdded :: "int \<Rightarrow> ChatManager \<Rightarrow> string \<Rightarrow> string \<Rightarrow> ChatManager" where
  "trackMemberAdded now st channelId username =
     (let channelMembers = (case recentlyAddedMembers st channelId of None \<Rightarrow> [] | Some ms \<Rightarrow> ms)
      in st\<lparr>recentlyAddedMembers :=
           (recentlyAddedMembers st)(channelId \<mapsto> AList.update username now channelMembers)\<rparr>)"

text \<open>
  \<open>isRecentlyDeletedChannel\<close>: the memory cache first, then the persisted tombstones.
  An age computed from an invalid date is \<open>NaN\<close> and fails the comparison.
\<close>

definition isRecentlyDeletedChannel ::
  "(string \<Rightarrow> int option) \<Rightarrow> int \<Rightarrow> ChatManager \<Rightarrow> string \<Rightarrow> bool" where
  "isRecentlyDeletedChannel tm now st channelId =
     (let cached = (case recentlyDeletedChannels st channelId of
                      None \<Rightarrow> False
                    | Some deletedTime \<Rightarrow> deletedTime \<noteq> 0 \<and> now - deletedTime \<le> CHANNEL_DELETE_PROTECTION)
      in if cached then True
         else (case deletedChannels (chatData st) of
                 None \<Rightarrow> False
               | Some ds \<Rightarrow>
                   (case find (\<lambda>d. d_id d = channelId) ds of
                      None \<Rightarrow> False
                    | Some persistedDeletion \<Rightarrow>
                        (case tm (d_deletedAt persistedDeletion) of
                           None \<Rightarrow> False
                         | Some t \<Rightarrow> now - t \<le> DELETED_CHANNEL_RETENTION_MS))))"

text \<open>
  \<open>Array.prototype.sort\<close> with the comparator \<open>new Date(a.timestamp) - new Date(b.timestamp)\<close>
  is a stable sort by time value. For an invalid timestamp the comparator yields \<open>NaN\<close>
  and the order is left to the engine; the model places such a message by the key \<open>0\<close>,
  and no result below depends on the order.
\<close>

definition sortByTimestamp :: "(string \<Rightarrow> int option) \<Rightarrow> ChatMessage list \<Rightarrow> ChatMessage list" where
  "sortByTimestamp tm xs =
     sort_key (\<lambda>m. case tm (m_timestamp m) of None \<Rightarrow> 0 | Some t \<Rightarrow> t) xs"

fun updateFirst :: "('a \<Rightarrow> bool) \<Rightarrow> ('a \<Rightarrow> 'a) \<Rightarrow> 'a list \<Rightarrow> 'a list" where
  "updateFirst P f [] = []"
| "updateFirst P f (x # xs) = (if P x then f x # xs else x # updateFirst P f xs)"

text \<open>
  \<open>new Map(xs.map(x => [x.id, x]))\<close> keeps, for each id, the last element with that id;
  a change made through the map changes that element of the array.
\<close>

definition updateLast :: "('a \<Rightarrow> bool) \<Rightarrow> ('a \<Rightarrow> 'a) \<Rightarrow> 'a list \<Rightarrow> 'a list" where
  "updateLast P f xs = rev (updateFirst P f (rev xs))"

text \<open>\<open>Array.from(new Set(xs))\<close>: the first occurrence of each element, in order.\<close>

definition dedupe :: "'a list \<Rightarrow> 'a list" where
  "dedupe xs = rev (remdups (rev xs))"

subsection \<open>Merging the messages of the disk document\<close>

text \<open>
  One disk message. \<open>ourIds\<close> are the ids of \<open>ourMessageMap\<close>, built before the loop.
\<close>

definition mergeDiskMessage ::
  "(string \<Rightarrow> int option) \<Rightarrow> int \<Rightarrow> (string \<Rightarrow> ToggleEntry list option) \<Rightarrow> string list
     \<Rightarrow> ChatMessage list \<Rightarrow> ChatMessage \<Rightarrow> ChatMessage list" where
  "mergeDiskMessage tm now toggles ourIds cur diskMsg =
     (if m_id diskMsg \<in> set ourIds
      then updateLast (\<lambda>m. m_id m = m_id diskMsg)
             (\<lambda>ourMsg. mergeMessageUpdates tm now toggles ourMsg diskMsg) cur
      else cur @ [diskMsg])"

text \<open>The message loop of \<open>saveChat\<close> for one channel of the disk document.\<close>

definition mergeChannelSave ::
  "(string \<Rightarrow> int option) \<Rightarrow> int \<Rightarrow> (string \<Rightarrow> ToggleEntry list option)
     \<Rightarrow> (string \<times> ChatMessage list) list \<Rightarrow> string \<times> ChatMessage list
     \<Rightarrow> (string \<times> ChatMessage list) list" where
  "mergeChannelSave tm now toggles cm entry =
     (case entry of (channelId, diskMsgs) \<Rightarrow>
        (case map_of cm channelId of
           None \<Rightarrow> AList.update channelId diskMsgs cm
         | Some ours \<Rightarrow>
             AList.update channelId
               (sortByTimestamp tm
                  (foldl (mergeDiskMessage tm now toggles (map m_id ours)) ours diskMsgs))
               cm))"

text \<open>The message loop of \<open>loadChat\<close>: the same, skipping recently dismissed messages.\<close>

definition mergeChannelLoad ::
  "(string \<Rightarrow> int option) \<Rightarrow> int \<Rightarrow> ChatManager
     \<Rightarrow> (string \<times> ChatMessage list) list \<Rightarrow> string \<times> ChatMessage list
     \<Rightarrow> (string \<times> ChatMessage list) list" where
  "mergeChannelLoad tm now st cm entry =
     (case entry of (channelId, diskMsgs) \<Rightarrow>
        (case map_of cm channelId of
           None \<Rightarrow>
             AList.update channelId
               (filter (\<lambda>m. \<not> isRecentlyDismissed now st (m_id m)) diskMsgs) cm
         | Some ours \<Rightarrow>
             AList.update channelId
               (sortByTimestamp tm
                  (foldl (\<lambda>cur diskMsg.
                            if isRecentlyDismissed now st (m_id diskMsg) then cur
                            else mergeDiskMessage tm now (recentlyToggledReactions st)
                                   (map m_id ours) cur diskMsg)
                     ours diskMsgs))
               cm))"

subsection \<open>Merging read state, mute lists and tombstones\<close>

definition mergeReadStateUser ::
  "(string \<Rightarrow> int option) \<Rightarrow> (string \<times> string) list \<Rightarrow> string \<times> string \<Rightarrow> (string \<times> string) list" where
  "mergeReadStateUser tm ours entry =
     (case entry of (username, diskTimestamp) \<Rightarrow>
        (case map_of ours username of
           None \<Rightarrow> AList.update username diskTimestamp ours
         | Some ourTimestamp \<Rightarrow>
             if ourTimestamp = [] \<or> dateGt tm diskTimestamp ourTimestamp
             then AList.update username diskTimestamp ours else ours))"

definition mergeReadState ::
  "(string \<Rightarrow> int option) \<Rightarrow> (string \<times> (string \<times> string) list) list
     \<Rightarrow> (string \<times> (string \<times> string) list) list \<Rightarrow> (string \<times> (string \<times> string) list) list" where
  "mergeReadState tm ours disk =
     foldl (\<lambda>rs (channelId, diskRS).
              case map_of rs channelId of
                None \<Rightarrow> AList.update channelId diskRS rs
              | Some ourRS \<Rightarrow> AList.update channelId (foldl (mergeReadStateUser tm) ourRS diskRS) rs)
       ours disk"

definition mergeMutedChannels ::
  "(string \<times> string list) list option \<Rightarrow> (string \<times> string list) list option
     \<Rightarrow> (string \<times> string list) list option" where
  "mergeMutedChannels ours disk =
     (case disk of
        None \<Rightarrow> ours
      | Some diskMuted \<Rightarrow>
          Some (foldl (\<lambda>mc (username, diskList).
                         case map_of mc username of
                           None \<Rightarrow> AList.update username diskList mc
                         | Some ourList \<Rightarrow> AList.update username (dedupe (ourList @ diskList)) mc)
                  (case ours of None \<Rightarrow> [] | Some mc \<Rightarrow> mc) diskMuted))"

text \<open>
  Tombstones: \<open>ourDeletedIds\<close> is computed before the loop, every disk record whose id is
  not in it is pushed.
\<close>

definition mergeDeletedChannels :: "DeletedChannel list \<Rightarrow> DeletedChannel list \<Rightarrow> DeletedChannel list" where
  "mergeDeletedChannels ours disk =
     ours @ filter (\<lambda>diskDeleted. d_id diskDeleted \<notin> set (map d_id ours)) disk"

subsection \<open>ensureRecentMessagesExist\<close>

definition ensureRecentStep ::
  "(string \<Rightarrow> int option) \<Rightarrow> (string \<times> ChatMessage list) list
     \<Rightarrow> string \<times> string \<times> ChatMessage \<times> int \<Rightarrow> (string \<times> ChatMessage list) list" where
  "ensureRecentStep tm cm entry =
     (case entry of (msgId, channelId, message, timestamp) \<Rightarrow>
        (let cm1 = (case map_of cm channelId of None \<Rightarrow> AList.update channelId [] cm | Some l \<Rightarrow> cm);
             l = (case map_of cm1 channelId of None \<Rightarrow> [] | Some l \<Rightarrow> l);
             exists = (msgId \<in> set (map m_id l))
         in if \<not> exists then AList.update channelId (sortByTimestamp tm (l @ [message])) cm1
            else cm1))"

definition ensureRecentMessagesExist :: "(string \<Rightarrow> int option) \<Rightarrow> int \<Rightarrow> ChatManager \<Rightarrow> ChatManager" where
  "ensureRecentMessagesExist tm now st =
     (let live = filter (\<lambda>(msgId, channelId, message, timestamp).
                           \<not> MESSAGE_PROTECTION_DURATION < now - timestamp)
                   (recentlySentMessages st)
      in st\<lparr>recentlySentMessages := live,
            chatData := (chatData st)\<lparr>channelMessages :=
              foldl (ensureRecentStep tm) (channelMessages (chatData st)) live\<rparr>\<rparr>)"

subsection \<open>saveChat\<close>

text \<open>
  \<open>saveChat\<close> merges messages, read state, tombstones and mute lists of a V2 document found
  on disk into memory (never its channels), re-adds protected messages, stores the new
  checksum and writes the document. The written text is \<open>JSON.stringify(chatData, null, 2)\<close>
  of the resulting \<open>chatData\<close>; the write-and-verify loop changes nothing in memory.
\<close>

definition mergeDiskOnSave :: "(string \<Rightarrow> int option) \<Rightarrow> int \<Rightarrow> ChatManager \<Rightarrow> ChatDataV2 \<Rightarrow> ChatDataV2" where
  "mergeDiskOnSave tm now st diskData =
     (let d = chatData st;
          d1 = d\<lparr>channelMessages :=
                 foldl (mergeChannelSave tm now (recentlyToggledReactions st)) (channelMessages d)
                   (channelMessages diskData)\<rparr>;
          d2 = d1\<lparr>readState := mergeReadState tm (readState d1) (readState diskData)\<rparr>;
          d3 = (case deletedChannels diskData of
                  None \<Rightarrow> d2
                | Some diskDeleted \<Rightarrow>
                    d2\<lparr>deletedChannels :=
                         Some (mergeDeletedChannels
                                 (case deletedChannels d2 of None \<Rightarrow> [] | Some l \<Rightarrow> l) diskDeleted)\<rparr>)
      in d3\<lparr>mutedChannels := mergeMutedChannels (mutedChannels d3) (mutedChannels diskData)\<rparr>)"

definition saveChat :: "Env \<Rightarrow> ChatManager \<Rightarrow> ChatManager" where
  "saveChat env st =
     (let st1 = (case e_disk env of
                   Parsed (V2 diskData) \<Rightarrow>
                     st\<lparr>chatData := mergeDiskOnSave (e_tm env) (e_now env) st diskData\<rparr>
                 | _ \<Rightarrow> st);
          st2 = ensureRecentMessagesExist (e_tm env) (e_now env) st1;
          d = chatData st2;
          d1 = d\<lparr>deletedChannels := Some (case deletedChannels d of None \<Rightarrow> [] | Some l \<Rightarrow> l)\<rparr>
      in st2\<lparr>chatData := stampChecksum (e_stringify env) d1\<rparr>)"

section \<open>Channel management\<close>

datatype 'a outcome = Returned 'a | Rejected

definition setChannels :: "Channel list \<Rightarrow> ChatManager \<Rightarrow> ChatManager" where
  "setChannels chs st = st\<lparr>chatData := (chatData st)\<lparr>channels := chs\<rparr>\<rparr>"

definition setChannelMessages :: "(string \<times> ChatMessage list) list \<Rightarrow> ChatManager \<Rightarrow> ChatManager" where
  "setChannelMessages cm st = st\<lparr>chatData := (chatData st)\<lparr>channelMessages := cm\<rparr>\<rparr>"

definition setReadState :: "(string \<times> (string \<times> string) list) list \<Rightarrow> ChatManager \<Rightarrow> ChatManager" where
  "setReadState rs st = st\<lparr>chatData := (chatData st)\<lparr>readState := rs\<rparr>\<rparr>"

definition getChannel :: "ChatManager \<Rightarrow> string \<Rightarrow> Channel option" where
  "getChannel st channelId = find (\<lambda>c. c_id c = channelId) (channels (chatData st))"

definition getMessages :: "ChatManager \<Rightarrow> string \<Rightarrow> ChatMessage list" where
  "getMessages st channelId =
     (case map_of (channelMessages (chatData st)) channelId of None \<Rightarrow> [] | Some l \<Rightarrow> l)"

fun joinWith :: "string \<Rightarrow> string list \<Rightarrow> string" where
  "joinWith sep [] = []"
| "joinWith sep [x] = x"
| "joinWith sep (x # y # ys) = x @ sep @ joinWith sep (y # ys)"

definition isSpace :: "char \<Rightarrow> bool" where
  "isSpace c = (c = CHR '' '' \<or> c = CHR 0x09 \<or> c = CHR 0x0A \<or> c = CHR 0x0D)"

definition trim :: "string \<Rightarrow> string" where
  "trim s = rev (dropWhile isSpace (rev (dropWhile isSpace s)))"

definition systemMessage :: "Env \<Rightarrow> string \<Rightarrow> ChatMessage" where
  "systemMessage env text =
     \<lparr>m_id = e_id env, m_from = ''system'', m_message = text, m_timestamp = e_iso env,
      m_fileLinks = None, m_mentions = None, m_channelMentions = None, m_images = None,
      m_reactions = None, m_edited = None, m_editedAt = None, m_deleted = None,
      m_replyTo = None\<rparr>"

definition createEmptyV2Data :: "string \<Rightarrow> ChatDataV2" where
  "createEmptyV2Data nowIso =
     \<lparr>channels = [\<lparr>c_id = GENERAL_CHANNEL_ID, c_type = General, c_name = ''General'',
                    c_members = [], c_createdBy = ''system'', c_createdAt = nowIso\<rparr>],
      channelMessages = [(GENERAL_CHANNEL_ID, [])],
      readState = [(GENERAL_CHANNEL_ID, [])],
      mutedChannels = None,
      deletedChannels = Some [],
      checksum = None\<rparr>"

definition migrateV1ToV2 :: "string \<Rightarrow> ChatDataV1 \<Rightarrow> ChatDataV2" where
  "migrateV1ToV2 nowIso v1Data =
     (createEmptyV2Data nowIso)
       \<lparr>channelMessages :=
          [(GENERAL_CHANNEL_ID, case messages v1Data of None \<Rightarrow> [] | Some ms \<Rightarrow> ms)],
        readState :=
          [(GENERAL_CHANNEL_ID, case lastReadTimestamp v1Data of None \<Rightarrow> [] | Some l \<Rightarrow> l)]\<rparr>"





text \<open>
  \<open>channelMessages[channelId].push(systemMsg)\<close> throws when the channel has no message
  list; the promise is then rejected after the channel has already been changed.
\<close>

definition pushSystemMessage :: "Env \<Rightarrow> string \<Rightarrow> string \<Rightarrow> ChatManager \<Rightarrow> ChatManager option" where
  "pushSystemMessage env channelId text st =
     (case map_of (channelMessages (chatData st)) channelId of
        None \<Rightarrow> None
      | Some l \<Rightarrow>
          Some (setChannelMessages
                  (AList.update channelId (l @ [systemMessage env text]) (channelMessages (chatData st)))
                  st))"

definition promoteAndAdd :: "string \<Rightarrow> Channel \<Rightarrow> Channel" where
  "promoteAndAdd newMember channel =
     (let channel1 = (if c_type channel = DM
                      then channel\<lparr>c_type := Group, c_name := joinWith '', '' (c_members channel)\<rparr>
                      else channel)
      in channel1\<lparr>c_members := c_members channel1 @ [newMember]\<rparr>)"

definition addMemberToChannel ::
  "Env \<Rightarrow> string \<Rightarrow> string \<Rightarrow> string \<Rightarrow> ChatManager \<Rightarrow> bool outcome \<times> ChatManager" where
  "addMemberToChannel env channelId newMember addedBy st =
     (case getChannel st channelId of
        None \<Rightarrow> (Returned False, st)
      | Some channel \<Rightarrow>
          if c_type channel = General then (Returned False, st)
          else if newMember \<in> set (c_members channel) then (Returned True, st)
          else
            (let st1 = (if currentUser st = Some newMember
                        then st\<lparr>recentlyLeftChannels := (recentlyLeftChannels st)(channelId := None)\<rparr>
                        else st);
                 st2 = setChannels
                         (updateFirst (\<lambda>ch. c_id ch = channelId) (promoteAndAdd newMember)
                            (channels (chatData st1))) st1;
                 st3 = trackMemberAdded (e_now env) st2 channelId newMember
             in case pushSystemMessage env channelId
                       (addedBy @ '' added '' @ newMember @ '' to the conversation'') st3 of
                  None \<Rightarrow> (Rejected, st3)
                | Some st4 \<Rightarrow> (Returned True, saveChat env st4)))"

definition deleteChannel :: "Env \<Rightarrow> string \<Rightarrow> ChatManager \<Rightarrow> bool \<times> ChatManager" where
  "deleteChannel env channelId st =
     (if channelId = GENERAL_CHANNEL_ID then (False, st)
      else
        (let deletedBy = (case currentUser st of None \<Rightarrow> ''unknown''
                          | Some n \<Rightarrow> if n = [] then ''unknown'' else n);
             d = chatData st;
             dl = (case deletedChannels d of None \<Rightarrow> [] | Some l \<Rightarrow> l);
             dl1 = (if channelId \<in> set (map d_id dl) then dl
                    else dl @ [\<lparr>d_id = channelId, d_deletedAt = e_iso env, d_deletedBy = deletedBy\<rparr>]);
             st1 = st\<lparr>recentlyDeletedChannels := (recentlyDeletedChannels st)(channelId \<mapsto> e_now env),
                      chatData := d\<lparr>deletedChannels := Some dl1,
                                     channels := filter (\<lambda>ch. c_id ch \<noteq> channelId) (channels d),
                                     channelMessages := AList.delete channelId (channelMessages d),
                                     readState := AList.delete channelId (readState d)\<rparr>,
                      activeChannelId := (if activeChannelId st = channelId then GENERAL_CHANNEL_ID
                                          else activeChannelId st)\<rparr>
         in (True, saveChat env st1)))"

datatype leaveResult = Left | Deleted | Failed

definition leaveChannel ::
  "Env \<Rightarrow> string \<Rightarrow> string \<Rightarrow> ChatManager \<Rightarrow> leaveResult outcome \<times> ChatManager" where
  "leaveChannel env channelId username st =
     (case getChannel st channelId of
        None \<Rightarrow> (Returned Failed, st)
      | Some channel \<Rightarrow>
          if c_type channel = General then (Returned Failed, st)
          else
            (let members1 = filter (\<lambda>m. m \<noteq> username) (c_members channel);
                 st1 = setChannels
                         (updateFirst (\<lambda>ch. c_id ch = channelId)
                            (\<lambda>ch. ch\<lparr>c_members := filter (\<lambda>m. m \<noteq> username) (c_members ch)\<rparr>)
                            (channels (chatData st))) st;
                 st2 = st1\<lparr>recentlyLeftChannels := (recentlyLeftChannels st1)(channelId \<mapsto> e_now env)\<rparr>;
                 st3 = (case recentlyAddedMembers st2 channelId of
                          None \<Rightarrow> st2
                        | Some channelAddedMembers \<Rightarrow>
                            st2\<lparr>recentlyAddedMembers :=
                                 (recentlyAddedMembers st2)
                                   (channelId \<mapsto> AList.delete username channelAddedMembers)\<rparr>);
                 st4 = (if activeChannelId st3 = channelId
                        then st3\<lparr>activeChannelId := GENERAL_CHANNEL_ID\<rparr> else st3)
             in if length members1 = 0 then (Returned Deleted, snd (deleteChannel env channelId st4))
                else (case pushSystemMessage env channelId (username @ '' left the conversation'') st4 of
                        None \<Rightarrow> (Rejected, st4)
                      | Some st5 \<Rightarrow> (Returned Left, saveChat env st5))))"


definition removeChannelData :: "ChatDataV2 \<Rightarrow> string \<Rightarrow> ChatDataV2" where
  "removeChannelData d channelId =
     d\<lparr>channels := filter (\<lambda>c. c_id c \<noteq> channelId) (channels d),
       channelMessages := AList.delete channelId (channelMessages d),
       readState := AList.delete channelId (readState d)\<rparr>"



section \<open>loadChat\<close>

text \<open>
  One channel of the disk document in the channel loop of \<open>loadChat\<close>. \<open>ourIds\<close> are the ids
  of \<open>ourChannelMap\<close>, built before the loop. The member list starts from the disk list,
  loses the current user after a recent leave and gains the recently added members; an
  unknown channel is pushed with that list, a known one gets it and, for a disk channel of
  type group, the disk name. (\<open>isRecentlyDeletedChannel\<close> also refreshes its memory cache
  from a persisted tombstone; that write does not change its answers and is left out.)
\<close>

definition mergedMembers :: "int \<Rightarrow> ChatManager \<Rightarrow> Channel \<Rightarrow> string list" where
  "mergedMembers now st diskChannel =
     (let base = (case currentUser st of
                    None \<Rightarrow> c_members diskChannel
                  | Some vaultName \<Rightarrow>
                      if hasRecentlyLeftChannel now st (c_id diskChannel)
                      then filter (\<lambda>m. m \<noteq> vaultName) (c_members diskChannel)
                      else c_members diskChannel)
      in foldl (\<lambda>ms member. if member \<in> set ms then ms else ms @ [member]) base
           (getRecentlyAddedMembers now st (c_id diskChannel)))"

definition mergeDiskChannel ::
  "(string \<Rightarrow> int option) \<Rightarrow> int \<Rightarrow> ChatManager \<Rightarrow> string list \<Rightarrow> Channel list \<Rightarrow> Channel
     \<Rightarrow> Channel list" where
  "mergeDiskChannel tm now st ourIds chs diskChannel =
     (if isRecentlyDeletedChannel tm now st (c_id diskChannel) then chs
      else if c_id diskChannel \<notin> set ourIds
      then chs @ [diskChannel\<lparr>c_members := mergedMembers now st diskChannel\<rparr>]
      else updateLast (\<lambda>ch. c_id ch = c_id diskChannel)
             (\<lambda>ourChannel.
                ourChannel\<lparr>c_members := mergedMembers now st diskChannel,
                           c_name := (if c_name diskChannel \<noteq> c_name ourChannel
                                         \<and> c_type diskChannel = Group
                                      then c_name diskChannel else c_name ourChannel)\<rparr>)
             chs)"

text \<open>
  The merge of a disk document into a non-empty memory document. First the tombstones:
  the disk records with unknown ids are added (and cached), records older than 24 hours
  are dropped, and every channel other than General that is absent from disk and has a
  tombstone is removed with its messages and read state.
\<close>

definition loadTombstones :: "Env \<Rightarrow> ChatManager \<Rightarrow> ChatDataV2 \<Rightarrow> ChatManager" where
  "loadTombstones env st diskData =
     (let tm = e_tm env; now = e_now env; d = chatData st;
          ours0 = (case deletedChannels d of None \<Rightarrow> [] | Some l \<Rightarrow> l);
          disk0 = (case deletedChannels diskData of None \<Rightarrow> [] | Some l \<Rightarrow> l);
          newDeleted = filter (\<lambda>diskDeleted. d_id diskDeleted \<notin> set (map d_id ours0)) disk0;
          cache = foldl (\<lambda>c diskDeleted. c(d_id diskDeleted := tm (d_deletedAt diskDeleted)))
                    (recentlyDeletedChannels st) newDeleted;
          dl = filter (\<lambda>dd. case tm (d_deletedAt dd) of None \<Rightarrow> False
                            | Some t \<Rightarrow> now - t < DELETED_CHANNEL_RETENTION_MS)
                 (ours0 @ newDeleted);
          diskChannelIds = map c_id (channels diskData);
          deletedChannelIds = map d_id dl;
          channelsToRemove =
            filter (\<lambda>ch. c_id ch \<noteq> GENERAL_CHANNEL_ID \<and> c_id ch \<notin> set diskChannelIds
                         \<and> c_id ch \<in> set deletedChannelIds)
              (channels d);
          d1 = foldl removeChannelData (d\<lparr>deletedChannels := Some dl\<rparr>) (map c_id channelsToRemove)
      in st\<lparr>recentlyDeletedChannels := cache, chatData := d1\<rparr>)"

text \<open>Then the channels, the messages, the read state and the mute lists.\<close>

definition loadMerge :: "Env \<Rightarrow> ChatManager \<Rightarrow> ChatDataV2 \<Rightarrow> ChatManager" where
  "loadMerge env st diskData =
     (let tm = e_tm env; now = e_now env;
          st1 = loadTombstones env st diskData;
          d1 = chatData st1;
          chs = foldl (mergeDiskChannel tm now st1 (map c_id (channels d1))) (channels d1)
                  (channels diskData);
          cm = foldl (mergeChannelLoad tm now st1) (channelMessages d1) (channelMessages diskData);
          rs = mergeReadState tm (readState d1) (readState diskData);
          mc = mergeMutedChannels (mutedChannels d1) (mutedChannels diskData)
      in st1\<lparr>chatData := d1\<lparr>channels := chs, channelMessages := cm, readState := rs,
                              mutedChannels := mc\<rparr>\<rparr>)"

text \<open>
  What \<open>loadChat\<close> gets from the file: no file, no readable document within the retries, or
  the parsed document.
\<close>

datatype loadRead = FileMissing | AllAttemptsFailed | Loaded ChatData

definition readChatFile ::
  "bool \<Rightarrow> (ChatDataV2 \<Rightarrow> jsstring) \<Rightarrow> (jsstring \<Rightarrow> ChatData option) \<Rightarrow> (nat \<Rightarrow> jsstring option) \<Rightarrow> loadRead" where
  "readChatFile fileExists stringify parse reads =
     (if \<not> fileExists then FileMissing
      else (case readWithRetries stringify parse reads of
              None \<Rightarrow> AllAttemptsFailed
            | Some rawData \<Rightarrow> Loaded rawData))"

definition loadChat :: "Env \<Rightarrow> loadRead \<Rightarrow> ChatManager \<Rightarrow> ChatManager" where
  "loadChat env r st =
     (case r of
        FileMissing \<Rightarrow>
          ensureRecentMessagesExist (e_tm env) (e_now env)
            (saveChat env (st\<lparr>chatData := createEmptyV2Data (e_iso env)\<rparr>))
      | AllAttemptsFailed \<Rightarrow>
          if 0 < length (channels (chatData st)) then st
          else st\<lparr>chatData := createEmptyV2Data (e_iso env)\<rparr>
      | Loaded rawData \<Rightarrow>
          (let diskData = (case rawData of V2 d \<Rightarrow> d | V1 v1 \<Rightarrow> migrateV1ToV2 (e_iso env) v1)
           in if length (channels (chatData st)) = 0
              then (if \<not> isV2Data rawData then saveChat env (st\<lparr>chatData := diskData\<rparr>)
                    else st\<lparr>chatData := diskData\<rparr>)
              else ensureRecentMessagesExist (e_tm env) (e_now env) (loadMerge env st diskData)))"

section \<open>Message operations\<close>

definition targetChannel :: "ChatManager \<Rightarrow> string option \<Rightarrow> string" where
  "targetChannel st channelId =
     (case channelId of None \<Rightarrow> activeChannelId st
      | Some c \<Rightarrow> if c = [] then activeChannelId st else c)"

definition nonEmpty :: "'a list \<Rightarrow> 'a list option" where
  "nonEmpty xs = (if 0 < length xs then Some xs else None)"

text \<open>
  \<open>sendMessage\<close> up to its call of \<open>saveChat\<close>. \<open>validMentions\<close> and \<open>validChannelMentions\<close>
  are the results of the mention extraction, which only reads the message text, the user
  registry and the channel names.
\<close>

definition sendMessageUpdate ::
  "Env \<Rightarrow> string \<Rightarrow> string list option \<Rightarrow> ChatImage list option \<Rightarrow> string option \<Rightarrow> string option
     \<Rightarrow> string list \<Rightarrow> string list \<Rightarrow> ChatManager \<Rightarrow> (ChatMessage \<times> ChatManager) option" where
  "sendMessageUpdate env message fileLinks images channelId replyTo validMentions
       validChannelMentions st =
     (case currentUser st of
        None \<Rightarrow> None
      | Some vaultName \<Rightarrow>
          (let target = targetChannel st channelId;
               cm = channelMessages (chatData st);
               cm1 = (case map_of cm target of None \<Rightarrow> AList.update target [] cm | Some l \<Rightarrow> cm);
               chatMessage =
                 \<lparr>m_id = e_id env, m_from = vaultName, m_message = trim message,
                  m_timestamp = e_iso env,
                  m_fileLinks = (case fileLinks of None \<Rightarrow> None | Some l \<Rightarrow> nonEmpty l),
                  m_mentions = nonEmpty validMentions,
                  m_channelMentions = nonEmpty validChannelMentions,
                  m_images = (case images of None \<Rightarrow> None | Some l \<Rightarrow> nonEmpty l),
                  m_reactions = None, m_edited = None, m_editedAt = None, m_deleted = None,
                  m_replyTo = replyTo\<rparr>;
               sent = AList.update (m_id chatMessage) (target, chatMessage, e_now env)
                        (recentlySentMessages st);
               pushed = (case map_of cm1 target of None \<Rightarrow> [] | Some l \<Rightarrow> l) @ [chatMessage];
               kept = (if MAX_MESSAGES_PER_CHANNEL < length pushed
                       then drop (length pushed - MAX_MESSAGES_PER_CHANNEL) pushed
                       else pushed)
           in Some (chatMessage,
                    setChannelMessages (AList.update target kept cm1)
                      (st\<lparr>recentlySentMessages := sent\<rparr>))))"

definition sendMessage ::
  "Env \<Rightarrow> string \<Rightarrow> string list option \<Rightarrow> ChatImage list option \<Rightarrow> string option \<Rightarrow> string option
     \<Rightarrow> string list \<Rightarrow> string list \<Rightarrow> ChatManager \<Rightarrow> ChatMessage option \<times> ChatManager" where
  "sendMessage env message fileLinks images channelId replyTo validMentions validChannelMentions st =
     (case sendMessageUpdate env message fileLinks images channelId replyTo validMentions
             validChannelMentions st of
        None \<Rightarrow> (None, st)
      | Some (chatMessage, st1) \<Rightarrow> (Some chatMessage, saveChat env st1))"

text \<open>
  The operations below look a message up with \<open>messages.find(m => m.id === messageId)\<close>
  and change the message found, that is the first one with that id.
\<close>

definition updateMessage ::
  "string \<Rightarrow> string \<Rightarrow> (ChatMessage \<Rightarrow> ChatMessage) \<Rightarrow> ChatManager \<Rightarrow> ChatManager" where
  "updateMessage target messageId f st =
     setChannelMessages
       (AList.update target (updateFirst (\<lambda>m. m_id m = messageId) f (getMessages st target))
          (channelMessages (chatData st))) st"

definition deleteMessage :: "Env \<Rightarrow> string \<Rightarrow> string option \<Rightarrow> ChatManager \<Rightarrow> bool \<times> ChatManager" where
  "deleteMessage env messageId channelId st =
     (case currentUser st of
        None \<Rightarrow> (False, st)
      | Some vaultName \<Rightarrow>
          (let target = targetChannel st channelId
           in case map_of (channelMessages (chatData st)) target of
                None \<Rightarrow> (False, st)
              | Some msgs \<Rightarrow>
                  (case find (\<lambda>m. m_id m = messageId) msgs of
                     None \<Rightarrow> (False, st)
                   | Some message \<Rightarrow>
                       (let isOwner = (m_from message = vaultName);
                            isAdmin = currentUserIsAdmin st
                        in if \<not> isOwner \<and> \<not> isAdmin then (False, st)
                           else (True, saveChat env (updateMessage target messageId markDeleted st))))))"

definition toggleUser :: "string \<Rightarrow> string \<Rightarrow> ChatReaction list \<Rightarrow> ChatReaction list \<times> bool" where
  "toggleUser e vaultName reactions =
     (case find (\<lambda>r. emoji r = e) reactions of
        Some reaction \<Rightarrow>
          if vaultName \<in> set (users reaction) then
            (let users1 = remove1 vaultName (users reaction);
                 reactions1 = updateFirst (\<lambda>r. emoji r = e) (\<lambda>r. r\<lparr>users := users1\<rparr>) reactions
             in (if length users1 = 0 then filter (\<lambda>r. emoji r \<noteq> e) reactions1 else reactions1, False))
          else (updateFirst (\<lambda>r. emoji r = e) (\<lambda>r. r\<lparr>users := users r @ [vaultName]\<rparr>) reactions, True)
      | None \<Rightarrow> (reactions @ [\<lparr>emoji = e, users = [vaultName]\<rparr>], True))"

definition toggleReaction :: "Env \<Rightarrow> string \<Rightarrow> string \<Rightarrow> string option \<Rightarrow> ChatManager \<Rightarrow> bool \<times> ChatManager" where
  "toggleReaction env messageId e channelId st =
     (case currentUser st of
        None \<Rightarrow> (False, st)
      | Some vaultName \<Rightarrow>
          (let target = targetChannel st channelId
           in case map_of (channelMessages (chatData st)) target of
                None \<Rightarrow> (False, st)
              | Some msgs \<Rightarrow>
                  (case find (\<lambda>m. m_id m = messageId) msgs of
                     None \<Rightarrow> (False, st)
                   | Some message \<Rightarrow>
                       (let reactions = (case m_reactions message of None \<Rightarrow> [] | Some rs \<Rightarrow> rs);
                            toggled = toggleUser e vaultName reactions;
                            st1 = updateMessage target messageId
                                    (\<lambda>m. m\<lparr>m_reactions := Some (fst toggled)\<rparr>) st;
                            st2 = st1\<lparr>recentlyToggledReactions :=
                                        trackReactionToggle (e_now env) (recentlyToggledReactions st1)
                                          messageId e vaultName (snd toggled)\<rparr>
                        in (True, saveChat env st2)))))"

text \<open>
  \<open>editMessage\<close>; \<open>validMentions\<close>, \<open>fileLinks\<close> and \<open>validChannelMentions\<close> are extracted from
  the new text.
\<close>

definition editMessage ::
  "Env \<Rightarrow> string \<Rightarrow> string \<Rightarrow> string option \<Rightarrow> string list \<Rightarrow> string list \<Rightarrow> string list
     \<Rightarrow> ChatManager \<Rightarrow> bool \<times> ChatManager" where
  "editMessage env messageId newContent channelId validMentions fileLinks validChannelMentions st =
     (case currentUser st of
        None \<Rightarrow> (False, st)
      | Some vaultName \<Rightarrow>
          (let target = targetChannel st channelId
           in case map_of (channelMessages (chatData st)) target of
                None \<Rightarrow> (False, st)
              | Some msgs \<Rightarrow>
                  (case find (\<lambda>m. m_id m = messageId) msgs of
                     None \<Rightarrow> (False, st)
                   | Some message \<Rightarrow>
                       if m_from message \<noteq> vaultName then (False, st)
                       else if truthyB (m_deleted message) then (False, st)
                       else (True, saveChat env
                               (updateMessage target messageId
                                  (\<lambda>m. m\<lparr>m_message := trim newContent, m_edited := Some True,
                                          m_editedAt := Some (e_iso env),
                                          m_mentions := nonEmpty validMentions,
                                          m_fileLinks := nonEmpty fileLinks,
                                          m_channelMentions := nonEmpty validChannelMentions\<rparr>)
                                  st)))))"

fun removeFirst :: "('a \<Rightarrow> bool) \<Rightarrow> 'a list \<Rightarrow> 'a list" where
  "removeFirst P [] = []"
| "removeFirst P (x # xs) = (if P x then xs else x # removeFirst P xs)"

definition dismissSystemMessage :: "Env \<Rightarrow> string \<Rightarrow> string option \<Rightarrow> ChatManager \<Rightarrow> bool \<times> ChatManager" where
  "dismissSystemMessage env messageId channelId st =
     (let target = targetChannel st channelId
      in case map_of (channelMessages (chatData st)) target of
           None \<Rightarrow> (False, st)
         | Some msgs \<Rightarrow>
             (case find (\<lambda>m. m_id m = messageId) msgs of
                None \<Rightarrow> (False, st)
              | Some message \<Rightarrow>
                  if m_from message \<noteq> ''system'' then (False, st)
                  else (True, saveChat env
                          (setChannelMessages
                             (AList.update target (removeFirst (\<lambda>m. m_id m = messageId) msgs)
                                (channelMessages (chatData st)))
                             (st\<lparr>recentlyDismissedMessages :=
                                   (recentlyDismissedMessages st)(messageId \<mapsto> e_now env)\<rparr>)))))"

definition markAsRead :: "Env \<Rightarrow> string option \<Rightarrow> ChatManager \<Rightarrow> ChatManager" where
  "markAsRead env channelId st =
     (case currentUser st of
        None \<Rightarrow> st
      | Some vaultName \<Rightarrow>
          (let target = targetChannel st channelId;
               rs = readState (chatData st);
               ours = (case map_of rs target of None \<Rightarrow> [] | Some l \<Rightarrow> l)
           in saveChat env
                (setReadState (AList.update target (AList.update vaultName (e_iso env) ours) rs) st)))"

definition toggleChannelMute :: "Env \<Rightarrow> string \<Rightarrow> ChatManager \<Rightarrow> ChatManager" where
  "toggleChannelMute env channelId st =
     (case currentUser st of
        None \<Rightarrow> st
      | Some vaultName \<Rightarrow>
          (let mc = (case mutedChannels (chatData st) of None \<Rightarrow> [] | Some l \<Rightarrow> l);
               mutedList = (case map_of mc vaultName of None \<Rightarrow> [] | Some l \<Rightarrow> l);
               mutedList1 = (if channelId \<in> set mutedList then remove1 channelId mutedList
                             else mutedList @ [channelId])
           in saveChat env
                (st\<lparr>chatData := (chatData st)
                      \<lparr>mutedChannels := Some (AList.update vaultName mutedList1 mc)\<rparr>\<rparr>)))"

definition setActiveChannel :: "string \<Rightarrow> ChatManager \<Rightarrow> ChatManager" where
  "setActiveChannel channelId st =
     (if channelId \<in> set (map c_id (channels (chatData st)))
      then st\<lparr>activeChannelId := channelId\<rparr> else st)"

section \<open>The operations of the manager as steps\<close>



section \<open>States used in the examples\<close>

definition sampleEnv :: Env where
  "sampleEnv = \<lparr>e_now = 1714557970000, e_iso = ''2024-05-01T10:06:10.000Z'', e_id = ''lvo3k2p1abc'',
     e_disk = NoFile, e_tm = sampleTm, e_stringify = sampleStringify\<rparr>"

text \<open>A manager of user \<open>alice\<close> whose only channel, General, holds the given messages.\<close>

definition stateWith :: "ChatMessage list \<Rightarrow> ChatManager" where
  "stateWith msgs =
     \<lparr>chatData = (createEmptyV2Data ''2024-05-01T09:00:00.000Z'')
                    \<lparr>channelMessages := [(GENERAL_CHANNEL_ID, msgs)]\<rparr>,
      activeChannelId = GENERAL_CHANNEL_ID,
      currentUser = Some ''alice'',
      currentUserIsAdmin = False,
      recentlySentMessages = [],
      recentlyDismissedMessages = (\<lambda>k. None),
      recentlyDeletedChannels = (\<lambda>k. None),
      recentlyLeftChannels = (\<lambda>k. None),
      recentlyAddedMembers = (\<lambda>k. None),
      recentlyToggledReactions = (\<lambda>k. None)\<rparr>"




text \<open>The type of the channel that an id resolves to (\<open>channels.find(c => c.id === id)\<close>).\<close>

definition typeOf :: "Channel list \<Rightarrow> string \<Rightarrow> ChannelType option" where
  "typeOf chs channelId = map_option c_type (find (\<lambda>c. c_id c = channelId) chs)"

text \<open>A manager of \<open>alice\<close> with General, a DM with \<open>bob\<close> and a group.\<close>

definition dmChannel :: Channel where
  "dmChannel = \<lparr>c_id = ''dm1'', c_type = DM, c_name = [], c_members = [''alice'', ''bob''],
     c_createdBy = ''alice'', c_createdAt = ''2024-05-01T09:30:00.000Z''\<rparr>"

definition groupChannel :: Channel where
  "groupChannel = \<lparr>c_id = ''g1'', c_type = Group, c_name = ''team'',
     c_members = [''alice'', ''bob'', ''dave''],
     c_createdBy = ''bob'', c_createdAt = ''2024-05-01T09:40:00.000Z''\<rparr>"

definition chatState :: ChatManager where
  "chatState =
     (stateWith [])\<lparr>chatData :=
        (chatData (stateWith []))
          \<lparr>channels := channels (chatData (stateWith [])) @ [dmChannel, groupChannel],
           channelMessages := [(GENERAL_CHANNEL_ID, []), (''dm1'', []), (''g1'', [])]\<rparr>\<rparr>"



text \<open>The surroundings of a load ten seconds after \<open>sampleEnv\<close>.\<close>

definition laterEnv :: Env where
  "laterEnv = sampleEnv\<lparr>e_now := 1714557980000, e_iso := ''2024-05-01T10:06:20.000Z''\<rparr>"

text \<open>
  A serialisation for the examples, in the manner of \<open>JSON.stringify\<close>: the channel ids,
  the message texts, and the checksum field when the document has one. \<open>compactStringify\<close>
  stands for \<open>JSON.stringify(d)\<close> and \<open>spacedStringify\<close> for \<open>JSON.stringify(d, null, 2)\<close>.
\<close>

definition toCodeUnits :: "string \<Rightarrow> jsstring" where
  "toCodeUnits s = map (\<lambda>ch. of_nat (of_char ch)) s"

definition quoted :: "string \<Rightarrow> string" where
  "quoted s = ''\"'' @ s @ ''\"''"

definition renderDoc :: "string \<Rightarrow> ChatDataV2 \<Rightarrow> string" where
  "renderDoc sep d =
     ''{\"channels\":['' @ joinWith sep (map (\<lambda>c. quoted (c_id c)) (channels d)) @ '']''
     @ sep @ ''\"channelMessages\":[''
     @ joinWith sep (map (\<lambda>m. quoted (m_message m)) (concat (map snd (channelMessages d)))) @ '']''
     @ (case checksum d of None \<Rightarrow> [] | Some c \<Rightarrow> sep @ ''\"_checksum\":'' @ quoted c)
     @ ''}''"

definition compactStringify :: "ChatDataV2 \<Rightarrow> jsstring" where
  "compactStringify d = toCodeUnits (renderDoc '','' d)"

definition spacedStringify :: "ChatDataV2 \<Rightarrow> jsstring" where
  "spacedStringify d = toCodeUnits (renderDoc '', '' d)"

text \<open>
  The document \<open>saveChat\<close> leaves when alice's General channel holds \<open>sampleMsg\<close>, and a
  \<open>JSON.parse\<close> that reads its text back.
\<close>

definition unstampedDoc :: ChatDataV2 where
  "unstampedDoc = (createEmptyV2Data ''2024-05-01T09:00:00.000Z'')
                    \<lparr>channelMessages := [(GENERAL_CHANNEL_ID, [sampleMsg])]\<rparr>"

definition savedDoc :: ChatDataV2 where
  "savedDoc = unstampedDoc\<lparr>checksum := Some ''a9d20d8c''\<rparr>"

definition tableParse :: "jsstring \<Rightarrow> ChatData option" where
  "tableParse content =
     (if content = spacedStringify savedDoc then Some (V2 savedDoc) else None)"

definition checkedEnv :: Env where
  "checkedEnv = sampleEnv\<lparr>e_stringify := compactStringify\<rparr>"

section \<open>User registry (userManager.ts)\<close>

datatype AdminLevel = Primary | Secondary

record VaultUser =
  u_vaultName :: string
  u_localIdentifier :: string
  u_os :: string
  u_registered :: string
  u_registrationNumber :: "int option"
  u_color :: "string option"
  u_isAdmin :: "bool option"
  u_adminLevel :: "AdminLevel option"

text \<open>
  \<open>this.currentUser\<close> is a reference to a user object. \<open>identifyCurrentUser\<close> and
  \<open>registerUser\<close> set it to an element of the current \<open>usersConfig.users\<close> (\<open>Attached\<close>, named
  by its local identifier: changes made to the element are seen through the reference).
  \<open>loadUsers\<close> replaces the list by freshly parsed objects; the reference then still
  points to the old object, which nothing changes any more (\<open>Detached\<close>, a copy).
\<close>

datatype userRef = NoUser | Attached string | Detached VaultUser

text \<open>
  The users file: missing, unreadable (its text does not parse), or the parsed list.
  The file is shared with the managers of the other machines: \<open>um_file\<close> is its content
  as this manager last saw or wrote it, and \<open>ue_others\<close> tells what another process has
  written to it just before this manager's \<open>k\<close>-th read, if anything.
\<close>

datatype usersFile = Missing | Corrupt | Valid "VaultUser list"

record UserManager =
  usersConfig :: "VaultUser list"
  um_currentUser :: userRef
  recentlyDeletedUsers :: "string \<Rightarrow> int option"
  um_localId :: string
  um_os :: string
  um_file :: usersFile
  um_reads :: nat

record UEnv =
  ue_now :: int
  ue_iso :: string
  ue_tm :: "string \<Rightarrow> int option"
  ue_others :: "(nat \<times> usersFile) list"

definition USER_DELETE_PROTECTION :: int where "USER_DELETE_PROTECTION = 300000"
definition MAX_REGISTRATION_RETRIES :: nat where "MAX_REGISTRATION_RETRIES = 3"

definition readUsersFile :: "UEnv \<Rightarrow> UserManager \<Rightarrow> usersFile \<times> UserManager" where
  "readUsersFile env st =
     (let f = (case map_of (ue_others env) (um_reads st) of
                 Some written \<Rightarrow> written
               | None \<Rightarrow> um_file st)
      in (f, st\<lparr>um_file := f, um_reads := um_reads st + 1\<rparr>))"

definition getCurrentUser :: "UserManager \<Rightarrow> VaultUser option" where
  "getCurrentUser st =
     (case um_currentUser st of
        NoUser \<Rightarrow> None
      | Attached lid \<Rightarrow> find (\<lambda>u. u_localIdentifier u = lid) (usersConfig st)
      | Detached u \<Rightarrow> Some u)"

text \<open>
  \<open>isRecentlyDeletedUser\<close>. The source deletes an expired entry; here it stays in the
  ledger, where an expired entry and no entry answer alike.
\<close>

definition isRecentlyDeletedUser :: "int \<Rightarrow> UserManager \<Rightarrow> string \<Rightarrow> bool" where
  "isRecentlyDeletedUser now st localIdentifier =
     (case recentlyDeletedUsers st localIdentifier of
        None \<Rightarrow> False
      | Some deletedTime \<Rightarrow>
          if deletedTime = 0 then False
          else if USER_DELETE_PROTECTION < now - deletedTime then False
          else True)"

text \<open>
  The sort by \<open>new Date(registered).getTime()\<close>. A date that does not parse has key 0 here;
  in the source the comparison then gives \<open>NaN\<close> and the order is the engine's. The
  renumbering that follows the sort gives the numbers 1, 2, ... in whatever order results.
\<close>

definition sortByRegistered :: "(string \<Rightarrow> int option) \<Rightarrow> VaultUser list \<Rightarrow> VaultUser list" where
  "sortByRegistered tm us =
     sort_key (\<lambda>u. case tm (u_registered u) of None \<Rightarrow> 0 | Some t \<Rightarrow> t) us"

text \<open>\<open>users.forEach((user, index) => user.registrationNumber = index + 1)\<close>.\<close>

definition renumber :: "VaultUser list \<Rightarrow> VaultUser list" where
  "renumber us = map (\<lambda>(index, user). user\<lparr>u_registrationNumber := Some (int index + 1)\<rparr>)
                   (enumerate 0 us)"

definition fixPrimary :: "VaultUser \<Rightarrow> VaultUser" where
  "fixPrimary user =
     (if u_registrationNumber user = Some 1
      then user\<lparr>u_isAdmin := Some True, u_adminLevel := Some Primary\<rparr>
      else if u_adminLevel user = Some Primary then user\<lparr>u_adminLevel := Some Secondary\<rparr>
      else user)"

text \<open>The merge block of \<open>saveUsers\<close>, run when the users file exists and parses.\<close>

definition mergeUsers :: "UEnv \<Rightarrow> UserManager \<Rightarrow> VaultUser list \<Rightarrow> VaultUser list" where
  "mergeUsers env st diskUsers =
     (let ourLocalIds = map u_localIdentifier (usersConfig st);
          merged = usersConfig st
                   @ filter (\<lambda>diskUser. u_localIdentifier diskUser \<notin> set ourLocalIds
                               \<and> \<not> isRecentlyDeletedUser (ue_now env) st (u_localIdentifier diskUser))
                       diskUsers;
          sorted = sortByRegistered (ue_tm env) merged
      in map fixPrimary (renumber sorted))"

text \<open>
  \<open>saveUsers\<close>: merge when the file exists and parses, else save the list as it is
  (\<open>Failed to merge users, saving anyway\<close>); the file then holds the list in memory. The
  write is taken to succeed.
\<close>

definition saveUsers :: "UEnv \<Rightarrow> UserManager \<Rightarrow> UserManager" where
  "saveUsers env st =
     (case readUsersFile env st of
        (f, st1) \<Rightarrow>
          (let us = (case f of
                       Valid diskUsers \<Rightarrow> mergeUsers env st1 diskUsers
                     | _ \<Rightarrow> usersConfig st1)
           in st1\<lparr>usersConfig := us, um_file := Valid us\<rparr>))"

text \<open>A missing or zero registration number is falsy.\<close>

definition noRegNum :: "VaultUser \<Rightarrow> bool" where
  "noRegNum u = (case u_registrationNumber u of None \<Rightarrow> True | Some n \<Rightarrow> n = 0)"

definition isPrimary :: "VaultUser \<Rightarrow> bool" where
  "isPrimary u = (u_adminLevel u = Some Primary)"

text \<open>
  \<open>ensureAdminExists\<close> without its final \<open>saveUsers\<close>: the list after the three steps and
  the flag \<open>needsSave\<close>. Each step reports whether it changed a user.
\<close>

definition assignRegNums :: "(string \<Rightarrow> int option) \<Rightarrow> VaultUser list \<Rightarrow> VaultUser list" where
  "assignRegNums tm us =
     (if filter noRegNum us = [] then us
      else foldl (\<lambda>cur (index, sortedUser).
                    updateFirst (\<lambda>u. u_vaultName u = u_vaultName sortedUser)
                      (\<lambda>userInConfig.
                         if noRegNum userInConfig
                         then userInConfig\<lparr>u_registrationNumber := Some (int index + 1)\<rparr>
                         else userInConfig)
                      cur)
             us (enumerate 0 (sortByRegistered tm us)))"

definition demoteExtraPrimaries :: "VaultUser list \<Rightarrow> VaultUser list" where
  "demoteExtraPrimaries us =
     (if length (filter isPrimary us) \<noteq> 1
      then map (\<lambda>user. if isPrimary user \<and> u_registrationNumber user \<noteq> Some 1
                        then user\<lparr>u_adminLevel := Some Secondary\<rparr> else user) us
      else us)"

definition promoteFirst :: "VaultUser list \<Rightarrow> VaultUser list" where
  "promoteFirst us =
     updateFirst (\<lambda>u. u_registrationNumber u = Some 1)
       (\<lambda>firstUser. if u_isAdmin firstUser \<noteq> Some True \<or> u_adminLevel firstUser \<noteq> Some Primary
                     then firstUser\<lparr>u_isAdmin := Some True, u_adminLevel := Some Primary\<rparr>
                     else firstUser)
       us"

definition levelAdmins :: "VaultUser list \<Rightarrow> VaultUser list" where
  "levelAdmins us =
     map (\<lambda>user. if u_isAdmin user = Some True \<and> u_adminLevel user = None
                       \<and> u_registrationNumber user \<noteq> Some 1
                  then user\<lparr>u_adminLevel := Some Secondary\<rparr> else user) us"

definition ensureAdminSteps :: "(string \<Rightarrow> int option) \<Rightarrow> VaultUser list \<Rightarrow> VaultUser list \<times> bool" where
  "ensureAdminSteps tm us =
     (if length us = 0 then (us, False)
      else (let us1 = assignRegNums tm us;
                us2 = demoteExtraPrimaries us1;
                us3 = promoteFirst us2;
                us4 = levelAdmins us3
            in (us4, us1 \<noteq> us \<or> us2 \<noteq> us1 \<or> us3 \<noteq> us2 \<or> us4 \<noteq> us3)))"

definition ensureAdminExists :: "UEnv \<Rightarrow> UserManager \<Rightarrow> UserManager" where
  "ensureAdminExists env st =
     (case ensureAdminSteps (ue_tm env) (usersConfig st) of
        (us, needsSave) \<Rightarrow>
          if needsSave then saveUsers env (st\<lparr>usersConfig := us\<rparr>) else st\<lparr>usersConfig := us\<rparr>)"

text \<open>
  \<open>loadUsers\<close>. The freshly parsed list replaces the old objects, so an attached
  reference becomes a detached copy of the element it pointed to.
\<close>

definition detach :: "UserManager \<Rightarrow> userRef" where
  "detach st =
     (case um_currentUser st of
        Attached lid \<Rightarrow>
          (case find (\<lambda>u. u_localIdentifier u = lid) (usersConfig st) of
             None \<Rightarrow> NoUser | Some u \<Rightarrow> Detached u)
      | r \<Rightarrow> r)"

definition loadUsers :: "UEnv \<Rightarrow> UserManager \<Rightarrow> UserManager" where
  "loadUsers env st =
     (case readUsersFile env (st\<lparr>um_currentUser := detach st\<rparr>) of
        (f, st1) \<Rightarrow>
          (case f of
             Valid diskUsers \<Rightarrow> ensureAdminExists env (st1\<lparr>usersConfig := diskUsers\<rparr>)
           | Missing \<Rightarrow> saveUsers env (st1\<lparr>usersConfig := []\<rparr>)
           | Corrupt \<Rightarrow> st1\<lparr>usersConfig := []\<rparr>))"

definition identifyCurrentUser :: "UserManager \<Rightarrow> UserManager" where
  "identifyCurrentUser st =
     st\<lparr>um_currentUser :=
          (if um_localId st \<in> set (map u_localIdentifier (usersConfig st))
           then Attached (um_localId st) else NoUser)\<rparr>"

definition lowerChar :: "char \<Rightarrow> char" where
  "lowerChar c = (let n = (of_char c :: nat) in if 65 \<le> n \<and> n \<le> 90 then char_of (n + 32) else c)"

definition toLowerCase :: "string \<Rightarrow> string" where
  "toLowerCase s = map lowerChar s"

definition colors :: "string list" where
  "colors = [''#7c3aed'', ''#2563eb'', ''#059669'', ''#d97706'', ''#dc2626'', ''#7c2d12'',
             ''#4f46e5'', ''#0891b2'']"

definition maxRegNum :: "VaultUser list \<Rightarrow> int" where
  "maxRegNum us =
     foldl (\<lambda>mx user. max mx (case u_registrationNumber user of None \<Rightarrow> 0 | Some n \<Rightarrow> n)) 0 us"

text \<open>
  One attempt of \<open>registerUser\<close> that holds the lock: \<open>Some\<close> of the returned value, or
  \<open>None\<close> when the registration was not verified and the loop goes on.
\<close>

definition registerAttempt :: "UEnv \<Rightarrow> string \<Rightarrow> bool \<Rightarrow> UserManager \<Rightarrow> bool option \<times> UserManager" where
  "registerAttempt env vaultName lastAttempt st =
     (let st1 = loadUsers env st;
          localId = um_localId st1
      in if localId \<in> set (map u_localIdentifier (usersConfig st1)) then (Some False, st1)
         else if toLowerCase vaultName \<in> set (map (\<lambda>u. toLowerCase (u_vaultName u)) (usersConfig st1))
         then (Some False, st1)
         else
           (let color = colors ! (length (usersConfig st1) mod length colors);
                registrationNumber = maxRegNum (usersConfig st1) + 1;
                isFirstUser = (registrationNumber = 1);
                newUser = \<lparr>u_vaultName = vaultName, u_localIdentifier = localId, u_os = um_os st1,
                           u_registered = ue_iso env,
                           u_registrationNumber = Some registrationNumber,
                           u_color = Some color, u_isAdmin = Some isFirstUser,
                           u_adminLevel = (if isFirstUser then Some Primary else None)\<rparr>;
                st2 = saveUsers env (st1\<lparr>usersConfig := usersConfig st1 @ [newUser]\<rparr>);
                st3 = loadUsers env st2
            in if find (\<lambda>u. u_localIdentifier u = localId \<and> u_vaultName u = vaultName)
                    (usersConfig st3) \<noteq> None
               then (Some True, st3\<lparr>um_currentUser := Attached localId\<rparr>)
               else if lastAttempt then (Some False, st3)
               else (None, st3)))"

text \<open>
  The retry loop; \<open>locks k\<close> tells whether \<open>acquireLock\<close> succeeds in attempt \<open>k\<close>.
\<close>

fun registerLoop ::
  "UEnv \<Rightarrow> (nat \<Rightarrow> bool) \<Rightarrow> string \<Rightarrow> nat \<Rightarrow> nat \<Rightarrow> UserManager \<Rightarrow> bool \<times> UserManager" where
  "registerLoop env locks vaultName attempt 0 st = (False, st)"
| "registerLoop env locks vaultName attempt (Suc left) st =
     (if \<not> locks attempt
      then (if attempt < MAX_REGISTRATION_RETRIES
            then registerLoop env locks vaultName (Suc attempt) left st
            else (False, st))
      else (case registerAttempt env vaultName (MAX_REGISTRATION_RETRIES \<le> attempt) st of
              (Some result, st1) \<Rightarrow> (result, st1)
            | (None, st1) \<Rightarrow> registerLoop env locks vaultName (Suc attempt) left st1))"

definition registerUser :: "UEnv \<Rightarrow> (nat \<Rightarrow> bool) \<Rightarrow> string \<Rightarrow> UserManager \<Rightarrow> bool \<times> UserManager" where
  "registerUser env locks vaultName st =
     registerLoop env locks vaultName 1 MAX_REGISTRATION_RETRIES st"

definition promoteNext :: "VaultUser list \<Rightarrow> VaultUser list" where
  "promoteNext us =
     (let sortedUsers = sort_key (\<lambda>u. case u_registrationNumber u of None \<Rightarrow> 999
                                       | Some n \<Rightarrow> if n = 0 then 999 else n) us;
          newPrimaryAdmin = hd sortedUsers
      in updateFirst (\<lambda>u. u_vaultName u = u_vaultName newPrimaryAdmin)
           (\<lambda>userInConfig. userInConfig\<lparr>u_isAdmin := Some True, u_adminLevel := Some Primary\<rparr>) us)"

definition unregisterCurrentUser :: "UEnv \<Rightarrow> UserManager \<Rightarrow> bool \<times> UserManager" where
  "unregisterCurrentUser env st =
     (case getCurrentUser st of
        None \<Rightarrow> (False, st)
      | Some cu \<Rightarrow>
          if u_localIdentifier cu \<notin> set (map u_localIdentifier (usersConfig st)) then (False, st)
          else
            (let wasPrimaryAdmin = (u_adminLevel cu = Some Primary);
                 us1 = removeFirst (\<lambda>u. u_localIdentifier u = u_localIdentifier cu) (usersConfig st);
                 us2 = (if wasPrimaryAdmin \<and> 0 < length us1 then promoteNext us1 else us1);
                 st1 = saveUsers env
                         (st\<lparr>recentlyDeletedUsers :=
                               (recentlyDeletedUsers st)(u_localIdentifier cu \<mapsto> ue_now env),
                             usersConfig := us2\<rparr>)
             in (True, st1\<lparr>um_currentUser := NoUser\<rparr>)))"

text \<open>The operations of a user manager, and a run of them.\<close>

datatype userOp =
    URegister "nat \<Rightarrow> bool" string
  | UUnregister
  | ULoad
  | UIdentify
  | USave

fun ustep :: "UEnv \<Rightarrow> userOp \<Rightarrow> UserManager \<Rightarrow> UserManager" where
  "ustep env (URegister locks vaultName) st = snd (registerUser env locks vaultName st)"
| "ustep env UUnregister st = snd (unregisterCurrentUser env st)"
| "ustep env ULoad st = loadUsers env st"
| "ustep env UIdentify st = identifyCurrentUser st"
| "ustep env USave st = saveUsers env st"

fun urun :: "(UEnv \<times> userOp) list \<Rightarrow> UserManager \<Rightarrow> UserManager" where
  "urun [] st = st"
| "urun ((env, op) # rest) st = urun rest (ustep env op st)"

text \<open>
  The property of claim C3 for a list of users: exactly one user is primary admin, and
  its registration number is below that of every other user. An empty list has it.
\<close>

definition regBelow :: "VaultUser \<Rightarrow> VaultUser \<Rightarrow> bool" where
  "regBelow p q =
     (case (u_registrationNumber p, u_registrationNumber q) of
        (Some a, Some b) \<Rightarrow> a < b
      | _ \<Rightarrow> False)"

definition singlePrimaryLowest :: "VaultUser list \<Rightarrow> bool" where
  "singlePrimaryLowest us =
     (case filter isPrimary us of
        [p] \<Rightarrow> list_all (\<lambda>q. isPrimary q \<or> regBelow p q) us
      | _ \<Rightarrow> False)"

definition adminInvariant :: "VaultUser list \<Rightarrow> bool" where
  "adminInvariant us = (us = [] \<or> singlePrimaryLowest us)"

text \<open>
  What the other processes write: a readable file whose list has the property (they
  write through \<open>saveUsers\<close> as well).
\<close>

fun fileOk :: "usersFile \<Rightarrow> bool" where
  "fileOk (Valid us) = adminInvariant us"
| "fileOk Missing = False"
| "fileOk Corrupt = False"

definition othersOk :: "UEnv \<Rightarrow> bool" where
  "othersOk env = list_all (\<lambda>(k, f). fileOk f) (ue_others env)"

definition runOk :: "(UEnv \<times> userOp) list \<Rightarrow> bool" where
  "runOk ops = list_all (\<lambda>(env, op). othersOk env) ops"

text \<open>
  A manager at rest: the list in memory and the file have the property, or the vault is
  new (no file yet, nothing in memory).
\<close>

definition consistent :: "UserManager \<Rightarrow> bool" where
  "consistent st = (adminInvariant (usersConfig st) \<and> fileOk (um_file st))"

definition managerOk :: "UserManager \<Rightarrow> bool" where
  "managerOk st = (consistent st \<or> (usersConfig st = [] \<and> um_file st = Missing))"

text \<open>
  What \<open>saveUsers\<close> needs of the file: it is readable, or it is missing and the list in
  memory has the property already.
\<close>

definition saveReady :: "UserManager \<Rightarrow> bool" where
  "saveReady st =
     (fileOk (um_file st) \<or> (um_file st = Missing \<and> adminInvariant (usersConfig st)))"

text \<open>The list renumbered from \<open>n + 1\<close> on and repaired, as the merge leaves it.\<close>

definition numbered :: "nat \<Rightarrow> VaultUser list \<Rightarrow> VaultUser list" where
  "numbered n us =
     map fixPrimary
       (map (\<lambda>(index, user). user\<lparr>u_registrationNumber := Some (int index + 1)\<rparr>)
          (enumerate n us))"

text \<open>
  An example: bob registers on \<open>bob@desktop\<close> in a new vault while carol, on another
  machine, registers too; her file reaches the vault between bob's reload and his save.
\<close>

definition sampleUserTm :: "string \<Rightarrow> int option" where
  "sampleUserTm s =
     (if s = ''2024-05-01T09:59:59.000Z'' then Some 1714557599000
      else if s = ''2024-05-01T10:00:00.000Z'' then Some 1714557600000
      else if s = ''2024-05-01T10:00:30.000Z'' then Some 1714557630000
      else None)"

definition carol :: VaultUser where
  "carol = \<lparr>u_vaultName = ''carol'', u_localIdentifier = ''carol@laptop'', u_os = ''darwin'',
            u_registered = ''2024-05-01T09:59:59.000Z'', u_registrationNumber = Some 1,
            u_color = Some ''#7c3aed'', u_isAdmin = Some True, u_adminLevel = Some Primary\<rparr>"

definition bob :: VaultUser where
  "bob = \<lparr>u_vaultName = ''bob'', u_localIdentifier = ''bob@desktop'', u_os = ''linux'',
          u_registered = ''2024-05-01T10:00:00.000Z'', u_registrationNumber = Some 2,
          u_color = Some ''#7c3aed'', u_isAdmin = Some True, u_adminLevel = Some Secondary\<rparr>"

text \<open>Bob as \<open>registerUser\<close> creates him, first in what he has loaded.\<close>

definition bobAsRegistered :: VaultUser where
  "bobAsRegistered = bob\<lparr>u_registrationNumber := Some 1, u_adminLevel := Some Primary\<rparr>"

text \<open>Bob's manager with the given list, reference, file and number of reads.\<close>

definition bobsManager :: "VaultUser list \<Rightarrow> userRef \<Rightarrow> usersFile \<Rightarrow> nat \<Rightarrow> UserManager" where
  "bobsManager us r f n =
     \<lparr>usersConfig = us, um_currentUser = r, recentlyDeletedUsers = (\<lambda>k. None),
      um_localId = ''bob@desktop'', um_os = ''linux'', um_file = f, um_reads = n\<rparr>"

definition newVault :: UserManager where
  "newVault = bobsManager [] NoUser Missing 0"

definition registerEnv :: UEnv where
  "registerEnv = \<lparr>ue_now = 1714557600000, ue_iso = ''2024-05-01T10:00:00.000Z'',
                  ue_tm = sampleUserTm, ue_others = [(2, Valid [carol])]\<rparr>"

definition sampleRun :: "(UEnv \<times> userOp) list" where
  "sampleRun = [(registerEnv, URegister (\<lambda>k. True) ''bob'')]"

text \<open>
  The example goes on. Carol unregisters on her machine, which promotes bob and renumbers
  him, and dave registers on a third one: the file holds \<open>[bobPrimary, dave]\<close> when bob's
  manager reloads it (the file watcher calls \<open>loadUsers\<close> alone, so \<open>currentUser\<close> keeps the
  object of the list before). Then bob unregisters while the file cannot be parsed, and
  the manager reloads what it wrote.
\<close>

definition bobPrimary :: VaultUser where
  "bobPrimary = bob\<lparr>u_registrationNumber := Some 1, u_adminLevel := Some Primary\<rparr>"

definition dave :: VaultUser where
  "dave = \<lparr>u_vaultName = ''dave'', u_localIdentifier = ''dave@tablet'', u_os = ''win32'',
           u_registered = ''2024-05-01T10:00:30.000Z'', u_registrationNumber = Some 2,
           u_color = Some ''#2563eb'', u_isAdmin = Some False, u_adminLevel = None\<rparr>"

definition reloadEnv :: UEnv where
  "reloadEnv = \<lparr>ue_now = 1714557660000, ue_iso = ''2024-05-01T10:01:00.000Z'',
                ue_tm = sampleUserTm, ue_others = [(4, Valid [bobPrimary, dave])]\<rparr>"

definition unregisterEnv :: UEnv where
  "unregisterEnv = \<lparr>ue_now = 1714557720000, ue_iso = ''2024-05-01T10:02:00.000Z'',
                    ue_tm = sampleUserTm, ue_others = [(5, Corrupt)]\<rparr>"

definition quietEnv :: UEnv where
  "quietEnv = \<lparr>ue_now = 1714557780000, ue_iso = ''2024-05-01T10:03:00.000Z'',
               ue_tm = sampleUserTm, ue_others = []\<rparr>"

definition reloadedRun :: "(UEnv \<times> userOp) list" where
  "reloadedRun = sampleRun @ [(reloadEnv, ULoad)]"

definition failingRun :: "(UEnv \<times> userOp) list" where
  "failingRun = reloadedRun @ [(unregisterEnv, UUnregister), (quietEnv, ULoad)]"

section \<open>Properties of the content hash\<close>

lemma hashStep_range: "0 \<le> hashStep c h \<and> hashStep c h < 2 ^ 32"
  by (simp add: hashStep_def toUint32_def)

lemma fold_hashStep_range:
  "0 \<le> h \<Longrightarrow> h < 2 ^ 32 \<Longrightarrow> 0 \<le> fold hashStep cs h \<and> fold hashStep cs h < 2 ^ 32"
proof (induction cs arbitrary: h)
  case Nil
  then show ?case by simp
next
  case (Cons c cs)
  have "0 \<le> hashStep c h" "hashStep c h < 2 ^ 32"
    using hashStep_range [of c h] by simp_all
  then show ?case
    using Cons.IH [of "hashStep c h"] by simp
qed

lemma toString16_nonempty: "toString16 n \<noteq> []"
  by (subst toString16.simps) simp

lemma toString16_length_le: "0 < k \<Longrightarrow> n < 16 ^ k \<Longrightarrow> length (toString16 n) \<le> k"
proof (induction k arbitrary: n)
  case 0
  then show ?case by simp
next
  case (Suc k)
  show ?case
  proof (cases "n < 16")
    case True
    then show ?thesis by (subst toString16.simps) simp
  next
    case False
    then have k: "0 < k" using Suc.prems by (cases k) auto
    have "n div 16 < 16 ^ k" using Suc.prems
      by (simp add: less_mult_imp_div_less mult.commute)
    then have "length (toString16 (n div 16)) \<le> k" using Suc.IH k by blast
    then show ?thesis using False by (subst toString16.simps) simp
  qed
qed

lemma hexDigit_mem: "d < 16 \<Longrightarrow> hexDigit d \<in> set ''0123456789abcdef''"
  unfolding hexDigit_def by (rule nth_mem) simp

lemma toString16_hex: "set (toString16 n) \<subseteq> set ''0123456789abcdef''"
proof (induction n rule: toString16.induct)
  case (1 n)
  show ?case
  proof (cases "n < 16")
    case True
    then show ?thesis using hexDigit_mem [of n] by (subst toString16.simps) simp
  next
    case False
    have "hexDigit (n mod 16) \<in> set ''0123456789abcdef''"
      by (rule hexDigit_mem) simp
    then show ?thesis using False 1 by (subst toString16.simps) simp
  qed
qed

text \<open>
  Claim C9, as the code has it. \<open>computeHash\<close> is a total function of the string alone
  (every operation in its loop is defined on every input), and its result is the 32-bit
  accumulator printed by \<open>toString(16)\<close>, which does not pad: a lowercase hexadecimal
  numeral of at least one and at most eight digits.
\<close>

theorem computeHash_width:
  "1 \<le> length (computeHash content) \<and> length (computeHash content) \<le> 8
   \<and> set (computeHash content) \<subseteq> set ''0123456789abcdef''"
proof -
  let ?h = "fold hashStep content 2166136261"
  have r: "0 \<le> ?h \<and> ?h < 2 ^ 32"
    by (rule fold_hashStep_range) simp_all
  then have "nat ?h < 16 ^ 8" by auto
  then have "length (toString16 (nat ?h)) \<le> 8"
    by (intro toString16_length_le) simp_all
  moreover have "1 \<le> length (toString16 (nat ?h))"
    using toString16_nonempty [of "nat ?h"] by (cases "toString16 (nat ?h)") simp_all
  ultimately show ?thesis
    using toString16_hex [of "nat ?h"] by (simp add: computeHash_def)
qed

lemma excessBits_small: "a < 2 ^ 53 \<Longrightarrow> excessBits a = 0"
  by (subst excessBits.simps) simp

lemma excessBits_big: "\<not> a < 2 ^ 53 \<Longrightarrow> excessBits a = Suc (excessBits (a div 2))"
  by (subst excessBits.simps) simp

lemma toString16_small: "n < 16 \<Longrightarrow> toString16 n = [hexDigit n]"
  by (subst toString16.simps) simp

lemma toString16_big:
  "\<not> n < 16 \<Longrightarrow> toString16 n = toString16 (n div 16) @ [hexDigit (n mod 16)]"
  by (subst toString16.simps) simp

lemma computeHash_empty: "computeHash [] = ''811c9dc5''"
  by (simp add: computeHash_def toString16_small toString16_big hexDigit_def)

lemma hashStep_48_a: "hashStep 48 2166136261 = 890022064"
  by (simp add: hashStep_def toInt32_def toUint32_def roundDouble_def Let_def
      excessBits_small excessBits_big)

lemma hashStep_48_b: "hashStep 48 890022064 = 49103232"
  by (simp add: hashStep_def toInt32_def toUint32_def roundDouble_def Let_def
      excessBits_small excessBits_big)

lemma computeHash_00: "computeHash [48, 48] = ''2ed4180''"
  by (simp add: computeHash_def hashStep_48_a hashStep_48_b toString16_small toString16_big
      hexDigit_def)

text \<open>
  Claim C9 as stated fails: the outputs do not all have the same width. The empty string
  hashes to eight digits, the string \<open>"00"\<close> (code units 48, 48) to seven.
\<close>

theorem computeHash_width_counterexample:
  "computeHash [] = ''811c9dc5'' \<and> computeHash [48, 48] = ''2ed4180''
   \<and> length (computeHash []) \<noteq> length (computeHash [48, 48])"
  by (simp add: computeHash_empty computeHash_00)

section \<open>Properties of the checksum\<close>

lemma computeDataChecksum_ignores_checksum:
  "computeDataChecksum stringify (data\<lparr>checksum := c\<rparr>) = computeDataChecksum stringify data"
  by (simp add: computeDataChecksum_def)

lemma validate_stampChecksum: "validateDataIntegrity stringify (stampChecksum stringify data)"
  by (simp add: validateDataIntegrity_def stampChecksum_def computeDataChecksum_def Let_def)

text \<open>The example document: its serialisation, its hash, and what \<open>saveChat\<close> makes of it.\<close>

lemma compactStringify_unstamped:
  "compactStringify unstampedDoc = [123, 34, 99, 104, 97, 110, 110, 101, 108, 115, 34, 58, 91, 34, 103, 101, 110, 101, 114, 97, 108, 34, 93, 44, 34, 99, 104, 97, 110, 110, 101, 108, 77, 101, 115, 115, 97, 103, 101, 115, 34, 58, 91, 34, 104, 101, 108, 108, 111, 34, 93, 125]"
  by (simp add: compactStringify_def renderDoc_def toCodeUnits_def quoted_def unstampedDoc_def
      createEmptyV2Data_def GENERAL_CHANNEL_ID_def sampleMsg_def)

lemma fold_hashStep_unstamped:
  "fold hashStep [123, 34, 99, 104, 97, 110, 110, 101, 108, 115, 34, 58, 91, 34, 103, 101, 110, 101, 114, 97, 108, 34, 93, 44, 34, 99, 104, 97, 110, 110, 101, 108, 77, 101, 115, 115, 97, 103, 101, 115, 34, 58, 91, 34, 104, 101, 108, 108, 111, 34, 93, 125] 2166136261 = 2849115532"
  by (simp add: hashStep_def toInt32_def toUint32_def roundDouble_def Let_def
      excessBits_small excessBits_big)

lemma toString16_unstamped: "toString16 2849115532 = ''a9d20d8c''"
  by (simp add: toString16_small toString16_big hexDigit_def)

lemma computeHash_unstamped: "computeHash (compactStringify unstampedDoc) = ''a9d20d8c''"
  unfolding computeHash_def compactStringify_unstamped fold_hashStep_unstamped
  by (simp add: toString16_unstamped)

lemma compactStringify_emptied:
  "compactStringify (unstampedDoc\<lparr>channelMessages := [(GENERAL_CHANNEL_ID, [])]\<rparr>) = [123, 34, 99, 104, 97, 110, 110, 101, 108, 115, 34, 58, 91, 34, 103, 101, 110, 101, 114, 97, 108, 34, 93, 44, 34, 99, 104, 97, 110, 110, 101, 108, 77, 101, 115, 115, 97, 103, 101, 115, 34, 58, 91, 93, 125]"
  by (simp add: compactStringify_def renderDoc_def toCodeUnits_def quoted_def unstampedDoc_def
      createEmptyV2Data_def GENERAL_CHANNEL_ID_def)

lemma fold_hashStep_emptied:
  "fold hashStep [123, 34, 99, 104, 97, 110, 110, 101, 108, 115, 34, 58, 91, 34, 103, 101, 110, 101, 114, 97, 108, 34, 93, 44, 34, 99, 104, 97, 110, 110, 101, 108, 77, 101, 115, 115, 97, 103, 101, 115, 34, 58, 91, 93, 125] 2166136261 = 3898534035"
  by (simp add: hashStep_def toInt32_def toUint32_def roundDouble_def Let_def
      excessBits_small excessBits_big)

lemma toString16_emptied: "toString16 3898534035 = ''e85ee893''"
  by (simp add: toString16_small toString16_big hexDigit_def)

lemma computeHash_emptied:
  "computeHash (compactStringify (unstampedDoc\<lparr>channelMessages := [(GENERAL_CHANNEL_ID, [])]\<rparr>)) = ''e85ee893''"
  unfolding computeHash_def compactStringify_emptied fold_hashStep_emptied
  by (simp add: toString16_emptied)

lemma saveChat_sample:
  "chatData (saveChat checkedEnv (stateWith [sampleMsg])) = savedDoc"
proof -
  have "chatData (saveChat checkedEnv (stateWith [sampleMsg])) = stampChecksum compactStringify unstampedDoc"
    by (simp add: saveChat_def checkedEnv_def sampleEnv_def Let_def ensureRecentMessagesExist_def
        stateWith_def unstampedDoc_def createEmptyV2Data_def)
  also have "\<dots> = savedDoc"
    using computeHash_unstamped
    by (simp add: stampChecksum_def computeDataChecksum_def savedDoc_def Let_def unstampedDoc_def
        createEmptyV2Data_def)
  finally show ?thesis .
qed

lemma stampChecksum_eq:
  "stampChecksum stringify data = data\<lparr>checksum := Some (computeDataChecksum stringify data)\<rparr>"
  by (simp add: stampChecksum_def computeDataChecksum_def Let_def)

lemma checksum_saveChat:
  "checksum (chatData (saveChat env st))
     = Some (computeDataChecksum (e_stringify env) (chatData (saveChat env st)))"
  by (simp add: saveChat_def Let_def stampChecksum_def computeDataChecksum_def)

lemma validate_own_checksum:
  "checksum data = Some (computeDataChecksum stringify data) \<Longrightarrow> validateDataIntegrity stringify data"
  by (simp add: validateDataIntegrity_def)

lemma readWithRetries_first:
  "loadAttempt stringify parse (reads 1) = Some d \<Longrightarrow> readWithRetries stringify parse reads = Some d"
  by (simp add: readWithRetries_def MAX_LOAD_RETRIES_def numeral_3_eq_3)


text \<open>
  Claim C4 (checksum round trip). \<open>computeDataChecksum\<close> is the hash of the serialisation
  of the document without its checksum field; the integrity step of \<open>saveChat\<close> stores
  exactly this value in the checksum field and changes nothing else, and the document
  \<open>saveChat\<close> leaves in memory, whose text it writes, carries its own
  \<open>computeDataChecksum\<close>. A document that carries its own \<open>computeDataChecksum\<close> passes
  \<open>validateDataIntegrity\<close>; so does the stamped document and the one \<open>saveChat\<close> leaves.
  When \<open>JSON.parse\<close> gives back the saved document from the text written, the load attempt
  accepts it and the read loop returns it: no integrity failure is reported.
\<close>

theorem checksum_round_trip:
  "computeDataChecksum stringify data = computeHash (stringify (data\<lparr>checksum := None\<rparr>))
   \<and> stampChecksum stringify data = data\<lparr>checksum := Some (computeDataChecksum stringify data)\<rparr>
   \<and> checksum (chatData (saveChat env st))
       = Some (computeDataChecksum (e_stringify env) (chatData (saveChat env st)))
   \<and> (checksum data = Some (computeDataChecksum stringify data)
      \<longrightarrow> validateDataIntegrity stringify data)
   \<and> validateDataIntegrity stringify (stampChecksum stringify data)
   \<and> validateDataIntegrity (e_stringify env) (chatData (saveChat env st))
   \<and> (parse (saveContent stringify pretty data) = Some (V2 (stampChecksum stringify data))
      \<longrightarrow> loadAttempt stringify parse (Some (saveContent stringify pretty data))
            = Some (V2 (stampChecksum stringify data))
        \<and> ((\<forall>k. reads k = Some (saveContent stringify pretty data))
            \<longrightarrow> readWithRetries stringify parse reads = Some (V2 (stampChecksum stringify data))))
   \<and> (parse (pretty (chatData (saveChat env st))) = Some (V2 (chatData (saveChat env st)))
      \<longrightarrow> loadAttempt (e_stringify env) parse (Some (pretty (chatData (saveChat env st))))
            = Some (V2 (chatData (saveChat env st)))
        \<and> ((\<forall>k. reads k = Some (pretty (chatData (saveChat env st))))
            \<longrightarrow> readWithRetries (e_stringify env) parse reads
                = Some (V2 (chatData (saveChat env st)))))"
proof -
  let ?saved = "chatData (saveChat env st)"
  have a: "computeDataChecksum stringify data = computeHash (stringify (data\<lparr>checksum := None\<rparr>))"
    by (simp add: computeDataChecksum_def)
  have b: "stampChecksum stringify data = data\<lparr>checksum := Some (computeDataChecksum stringify data)\<rparr>"
    by (rule stampChecksum_eq)
  have c: "checksum ?saved = Some (computeDataChecksum (e_stringify env) ?saved)"
    by (rule checksum_saveChat)
  have d: "checksum data = Some (computeDataChecksum stringify data)
      \<longrightarrow> validateDataIntegrity stringify data"
    using validate_own_checksum by blast
  have e: "validateDataIntegrity stringify (stampChecksum stringify data)"
    by (rule validate_stampChecksum)
  have f: "validateDataIntegrity (e_stringify env) ?saved"
    using c by (rule validate_own_checksum)
  have g1: "loadAttempt stringify parse (Some (saveContent stringify pretty data))
            = Some (V2 (stampChecksum stringify data))"
    if "parse (saveContent stringify pretty data) = Some (V2 (stampChecksum stringify data))"
    using that e by (simp add: loadAttempt_def)
  have g2: "readWithRetries stringify parse reads = Some (V2 (stampChecksum stringify data))"
    if "parse (saveContent stringify pretty data) = Some (V2 (stampChecksum stringify data))"
      and "\<forall>k. reads k = Some (saveContent stringify pretty data)"
    using that g1 by (simp add: readWithRetries_first)
  have h1: "loadAttempt (e_stringify env) parse (Some (pretty ?saved)) = Some (V2 ?saved)"
    if "parse (pretty ?saved) = Some (V2 ?saved)"
    using that f by (simp add: loadAttempt_def)
  have h2: "readWithRetries (e_stringify env) parse reads = Some (V2 ?saved)"
    if "parse (pretty ?saved) = Some (V2 ?saved)" and "\<forall>k. reads k = Some (pretty ?saved)"
    using that h1 by (simp add: readWithRetries_first)
  show ?thesis using a b c d e f g1 g2 h1 h2 by blast
qed

theorem checksum_round_trip_witness:
  "chatData (saveChat checkedEnv (stateWith [sampleMsg])) = savedDoc
   \<and> compactStringify (savedDoc\<lparr>checksum := None\<rparr>)
       = toCodeUnits ''{\"channels\":[\"general\"],\"channelMessages\":[\"hello\"]}''
   \<and> computeDataChecksum compactStringify savedDoc = ''a9d20d8c''
   \<and> checksum savedDoc = Some ''a9d20d8c''
   \<and> stampChecksum compactStringify unstampedDoc = savedDoc
   \<and> validateDataIntegrity compactStringify savedDoc
   \<and> tableParse (spacedStringify savedDoc) = Some (V2 savedDoc)
   \<and> saveContent compactStringify spacedStringify unstampedDoc = spacedStringify savedDoc
   \<and> loadAttempt compactStringify tableParse (Some (spacedStringify savedDoc)) = Some (V2 savedDoc)
   \<and> readWithRetries compactStringify tableParse (\<lambda>k. Some (spacedStringify savedDoc))
       = Some (V2 savedDoc)
   \<and> \<not> validateDataIntegrity compactStringify
         (savedDoc\<lparr>channelMessages := [(GENERAL_CHANNEL_ID, [])]\<rparr>)"
proof -
  let ?reads = "\<lambda>k::nat. Some (spacedStringify savedDoc)"
  have s: "chatData (saveChat checkedEnv (stateWith [sampleMsg])) = savedDoc"
    by (rule saveChat_sample)
  have n: "savedDoc\<lparr>checksum := None\<rparr> = unstampedDoc"
    by (simp add: savedDoc_def unstampedDoc_def createEmptyV2Data_def)
  have u: "compactStringify (savedDoc\<lparr>checksum := None\<rparr>)
       = toCodeUnits ''{\"channels\":[\"general\"],\"channelMessages\":[\"hello\"]}''"
    unfolding n compactStringify_unstamped by (simp add: toCodeUnits_def)
  have k: "computeDataChecksum compactStringify savedDoc = ''a9d20d8c''"
    using computeHash_unstamped n by (simp add: computeDataChecksum_def)
  have c: "checksum savedDoc = Some ''a9d20d8c''" by (simp add: savedDoc_def)
  have e: "e_stringify checkedEnv = compactStringify" by (simp add: checkedEnv_def)
  have st: "stampChecksum compactStringify unstampedDoc = savedDoc"
    using computeHash_unstamped
    by (simp add: stampChecksum_def computeDataChecksum_def savedDoc_def Let_def unstampedDoc_def
        createEmptyV2Data_def)
  have p: "tableParse (spacedStringify savedDoc) = Some (V2 savedDoc)"
    by (simp add: tableParse_def)
  have sc: "saveContent compactStringify spacedStringify unstampedDoc = spacedStringify savedDoc"
    by (simp add: saveContent_def st)
  have x: "\<not> validateDataIntegrity compactStringify
         (savedDoc\<lparr>channelMessages := [(GENERAL_CHANNEL_ID, [])]\<rparr>)"
  proof -
    have "(savedDoc\<lparr>channelMessages := [(GENERAL_CHANNEL_ID, [])]\<rparr>)\<lparr>checksum := None\<rparr>
            = unstampedDoc\<lparr>channelMessages := [(GENERAL_CHANNEL_ID, [])]\<rparr>"
      by (simp add: savedDoc_def unstampedDoc_def createEmptyV2Data_def)
    then have "computeDataChecksum compactStringify (savedDoc\<lparr>channelMessages := [(GENERAL_CHANNEL_ID, [])]\<rparr>)
                 = ''e85ee893''"
      using computeHash_emptied by (simp add: computeDataChecksum_def)
    then show ?thesis by (simp add: validateDataIntegrity_def savedDoc_def)
  qed
  have r: "\<forall>k. ?reads k = Some (spacedStringify savedDoc)" by simp
  show ?thesis
    using checksum_round_trip [where stringify = compactStringify and data = savedDoc
        and env = checkedEnv and st = "stateWith [sampleMsg]" and parse = tableParse
        and pretty = spacedStringify and reads = ?reads]
      s u k c e st p sc x r
    by simp
qed

text \<open>
  Claim C10. A V2 document that carries no \<open>_checksum\<close> field passes
  \<open>validateDataIntegrity\<close>, so the load attempt that parsed it accepts it, and the read
  loop of \<open>loadChat\<close> returns it from the first attempt without a retry.
\<close>

theorem no_checksum_accepted:
  assumes "checksum data = None"
  shows "validateDataIntegrity stringify data
    \<and> (parse content = Some (V2 data)
        \<longrightarrow> loadAttempt stringify parse (Some content) = Some (V2 data)
          \<and> (reads 1 = Some content
               \<longrightarrow> readWithRetries stringify parse reads = Some (V2 data)))"
  using assms
  by (simp add: validateDataIntegrity_def loadAttempt_def readWithRetries_def
      MAX_LOAD_RETRIES_def numeral_3_eq_3)

theorem no_checksum_accepted_witness:
  "checksum sampleDoc = None
   \<and> sampleParseChat [0] = Some (V2 sampleDoc)
   \<and> validateDataIntegrity sampleStringify sampleDoc
   \<and> loadAttempt sampleStringify sampleParseChat (Some [0]) = Some (V2 sampleDoc)
   \<and> readWithRetries sampleStringify sampleParseChat (\<lambda>k. Some [0]) = Some (V2 sampleDoc)"
proof -
  have h1: "checksum sampleDoc = None" by (simp add: sampleDoc_def)
  have h2: "sampleParseChat [0] = Some (V2 sampleDoc)" by (simp add: sampleParseChat_def)
  show ?thesis
    using no_checksum_accepted [OF h1, of sampleStringify sampleParseChat "[0]" "\<lambda>k. Some [0]"]
      h1 h2
    by simp
qed

section \<open>Properties of the registration lock\<close>

text \<open>
  Claim C8, as the code has it. \<open>releaseLock\<close> removes the lock file when the file
  records the caller as holder, and also when the file cannot be read as a lock record
  (\<open>JSON.parse\<close> throws, or yields \<open>null\<close>): the handler of the inner \<open>try\<close> removes an
  invalid lock file. A lock file that records a different holder is left in place.
\<close>

theorem releaseLock_removes_iff:
  "(releaseLock localId parse (Some content) = None
      \<longleftrightarrow> parse content = None \<or> parse content = Some JNull
        \<or> (\<exists>kvs. parse content = Some (JObj kvs) \<and> map_of kvs ''holder'' = Some (JStr localId)))
   \<and> (parse content = Some (JObj kvs) \<and> map_of kvs ''holder'' = Some (JStr h) \<and> h \<noteq> localId
        \<longrightarrow> releaseLock localId parse (Some content) = Some content)"
proof -
  have "releaseLock localId parse (Some content) = None
      \<longleftrightarrow> parse content = None \<or> parse content = Some JNull
        \<or> (\<exists>kvs. parse content = Some (JObj kvs) \<and> map_of kvs ''holder'' = Some (JStr localId))"
  proof (cases "parse content")
    case None
    then show ?thesis by (simp add: releaseLock_def)
  next
    case (Some v)
    then show ?thesis by (cases v) (simp_all add: releaseLock_def)
  qed
  moreover have "releaseLock localId parse (Some content) = Some content"
    if "parse content = Some (JObj kvs)" "map_of kvs ''holder'' = Some (JStr h)" "h \<noteq> localId"
    using that by (simp add: releaseLock_def)
  ultimately show ?thesis by blast
qed

theorem releaseLock_removes_iff_witness:
  "sampleParse ''{\"holder\":\"bob@laptop\",\"timestamp\":1700000000000}''
     = Some (JObj [(''holder'', JStr ''bob@laptop''), (''timestamp'', JNum 1700000000000)])
   \<and> ''bob@laptop'' \<noteq> ''alice@desktop''
   \<and> releaseLock ''alice@desktop'' sampleParse
        (Some ''{\"holder\":\"bob@laptop\",\"timestamp\":1700000000000}'')
      = Some ''{\"holder\":\"bob@laptop\",\"timestamp\":1700000000000}''
   \<and> releaseLock ''bob@laptop'' sampleParse
        (Some ''{\"holder\":\"bob@laptop\",\"timestamp\":1700000000000}'') = None"
proof -
  let ?c = "''{\"holder\":\"bob@laptop\",\"timestamp\":1700000000000}''"
  let ?kvs = "[(''holder'', JStr ''bob@laptop''), (''timestamp'', JNum 1700000000000)]"
  have p: "sampleParse ?c = Some (JObj ?kvs)" by (simp add: sampleParse_def)
  have m: "map_of ?kvs ''holder'' = Some (JStr ''bob@laptop'')" by simp
  have n: "''bob@laptop'' \<noteq> ''alice@desktop''" by simp
  show ?thesis
    using releaseLock_removes_iff [of "''alice@desktop''" sampleParse ?c ?kvs "''bob@laptop''"]
      releaseLock_removes_iff [of "''bob@laptop''" sampleParse ?c ?kvs "''bob@laptop''"]
      p m n
    by blast
qed

text \<open>
  Claim C8 as stated fails: a lock file cut short in transit records no holder equal to
  the caller, yet \<open>releaseLock\<close> called by \<open>alice@desktop\<close> removes it.
\<close>

theorem releaseLock_only_holder_counterexample:
  "sampleParse ''{\"holder\":\"bob@lap'' = None
   \<and> releaseLock ''alice@desktop'' sampleParse (Some ''{\"holder\":\"bob@lap'') = None"
  by (simp add: sampleParse_def releaseLock_def)

section \<open>Properties of the message merge\<close>

lemma keys_emEnsure: "fst ` set (emEnsure em e) = insert e (fst ` set em)"
  by (auto simp: emEnsure_def)

lemma pairsEM_emEnsure: "pairsEM (emEnsure em e) = pairsEM em"
  by (auto simp: emEnsure_def pairsEM_def)

lemma emAdd_Nil: "emAdd [] e u = []"
  by (simp add: emAdd_def)

lemma emAdd_Cons:
  "emAdd ((k, us) # em) e u =
     (if k = e then (k, if u \<in> set us then us else us @ [u]) else (k, us)) # emAdd em e u"
  by (simp add: emAdd_def)

lemma pairsEM_Cons: "pairsEM ((k, us) # em) = {k} \<times> set us \<union> pairsEM em"
  by (simp add: pairsEM_def)

lemma keys_emAdd: "fst ` set (emAdd em e u) = fst ` set em"
proof (induction em)
  case Nil
  then show ?case by (simp add: emAdd_Nil)
next
  case (Cons x em)
  obtain k us where x: "x = (k, us)" by (cases x)
  show ?case using Cons.IH by (simp add: x emAdd_Cons)
qed

lemma pairsEM_emAdd:
  "pairsEM (emAdd em e u) = pairsEM em \<union> (if e \<in> fst ` set em then {(e, u)} else {})"
proof (induction em)
  case Nil
  then show ?case by (simp add: emAdd_Nil)
next
  case (Cons x em)
  obtain k us where x: "x = (k, us)" by (cases x)
  show ?case
  proof (cases "k = e")
    case True
    then show ?thesis using Cons.IH by (auto simp: x emAdd_Cons pairsEM_Cons)
  next
    case False
    then show ?thesis using Cons.IH by (auto simp: x emAdd_Cons pairsEM_Cons)
  qed
qed

lemma keys_foldl_emAdd:
  "fst ` set (foldl (\<lambda>em user. if skip user then em else emAdd em e user) em us) = fst ` set em"
proof (induction us arbitrary: em)
  case Nil
  then show ?case by simp
next
  case (Cons u us)
  show ?case
  proof (cases "skip u")
    case True
    then show ?thesis using Cons.IH [of em] by simp
  next
    case False
    then show ?thesis using Cons.IH [of "emAdd em e u"] by (simp add: keys_emAdd)
  qed
qed

lemma pairs_foldl_emAdd:
  assumes "e \<in> fst ` set em"
  shows "pairsEM (foldl (\<lambda>em user. if skip user then em else emAdd em e user) em us)
       = pairsEM em \<union> {e} \<times> {u \<in> set us. \<not> skip u}"
  using assms
proof (induction us arbitrary: em)
  case Nil
  then show ?case by simp
next
  case (Cons u us)
  show ?case
  proof (cases "skip u")
    case True
    then show ?thesis using Cons.IH [of em] Cons.prems by auto
  next
    case False
    have "e \<in> fst ` set (emAdd em e u)" using Cons.prems by (simp add: keys_emAdd)
    then have "pairsEM (foldl (\<lambda>em user. if skip user then em else emAdd em e user) (emAdd em e u) us)
       = pairsEM (emAdd em e u) \<union> {e} \<times> {u \<in> set us. \<not> skip u}"
      by (rule Cons.IH)
    then show ?thesis using False Cons.prems by (auto simp: pairsEM_emAdd)
  qed
qed

lemma pairsR_Cons: "pairsR (r # rs) = {emoji r} \<times> set (users r) \<union> pairsR rs"
  by (simp add: pairsR_def)

lemma pairsR_Nil: "pairsR [] = {}"
  by (simp add: pairsR_def)

lemma pairsEM_collectDisk_gen:
  "pairsEM (foldl (\<lambda>em reaction.
              foldl (\<lambda>em user. if skip (emoji reaction) user then em else emAdd em (emoji reaction) user)
                (emEnsure em (emoji reaction)) (users reaction)) em rs)
   = pairsEM em \<union> {p \<in> pairsR rs. \<not> skip (fst p) (snd p)}"
proof (induction rs arbitrary: em)
  case Nil
  then show ?case by (simp add: pairsR_Nil)
next
  case (Cons r rs)
  let ?em' = "foldl (\<lambda>em user. if skip (emoji r) user then em else emAdd em (emoji r) user)
                (emEnsure em (emoji r)) (users r)"
  have "pairsEM ?em' = pairsEM em \<union> {emoji r} \<times> {u \<in> set (users r). \<not> skip (emoji r) u}"
    using pairs_foldl_emAdd [of "emoji r" "emEnsure em (emoji r)" "skip (emoji r)" "users r"]
    by (simp add: keys_emEnsure pairsEM_emEnsure)
  then show ?case
    using Cons.IH [of ?em'] by (auto simp: pairsR_Cons)
qed

lemma pairsEM_collectOurs: "pairsEM (collectOurs em rs) = pairsEM em \<union> pairsR rs"
  using pairsEM_collectDisk_gen [of "\<lambda>e u. False" em rs]
  by (simp add: collectOurs_def)

lemma pairsEM_collectDisk:
  "pairsEM (collectDisk now toggles ourId em rs)
   = pairsEM em \<union> {p \<in> pairsR rs. getRecentReactionToggle now toggles ourId (fst p) (snd p) \<noteq> Some False}"
  using pairsEM_collectDisk_gen
    [of "\<lambda>e u. getRecentReactionToggle now toggles ourId e u = Some False" em rs]
  by (simp add: collectDisk_def)

lemma pairsEM_forceAdded:
  "pairsEM (forceAdded now em ts)
   = pairsEM em \<union> {p. \<exists>t \<in> set ts. \<not> REACTION_TOGGLE_PROTECTION_DURATION < now - t_timestamp t
                \<and> t_added t \<and> keyParts (entryKey t) = Some p}"
  unfolding forceAdded_def
proof (induction ts arbitrary: em)
  case Nil
  then show ?case by simp
next
  case (Cons t ts)
  show ?case
    apply (simp only: foldl_Cons)
    apply (subst Cons.IH)
    apply (auto simp: pairsEM_emAdd pairsEM_emEnsure keys_emEnsure split: option.splits if_splits)
    done
qed

lemma pairsR_toReactions: "pairsR (toReactions em) = pairsEM em"
  by (induction em) (auto simp: toReactions_def pairsR_def pairsEM_def)

lemma pairsEM_Nil: "pairsEM [] = {}"
  by (simp add: pairsEM_def)

lemma pairsR_mergedReactions:
  "pairsR (mergedReactions now toggles ourMsg diskMsg)
   = pairsOf (m_reactions ourMsg)
     \<union> {p \<in> pairsOf (m_reactions diskMsg).
          getRecentReactionToggle now toggles (m_id ourMsg) (fst p) (snd p) \<noteq> Some False}
     \<union> forcedPairs now toggles (m_id ourMsg)"
proof -
  define em1 where "em1 = (case m_reactions ourMsg of None \<Rightarrow> [] | Some rs \<Rightarrow> collectOurs [] rs)"
  define em2 where "em2 = (case m_reactions diskMsg of None \<Rightarrow> em1
                 | Some rs \<Rightarrow> collectDisk now toggles (m_id ourMsg) em1 rs)"
  define em3 where "em3 = (case toggles (m_id ourMsg) of None \<Rightarrow> em2
                 | Some msgToggles \<Rightarrow> forceAdded now em2 msgToggles)"
  have 1: "pairsEM em1 = pairsOf (m_reactions ourMsg)"
    by (cases "m_reactions ourMsg")
      (simp_all add: em1_def pairsOf_def pairsEM_Nil pairsEM_collectOurs)
  have 2: "pairsEM em2 = pairsEM em1 \<union> {p \<in> pairsOf (m_reactions diskMsg).
          getRecentReactionToggle now toggles (m_id ourMsg) (fst p) (snd p) \<noteq> Some False}"
    by (cases "m_reactions diskMsg")
      (simp_all add: em2_def pairsOf_def pairsEM_collectDisk)
  have 3: "pairsEM em3 = pairsEM em2 \<union> forcedPairs now toggles (m_id ourMsg)"
    by (cases "toggles (m_id ourMsg)")
      (simp_all add: em3_def forcedPairs_def pairsEM_forceAdded)
  have "mergedReactions now toggles ourMsg diskMsg = toReactions em3"
    unfolding mergedReactions_def Let_def em3_def em2_def em1_def by (rule refl)
  then show ?thesis
    by (simp only: pairsR_toReactions 1 2 3)
qed

lemma splitOn_no_sep: "c \<notin> set s \<Longrightarrow> splitOn c s = [s]"
  by (induction s) auto

lemma splitOn_sep: "c \<notin> set a \<Longrightarrow> splitOn c (a @ c # b) = a # splitOn c b"
  by (induction a) auto

lemma keyParts_toggleKey:
  "CHR ''|'' \<notin> set e \<Longrightarrow> CHR ''|'' \<notin> set u \<Longrightarrow> keyParts (toggleKey e u) = Some (e, u)"
  by (simp add: keyParts_def toggleKey_def splitOn_sep splitOn_no_sep)

lemma m_reactions_mergeEditedStep [simp]:
  "m_reactions (mergeEditedStep tm ourMsg diskMsg) = m_reactions ourMsg"
  by (simp add: mergeEditedStep_def)

lemma m_deleted_mergeEditedStep [simp]:
  "m_deleted (mergeEditedStep tm ourMsg diskMsg) = m_deleted ourMsg"
  by (simp add: mergeEditedStep_def)

lemma m_deleted_mergeReactionsStep [simp]:
  "m_deleted (mergeReactionsStep tm now toggles ourMsg diskMsg) = m_deleted ourMsg"
  by (simp add: mergeReactionsStep_def Let_def)

lemma m_reactions_mergeMessageUpdates:
  "m_reactions (mergeMessageUpdates tm now toggles ourMsg diskMsg) =
     (if trustDisk tm ourMsg diskMsg \<or> (truthyB (m_deleted diskMsg) \<and> \<not> truthyB (m_deleted ourMsg))
      then None
      else if 0 < length (mergedReactions now toggles ourMsg diskMsg)
           then Some (mergedReactions now toggles ourMsg diskMsg) else None)"
  by (simp add: mergeMessageUpdates_def mergeDeletedStep_def mergeReactionsStep_def Let_def)

lemma pairsOf_nonempty_or_None:
  "pairsOf (if 0 < length rs then Some rs else None) = pairsR rs"
  by (cases rs) (simp_all add: pairsOf_def pairsR_Nil)

text \<open>
  Claim C1, as the code has it. Unless the merge clears the reactions (the disk copy is
  deleted and the local copy is not, or the "trust disk" branch applies: the disk copy has
  no reactions field, the local copy has reactions, and the disk copy is deleted or was
  edited later), the merged (emoji, user) pairs are exactly: the local pairs, the disk
  pairs that the ledger does not show as toggled off within the 60 seconds, and the pairs
  decoded from the keys toggled on within the 60 seconds. In the two excepted cases the
  merged message has no reactions at all. A pair toggled on within the 60 seconds whose
  emoji and user name do not contain the key separator is one of the forced pairs.
\<close>

theorem reactions_merge_pairs:
  "(\<not> trustDisk tm ourMsg diskMsg
      \<and> \<not> (truthyB (m_deleted diskMsg) \<and> \<not> truthyB (m_deleted ourMsg))
     \<longrightarrow> pairsOf (m_reactions (mergeMessageUpdates tm now toggles ourMsg diskMsg))
         = pairsOf (m_reactions ourMsg)
           \<union> {p \<in> pairsOf (m_reactions diskMsg).
                getRecentReactionToggle now toggles (m_id ourMsg) (fst p) (snd p) \<noteq> Some False}
           \<union> forcedPairs now toggles (m_id ourMsg))
   \<and> (trustDisk tm ourMsg diskMsg \<or> (truthyB (m_deleted diskMsg) \<and> \<not> truthyB (m_deleted ourMsg))
     \<longrightarrow> m_reactions (mergeMessageUpdates tm now toggles ourMsg diskMsg) = None)
   \<and> (toggles (m_id ourMsg) = Some msgToggles \<and> t \<in> set msgToggles \<and> t_added t
        \<and> now - t_timestamp t \<le> REACTION_TOGGLE_PROTECTION_DURATION
        \<and> CHR ''|'' \<notin> set (t_emoji t) \<and> CHR ''|'' \<notin> set (t_username t)
     \<longrightarrow> (t_emoji t, t_username t) \<in> forcedPairs now toggles (m_id ourMsg))"
proof (intro conjI impI)
  assume "\<not> trustDisk tm ourMsg diskMsg
      \<and> \<not> (truthyB (m_deleted diskMsg) \<and> \<not> truthyB (m_deleted ourMsg))"
  then have "m_reactions (mergeMessageUpdates tm now toggles ourMsg diskMsg)
      = (if 0 < length (mergedReactions now toggles ourMsg diskMsg)
           then Some (mergedReactions now toggles ourMsg diskMsg) else None)"
    by (auto simp: m_reactions_mergeMessageUpdates)
  then show "pairsOf (m_reactions (mergeMessageUpdates tm now toggles ourMsg diskMsg))
         = pairsOf (m_reactions ourMsg)
           \<union> {p \<in> pairsOf (m_reactions diskMsg).
                getRecentReactionToggle now toggles (m_id ourMsg) (fst p) (snd p) \<noteq> Some False}
           \<union> forcedPairs now toggles (m_id ourMsg)"
    by (simp only: pairsOf_nonempty_or_None pairsR_mergedReactions)
next
  assume "trustDisk tm ourMsg diskMsg \<or> (truthyB (m_deleted diskMsg) \<and> \<not> truthyB (m_deleted ourMsg))"
  then show "m_reactions (mergeMessageUpdates tm now toggles ourMsg diskMsg) = None"
    by (simp add: m_reactions_mergeMessageUpdates)
next
  assume a: "toggles (m_id ourMsg) = Some msgToggles \<and> t \<in> set msgToggles \<and> t_added t
        \<and> now - t_timestamp t \<le> REACTION_TOGGLE_PROTECTION_DURATION
        \<and> CHR ''|'' \<notin> set (t_emoji t) \<and> CHR ''|'' \<notin> set (t_username t)"
  then have k: "keyParts (entryKey t) = Some (t_emoji t, t_username t)"
    by (simp add: entryKey_def keyParts_toggleKey)
  have "\<exists>ta \<in> set msgToggles. \<not> REACTION_TOGGLE_PROTECTION_DURATION < now - t_timestamp ta
     \<and> t_added ta \<and> keyParts (entryKey ta) = Some (t_emoji t, t_username t)"
    using a k by (intro bexI [of _ t]) auto
  then show "(t_emoji t, t_username t) \<in> forcedPairs now toggles (m_id ourMsg)"
    using a by (simp add: forcedPairs_def)
qed

lemma merge_keeps_deleted:
  "truthyB (m_deleted ourMsg) \<Longrightarrow> truthyB (m_deleted (mergeMessageUpdates tm now toggles ourMsg diskMsg))"
  by (simp add: mergeMessageUpdates_def mergeDeletedStep_def)

lemma merge_adopts_deletion:
  assumes "truthyB (m_deleted diskMsg)"
  shows "truthyB (m_deleted (mergeMessageUpdates tm now toggles ourMsg diskMsg))"
  using assms by (simp add: mergeMessageUpdates_def mergeDeletedStep_def)

lemma sampleToggles_m1:
  "sampleToggles ''m1'' =
     Some [\<lparr>t_emoji = ''+1'', t_username = ''bob'', t_added = False, t_timestamp = 1714557962000\<rparr>,
           \<lparr>t_emoji = ''tada'', t_username = ''bob'', t_added = True, t_timestamp = 1714557965000\<rparr>]"
  by (simp add: sampleToggles_def trackReactionToggle_def Let_def entryKey_def toggleKey_def)

lemma getRecent_sample_plus1:
  "getRecentReactionToggle 1714557970000 sampleToggles ''m1'' ''+1'' ''bob'' = Some False"
  by (simp add: getRecentReactionToggle_def sampleToggles_m1 Let_def entryKey_def toggleKey_def
      REACTION_TOGGLE_PROTECTION_DURATION_def)

lemma getRecent_sample_tada:
  "getRecentReactionToggle 1714557970000 sampleToggles ''m1'' ''tada'' ''bob'' = Some True"
  by (simp add: getRecentReactionToggle_def sampleToggles_m1 Let_def entryKey_def toggleKey_def
      REACTION_TOGGLE_PROTECTION_DURATION_def)

lemma getRecent_sample_other:
  "getRecentReactionToggle 1714557970000 sampleToggles ''m1'' ''+1'' ''alice'' = None"
  "getRecentReactionToggle 1714557970000 sampleToggles ''m1'' ''heart'' ''carol'' = None"
  by (simp add: getRecentReactionToggle_def sampleToggles_m1 Let_def entryKey_def toggleKey_def
      REACTION_TOGGLE_PROTECTION_DURATION_def)+

lemma sample_merged_reactions:
  "m_reactions (mergeMessageUpdates sampleTm 1714557970000 sampleToggles sampleOurs sampleDisk)
   = Some [\<lparr>emoji = ''+1'', users = [''alice'']\<rparr>, \<lparr>emoji = ''heart'', users = [''carol'']\<rparr>,
           \<lparr>emoji = ''tada'', users = [''bob'']\<rparr>]"
proof -
  have id: "m_id sampleOurs = ''m1''" by (simp add: sampleOurs_def sampleMsg_def)
  have "mergedReactions 1714557970000 sampleToggles sampleOurs sampleDisk
    = [\<lparr>emoji = ''+1'', users = [''alice'']\<rparr>, \<lparr>emoji = ''heart'', users = [''carol'']\<rparr>,
           \<lparr>emoji = ''tada'', users = [''bob'']\<rparr>]"
    unfolding mergedReactions_def id
    by (simp add: sampleOurs_def sampleDisk_def sampleMsg_def sampleToggles_m1 collectOurs_def
        collectDisk_def forceAdded_def emEnsure_def emAdd_def toReactions_def
        getRecent_sample_plus1 getRecent_sample_other keyParts_def entryKey_def toggleKey_def
        REACTION_TOGGLE_PROTECTION_DURATION_def)
  moreover have "\<not> trustDisk sampleTm sampleOurs sampleDisk"
    by (simp add: trustDisk_def sampleDisk_def sampleMsg_def)
  moreover have "\<not> truthyB (m_deleted sampleDisk)"
    by (simp add: truthyB_def sampleDisk_def sampleMsg_def)
  ultimately show ?thesis
    by (simp add: m_reactions_mergeMessageUpdates)
qed


theorem reactions_merge_pairs_witness:
  "\<not> trustDisk sampleTm sampleOurs sampleDisk
   \<and> \<not> (truthyB (m_deleted sampleDisk) \<and> \<not> truthyB (m_deleted sampleOurs))
   \<and> pairsOf (m_reactions (mergeMessageUpdates sampleTm 1714557970000 sampleToggles sampleOurs sampleDisk))
       = pairsOf (m_reactions sampleOurs)
         \<union> {p \<in> pairsOf (m_reactions sampleDisk).
              getRecentReactionToggle 1714557970000 sampleToggles (m_id sampleOurs) (fst p) (snd p)
                \<noteq> Some False}
         \<union> forcedPairs 1714557970000 sampleToggles (m_id sampleOurs)
   \<and> (''tada'', ''bob'') \<in> forcedPairs 1714557970000 sampleToggles (m_id sampleOurs)
   \<and> truthyB (m_deleted sampleDiskDeleted) \<and> \<not> truthyB (m_deleted sampleOurs)
   \<and> m_reactions (mergeMessageUpdates sampleTm 1714557970000 sampleToggles sampleOurs sampleDiskDeleted)
       = None"
proof -
  let ?t = "\<lparr>t_emoji = ''tada'', t_username = ''bob'', t_added = True, t_timestamp = 1714557965000\<rparr>"
  let ?ts = "[\<lparr>t_emoji = ''+1'', t_username = ''bob'', t_added = False, t_timestamp = 1714557962000\<rparr>, ?t]"
  have h1: "\<not> trustDisk sampleTm sampleOurs sampleDisk"
    by (simp add: trustDisk_def sampleDisk_def sampleMsg_def)
  have h2: "\<not> (truthyB (m_deleted sampleDisk) \<and> \<not> truthyB (m_deleted sampleOurs))"
    by (simp add: truthyB_def sampleDisk_def sampleMsg_def)
  have h3: "sampleToggles (m_id sampleOurs) = Some ?ts \<and> ?t \<in> set ?ts \<and> t_added ?t
        \<and> 1714557970000 - t_timestamp ?t \<le> REACTION_TOGGLE_PROTECTION_DURATION
        \<and> CHR ''|'' \<notin> set (t_emoji ?t) \<and> CHR ''|'' \<notin> set (t_username ?t)"
    by (simp add: sampleOurs_def sampleMsg_def sampleToggles_m1
        REACTION_TOGGLE_PROTECTION_DURATION_def)
  have h4: "truthyB (m_deleted sampleDiskDeleted) \<and> \<not> truthyB (m_deleted sampleOurs)"
    by (simp add: truthyB_def sampleDiskDeleted_def markDeleted_def sampleOurs_def sampleMsg_def)
  have e: "t_emoji ?t = ''tada''" "t_username ?t = ''bob''" by simp_all
  show ?thesis
    using reactions_merge_pairs [of sampleTm sampleOurs sampleDisk 1714557970000 sampleToggles ?ts ?t]
      reactions_merge_pairs [of sampleTm sampleOurs sampleDiskDeleted 1714557970000 sampleToggles ?ts ?t]
      h1 h2 h3 h4
    unfolding e by blast
qed

text \<open>
  Claim C1 as stated fails. The local user \<open>bob\<close> toggled \<open>tada\<close> on five seconds before
  the merge and the local copy holds the pair; the disk copy has no reactions field and
  was edited later than the local copy, so the "trust disk" branch drops every reaction:
  the merged result holds neither the union of both sides nor the pair toggled on within
  the 60 seconds.
\<close>

theorem reactions_merge_counterexample:
  "getRecentReactionToggle 1714557970000 sampleToggles (m_id sampleOursEdited) ''tada'' ''bob''
     = Some True
   \<and> (''tada'', ''bob'') \<in> pairsOf (m_reactions sampleOursEdited)
   \<and> (''tada'', ''bob'')
       \<notin> pairsOf (m_reactions (mergeMessageUpdates sampleTm 1714557970000 sampleToggles
             sampleOursEdited sampleDiskEdited))"
proof -
  have "trustDisk sampleTm sampleOursEdited sampleDiskEdited"
    by (simp add: trustDisk_def sampleOursEdited_def sampleDiskEdited_def sampleMsg_def
        truthyS_def truthyB_def dateGt_def sampleTm_def)
  then have "m_reactions (mergeMessageUpdates sampleTm 1714557970000 sampleToggles
             sampleOursEdited sampleDiskEdited) = None"
    by (simp add: m_reactions_mergeMessageUpdates)
  moreover have "m_id sampleOursEdited = ''m1''"
    by (simp add: sampleOursEdited_def sampleMsg_def)
  moreover have "(''tada'', ''bob'') \<in> pairsOf (m_reactions sampleOursEdited)"
    by (simp add: sampleOursEdited_def sampleMsg_def pairsOf_def pairsR_def)
  ultimately show ?thesis
    by (simp add: getRecent_sample_tada pairsOf_def)
qed

text \<open>
  Claim C2 on the code. \<open>sampleMsg\<close> was deleted locally by \<open>deleteMessage\<close>; the disk copy
  of the same message is not deleted, carries an edit and a reaction. The merge keeps the
  \<open>deleted\<close> flag but takes the edited text from disk and merges the disk reaction in: the
  deleted message has content again.
\<close>

theorem deleted_message_regains_content:
  "m_id (markDeleted sampleMsg) = m_id sampleDiskReacted
   \<and> m_deleted (markDeleted sampleMsg) = Some True \<and> m_message (markDeleted sampleMsg) = []
   \<and> m_deleted (mergeMessageUpdates sampleTm 1714557970000 (\<lambda>messageId. None)
        (markDeleted sampleMsg) sampleDiskReacted) = Some True
   \<and> m_message (mergeMessageUpdates sampleTm 1714557970000 (\<lambda>messageId. None)
        (markDeleted sampleMsg) sampleDiskReacted) = ''hello there''
   \<and> m_reactions (mergeMessageUpdates sampleTm 1714557970000 (\<lambda>messageId. None)
        (markDeleted sampleMsg) sampleDiskReacted) = Some [\<lparr>emoji = ''+1'', users = [''carol'']\<rparr>]"
proof -
  have r: "mergedReactions 1714557970000 (\<lambda>messageId. None) (markDeleted sampleMsg) sampleDiskReacted
    = [\<lparr>emoji = ''+1'', users = [''carol'']\<rparr>]"
    by (simp add: mergedReactions_def markDeleted_def sampleMsg_def sampleDiskReacted_def
        collectDisk_def emEnsure_def emAdd_def toReactions_def getRecentReactionToggle_def)
  have t: "\<not> trustDisk sampleTm (markDeleted sampleMsg) sampleDiskReacted"
    by (simp add: trustDisk_def sampleDiskReacted_def sampleMsg_def)
  have d: "\<not> truthyB (m_deleted sampleDiskReacted)"
    by (simp add: truthyB_def sampleDiskReacted_def sampleMsg_def)
  have 1: "m_reactions (mergeMessageUpdates sampleTm 1714557970000 (\<lambda>messageId. None)
        (markDeleted sampleMsg) sampleDiskReacted) = Some [\<lparr>emoji = ''+1'', users = [''carol'']\<rparr>]"
    using r t d by (simp add: m_reactions_mergeMessageUpdates)
  have 2: "m_message (mergeMessageUpdates sampleTm 1714557970000 (\<lambda>messageId. None)
        (markDeleted sampleMsg) sampleDiskReacted) = ''hello there''"
    by (simp add: mergeMessageUpdates_def mergeDeletedStep_def mergeEditedStep_def
        mergeReactionsStep_def Let_def truthyB_def markDeleted_def sampleMsg_def
        sampleDiskReacted_def)
  have 3: "m_deleted (mergeMessageUpdates sampleTm 1714557970000 (\<lambda>messageId. None)
        (markDeleted sampleMsg) sampleDiskReacted) = Some True"
    by (simp add: mergeMessageUpdates_def mergeDeletedStep_def truthyB_def markDeleted_def
        sampleMsg_def sampleDiskReacted_def)
  show ?thesis
    using 1 2 3 by (simp add: markDeleted_def sampleMsg_def sampleDiskReacted_def)
qed

section \<open>Properties of the manager operations\<close>

lemma channels_ensureRecent [simp]:
  "channels (chatData (ensureRecentMessagesExist tm now st)) = channels (chatData st)"
  by (simp add: ensureRecentMessagesExist_def Let_def)

lemma channels_stampChecksum [simp]: "channels (stampChecksum s d) = channels d"
  by (simp add: stampChecksum_def Let_def)

lemma channelMessages_stampChecksum [simp]: "channelMessages (stampChecksum s d) = channelMessages d"
  by (simp add: stampChecksum_def Let_def)

lemma channels_mergeDiskOnSave [simp]:
  "channels (mergeDiskOnSave tm now st diskData) = channels (chatData st)"
  by (simp add: mergeDiskOnSave_def Let_def split: option.splits)

lemma channels_saveChat [simp]: "channels (chatData (saveChat env st)) = channels (chatData st)"
proof (cases "e_disk env")
  case (Parsed raw)
  then show ?thesis by (cases raw) (simp_all add: saveChat_def Let_def)
qed (simp_all add: saveChat_def Let_def)

lemma ledgers_ensureRecent [simp]:
  "recentlyLeftChannels (ensureRecentMessagesExist tm now st) = recentlyLeftChannels st"
  "recentlyAddedMembers (ensureRecentMessagesExist tm now st) = recentlyAddedMembers st"
  "recentlyDeletedChannels (ensureRecentMessagesExist tm now st) = recentlyDeletedChannels st"
  "currentUser (ensureRecentMessagesExist tm now st) = currentUser st"
  by (simp_all add: ensureRecentMessagesExist_def Let_def)

lemma ledgers_saveChat [simp]:
  "recentlyLeftChannels (saveChat env st) = recentlyLeftChannels st"
  "recentlyAddedMembers (saveChat env st) = recentlyAddedMembers st"
  "recentlyDeletedChannels (saveChat env st) = recentlyDeletedChannels st"
  "currentUser (saveChat env st) = currentUser st"
proof -
  have "recentlyLeftChannels (saveChat env st) = recentlyLeftChannels st
    \<and> recentlyAddedMembers (saveChat env st) = recentlyAddedMembers st
    \<and> recentlyDeletedChannels (saveChat env st) = recentlyDeletedChannels st
    \<and> currentUser (saveChat env st) = currentUser st"
  proof (cases "e_disk env")
    case (Parsed raw)
    then show ?thesis by (cases raw) (simp_all add: saveChat_def Let_def)
  qed (simp_all add: saveChat_def Let_def)
  then show "recentlyLeftChannels (saveChat env st) = recentlyLeftChannels st"
    "recentlyAddedMembers (saveChat env st) = recentlyAddedMembers st"
    "recentlyDeletedChannels (saveChat env st) = recentlyDeletedChannels st"
    "currentUser (saveChat env st) = currentUser st"
    by simp_all
qed

lemma length_sortByTimestamp [simp]: "length (sortByTimestamp tm xs) = length xs"
  by (simp add: sortByTimestamp_def)

lemma set_sortByTimestamp [simp]: "set (sortByTimestamp tm xs) = set xs"
  by (simp add: sortByTimestamp_def)

lemma map_of_update_same [simp]: "map_of (AList.update k v al) k = Some v"
  by (simp add: update_conv')

lemma map_of_update_other [simp]: "k' \<noteq> k \<Longrightarrow> map_of (AList.update k v al) k' = map_of al k'"
  by (simp add: update_conv')











subsection \<open>Channel types under the operations\<close>

lemma typeOf_map_of: "typeOf chs c = map_of (map (\<lambda>ch. (c_id ch, c_type ch)) chs) c"
  by (induction chs) (auto simp: typeOf_def)

lemma typeOf_None_iff: "typeOf chs c = None \<longleftrightarrow> c \<notin> set (map c_id chs)"
  by (induction chs) (auto simp: typeOf_def)

lemma typeOf_filter_id:
  "typeOf (filter (\<lambda>ch. P (c_id ch)) chs) c = (if P c then typeOf chs c else None)"
  by (induction chs) (auto simp: typeOf_def)

lemma typeOf_append: "typeOf chs c = Some t \<Longrightarrow> typeOf (chs @ xs) c = Some t"
  by (induction chs) (auto simp: typeOf_def split: if_splits)

lemma sig_updateFirst:
  assumes "\<And>x. g (f x) = g x"
  shows "map g (updateFirst P f xs) = map g xs"
  using assms by (induction xs) auto

lemma sig_updateLast:
  assumes "\<And>x. g (f x) = g x"
  shows "map g (updateLast P f xs) = map g xs"
proof -
  have "map g (updateFirst P f (rev xs)) = map g (rev xs)"
    using assms by (rule sig_updateFirst)
  then show ?thesis by (simp add: updateLast_def rev_map [symmetric])
qed


lemma typeOf_updateLast_same:
  assumes "\<And>ch. c_id (f ch) = c_id ch" "\<And>ch. c_type (f ch) = c_type ch"
  shows "typeOf (updateLast P f chs) c = typeOf chs c"
  using assms by (simp add: typeOf_map_of sig_updateLast)

lemma typeOf_promote:
  "typeOf (updateFirst (\<lambda>ch. c_id ch = k) (promoteAndAdd newMember) chs) c
   = (if c = k then map_option (\<lambda>t. if t = DM then Group else t) (typeOf chs c) else typeOf chs c)"
  by (induction chs) (auto simp: typeOf_def promoteAndAdd_def Let_def)

lemma chatData_trackMemberAdded [simp]: "chatData (trackMemberAdded now st c u) = chatData st"
  by (simp add: trackMemberAdded_def Let_def)

lemma channels_setChannels [simp]: "channels (chatData (setChannels chs st)) = chs"
  by (simp add: setChannels_def)

lemma channels_setChannelMessages [simp]:
  "channels (chatData (setChannelMessages cm st)) = channels (chatData st)"
  by (simp add: setChannelMessages_def)

lemma channels_setReadState [simp]:
  "channels (chatData (setReadState rs st)) = channels (chatData st)"
  by (simp add: setReadState_def)

lemma channels_updateMessage [simp]:
  "channels (chatData (updateMessage target messageId f st)) = channels (chatData st)"
  by (simp add: updateMessage_def)

lemma channels_pushSystemMessage:
  "pushSystemMessage env c text st = Some st' \<Longrightarrow> channels (chatData st') = channels (chatData st)"
  by (auto simp: pushSystemMessage_def split: option.splits)

lemma channels_foldl_removeChannelData:
  "channels (foldl removeChannelData d ids) = filter (\<lambda>ch. c_id ch \<notin> set ids) (channels d)"
proof (induction ids arbitrary: d)
  case Nil
  then show ?case by simp
next
  case (Cons i ids)
  have "channels (removeChannelData d i) = filter (\<lambda>c. c_id c \<noteq> i) (channels d)"
    by (simp add: removeChannelData_def)
  then show ?case using Cons.IH [of "removeChannelData d i"]
    by (auto intro: filter_cong)
qed

lemma channels_foldl_track [simp]:
  "chatData (foldl (\<lambda>s member. trackMemberAdded now s c member) st ms) = chatData st"
  by (induction ms arbitrary: st) simp_all



lemma channels_addMember:
  "channels (chatData (snd (addMemberToChannel env channelId newMember addedBy st)))
   = channels (chatData st)
   \<or> channels (chatData (snd (addMemberToChannel env channelId newMember addedBy st)))
   = updateFirst (\<lambda>ch. c_id ch = channelId) (promoteAndAdd newMember) (channels (chatData st))"
  by (auto simp: addMemberToChannel_def Let_def pushSystemMessage_def setChannelMessages_def
      setChannels_def split: option.splits)

lemma typeOf_addMember:
  assumes "typeOf (channels (chatData st)) c = Some Group"
  shows "typeOf (channels (chatData (snd (addMemberToChannel env channelId newMember addedBy st)))) c
         = Some Group"
  using channels_addMember [of env channelId newMember addedBy st] assms
  by (auto simp: typeOf_promote)






lemma typeOf_mergeDiskChannel:
  "typeOf chs c = Some t \<Longrightarrow> typeOf (mergeDiskChannel tm now st ourIds chs dc) c = Some t"
  by (simp add: mergeDiskChannel_def typeOf_append typeOf_updateLast_same)

lemma ids_mergeDiskChannel:
  "set (map c_id (mergeDiskChannel tm now st ourIds chs dc)) \<subseteq> set (map c_id chs) \<union> {c_id dc}"
proof -
  have "map c_id (updateLast (\<lambda>ch. c_id ch = c_id dc)
             (\<lambda>ourChannel.
                ourChannel\<lparr>c_members := mergedMembers now st dc,
                           c_name := (if c_name dc \<noteq> c_name ourChannel \<and> c_type dc = Group
                                      then c_name dc else c_name ourChannel)\<rparr>) chs) = map c_id chs"
    by (rule sig_updateLast) simp
  then show ?thesis
    unfolding mergeDiskChannel_def by (auto simp del: set_map)
qed

lemma typeOf_foldl_mergeDiskChannel:
  "typeOf chs c = Some t \<Longrightarrow> typeOf (foldl (mergeDiskChannel tm now st ourIds) chs dcs) c = Some t"
  by (induction dcs arbitrary: chs) (simp_all add: typeOf_mergeDiskChannel)

lemma ids_foldl_mergeDiskChannel:
  "set (map c_id (foldl (mergeDiskChannel tm now st ourIds) chs dcs))
   \<subseteq> set (map c_id chs) \<union> set (map c_id dcs)"
proof (induction dcs arbitrary: chs)
  case Nil
  then show ?case by simp
next
  case (Cons dc dcs)
  show ?case
    using Cons.IH [of "mergeDiskChannel tm now st ourIds chs dc"]
      ids_mergeDiskChannel [of tm now st ourIds chs dc]
    by (simp del: set_map) blast
qed

lemma channels_loadTombstones:
  "\<exists>ids. set ids \<inter> set (map c_id (channels diskData)) = {}
     \<and> channels (chatData (loadTombstones env st diskData))
       = filter (\<lambda>ch. c_id ch \<notin> set ids) (channels (chatData st))"
proof -
  define dl where
    "dl = filter (\<lambda>dd. case e_tm env (d_deletedAt dd) of None \<Rightarrow> False
                            | Some t \<Rightarrow> e_now env - t < DELETED_CHANNEL_RETENTION_MS)
            ((case deletedChannels (chatData st) of None \<Rightarrow> [] | Some l \<Rightarrow> l)
             @ filter (\<lambda>diskDeleted. d_id diskDeleted
                  \<notin> set (map d_id (case deletedChannels (chatData st) of None \<Rightarrow> [] | Some l \<Rightarrow> l)))
                 (case deletedChannels diskData of None \<Rightarrow> [] | Some l \<Rightarrow> l))"
  define channelsToRemove where
    "channelsToRemove =
            filter (\<lambda>ch. c_id ch \<noteq> GENERAL_CHANNEL_ID \<and> c_id ch \<notin> set (map c_id (channels diskData))
                         \<and> c_id ch \<in> set (map d_id dl))
              (channels (chatData st))"
  have "channels (chatData (loadTombstones env st diskData))
     = filter (\<lambda>ch. c_id ch \<notin> set (map c_id channelsToRemove)) (channels (chatData st))"
    unfolding loadTombstones_def Let_def channelsToRemove_def dl_def
    by (simp add: channels_foldl_removeChannelData)
  moreover have "set (map c_id channelsToRemove) \<inter> set (map c_id (channels diskData)) = {}"
    by (auto simp: channelsToRemove_def)
  ultimately show ?thesis by blast
qed

lemma ledgers_loadTombstones [simp]:
  "recentlyLeftChannels (loadTombstones env st diskData) = recentlyLeftChannels st"
  "recentlyAddedMembers (loadTombstones env st diskData) = recentlyAddedMembers st"
  "currentUser (loadTombstones env st diskData) = currentUser st"
  by (simp_all add: loadTombstones_def Let_def)

lemma channels_loadMerge:
  "channels (chatData (loadMerge env st diskData))
   = foldl (mergeDiskChannel (e_tm env) (e_now env) (loadTombstones env st diskData)
              (map c_id (channels (chatData (loadTombstones env st diskData)))))
       (channels (chatData (loadTombstones env st diskData))) (channels diskData)"
  by (simp add: loadMerge_def Let_def)

lemma typeOf_emptyData:
  "typeOf (channels (createEmptyV2Data nowIso)) c \<noteq> Some DM"
  by (simp add: createEmptyV2Data_def typeOf_def)

lemma typeOf_loadMerge:
  assumes "typeOf (channels (chatData st)) c = Some t"
  shows "typeOf (channels (chatData (loadMerge env st diskData))) c \<in> {None, Some t}"
proof -
  obtain ids where ids: "set ids \<inter> set (map c_id (channels diskData)) = {}"
    and f: "channels (chatData (loadTombstones env st diskData))
       = filter (\<lambda>ch. c_id ch \<notin> set ids) (channels (chatData st))"
    using channels_loadTombstones [of diskData env st] by blast
  let ?st1 = "loadTombstones env st diskData"
  let ?chs1 = "channels (chatData ?st1)"
  let ?res = "foldl (mergeDiskChannel (e_tm env) (e_now env) ?st1 (map c_id ?chs1)) ?chs1
                (channels diskData)"
  have t1: "typeOf ?chs1 c = (if c \<notin> set ids then typeOf (channels (chatData st)) c else None)"
    unfolding f by (rule typeOf_filter_id)
  show ?thesis
  proof (cases "c \<in> set ids")
    case True
    then have "c \<notin> set (map c_id ?chs1)" using t1 by (simp add: typeOf_None_iff)
    moreover have "c \<notin> set (map c_id (channels diskData))" using True ids by auto
    ultimately have "c \<notin> set (map c_id ?res)"
      using ids_foldl_mergeDiskChannel
        [of "e_tm env" "e_now env" ?st1 "map c_id ?chs1" ?chs1 "channels diskData"]
      by blast
    then have "typeOf ?res c = None" by (simp add: typeOf_None_iff)
    then show ?thesis by (simp add: channels_loadMerge)
  next
    case False
    then have "typeOf ?chs1 c = Some t" using t1 assms by simp
    then have "typeOf ?res c = Some t" by (rule typeOf_foldl_mergeDiskChannel)
    then show ?thesis by (simp add: channels_loadMerge)
  qed
qed

lemma typeOf_loadChat:
  assumes "typeOf (channels (chatData st)) c = Some Group"
  shows "typeOf (channels (chatData (loadChat env r st))) c \<noteq> Some DM"
proof (cases r)
  case FileMissing
  then show ?thesis by (simp add: loadChat_def typeOf_emptyData)
next
  case AllAttemptsFailed
  then show ?thesis using assms by (simp add: loadChat_def typeOf_emptyData)
next
  case (Loaded rawData)
  have ne: "length (channels (chatData st)) \<noteq> 0"
    using assms by (auto simp: typeOf_def)
  define diskData where
    "diskData = (case rawData of V2 d \<Rightarrow> d | V1 v1 \<Rightarrow> migrateV1ToV2 (e_iso env) v1)"
  have "channels (chatData (loadChat env r st)) = channels (chatData (loadMerge env st diskData))"
    using Loaded ne by (simp add: loadChat_def Let_def diskData_def)
  then show ?thesis
    using typeOf_loadMerge [OF assms, of env diskData] by auto
qed

lemma channels_sendMessage [simp]:
  "channels (chatData (snd (sendMessage env message fileLinks images channelId replyTo vm vcm st)))
   = channels (chatData st)"
proof (cases "currentUser st")
  case None
  then show ?thesis by (simp add: sendMessage_def sendMessageUpdate_def)
next
  case (Some a)
  then show ?thesis by (simp add: sendMessage_def sendMessageUpdate_def Let_def)
qed

lemma channels_toggleReaction [simp]:
  "channels (chatData (snd (toggleReaction env messageId e channelId st))) = channels (chatData st)"
  by (simp add: toggleReaction_def Let_def split: option.splits)

lemma channels_editMessage [simp]:
  "channels (chatData (snd (editMessage env messageId newContent channelId vm fl vcm st)))
   = channels (chatData st)"
  by (simp add: editMessage_def Let_def split: option.splits)

lemma channels_deleteMessage [simp]:
  "channels (chatData (snd (deleteMessage env messageId channelId st))) = channels (chatData st)"
  by (simp add: deleteMessage_def Let_def split: option.splits)

lemma channels_dismiss [simp]:
  "channels (chatData (snd (dismissSystemMessage env messageId channelId st)))
   = channels (chatData st)"
  by (simp add: dismissSystemMessage_def Let_def split: option.splits)

lemma channels_markAsRead [simp]:
  "channels (chatData (markAsRead env channelId st)) = channels (chatData st)"
  by (simp add: markAsRead_def Let_def split: option.splits)

lemma channels_toggleMute [simp]:
  "channels (chatData (toggleChannelMute env channelId st)) = channels (chatData st)"
  by (simp add: toggleChannelMute_def Let_def split: option.splits)

lemma channels_setActive [simp]:
  "channels (chatData (setActiveChannel channelId st)) = channels (chatData st)"
  by (simp add: setActiveChannel_def)








lemma c_id_promoteAndAdd [simp]: "c_id (promoteAndAdd newMember ch) = c_id ch"
  by (simp add: promoteAndAdd_def Let_def)




lemma channels_chatState:
  "channels (chatData chatState)
   = [\<lparr>c_id = GENERAL_CHANNEL_ID, c_type = General, c_name = ''General'', c_members = [],
       c_createdBy = ''system'', c_createdAt = ''2024-05-01T09:00:00.000Z''\<rparr>, dmChannel, groupChannel]"
  by (simp add: chatState_def stateWith_def createEmptyV2Data_def)


subsection \<open>Leave protection in the channel merge\<close>

lemma set_foldl_pushMissing:
  "set (foldl (\<lambda>ms member. if member \<in> set ms then ms else ms @ [member]) base added)
   = set base \<union> set added"
  by (induction added arbitrary: base) auto

lemma mergedMembers_without_user:
  assumes "currentUser st = Some U" "hasRecentlyLeftChannel now st (c_id dc)"
    and "U \<notin> set (getRecentlyAddedMembers now st (c_id dc))"
  shows "U \<notin> set (mergedMembers now st dc)"
  using assms by (simp add: mergedMembers_def Let_def set_foldl_pushMissing)

lemma set_updateFirst:
  "x \<in> set (updateFirst P f xs) \<Longrightarrow> x \<in> set xs \<or> (\<exists>y \<in> set xs. P y \<and> x = f y)"
  by (induction xs) (auto split: if_splits)

lemma set_updateLast:
  "x \<in> set (updateLast P f xs) \<Longrightarrow> x \<in> set xs \<or> (\<exists>y \<in> set xs. P y \<and> x = f y)"
  using set_updateFirst [of x P f "rev xs"] by (auto simp: updateLast_def)

lemma members_mergeDiskChannel:
  assumes "\<forall>ch \<in> set chs. c_id ch = C \<longrightarrow> U \<notin> set (c_members ch)"
    and "c_id dc = C \<longrightarrow> U \<notin> set (mergedMembers now st dc)"
  shows "\<forall>ch \<in> set (mergeDiskChannel tm now st ourIds chs dc). c_id ch = C \<longrightarrow> U \<notin> set (c_members ch)"
proof
  fix ch
  assume m: "ch \<in> set (mergeDiskChannel tm now st ourIds chs dc)"
  show "c_id ch = C \<longrightarrow> U \<notin> set (c_members ch)"
  proof (cases "isRecentlyDeletedChannel tm now st (c_id dc)")
    case True
    then show ?thesis using m assms(1) by (simp add: mergeDiskChannel_def)
  next
    case notDeleted: False
    show ?thesis
    proof (cases "c_id dc \<in> set ourIds")
      case False
      then have "ch \<in> set chs \<or> ch = dc\<lparr>c_members := mergedMembers now st dc\<rparr>"
        using m notDeleted by (auto simp: mergeDiskChannel_def)
      then show ?thesis using assms by auto
    next
      case True
      let ?f = "\<lambda>ourChannel.
                ourChannel\<lparr>c_members := mergedMembers now st dc,
                           c_name := (if c_name dc \<noteq> c_name ourChannel \<and> c_type dc = Group
                                      then c_name dc else c_name ourChannel)\<rparr>"
      have "ch \<in> set (updateLast (\<lambda>x. c_id x = c_id dc) ?f chs)"
        using m notDeleted True by (simp add: mergeDiskChannel_def)
      then have "ch \<in> set chs \<or> (\<exists>y \<in> set chs. c_id y = c_id dc \<and> ch = ?f y)"
        by (rule set_updateLast)
      then show ?thesis using assms by auto
    qed
  qed
qed

lemma members_foldl_mergeDiskChannel:
  assumes "\<forall>ch \<in> set chs. c_id ch = C \<longrightarrow> U \<notin> set (c_members ch)"
    and "\<forall>dc \<in> set dcs. c_id dc = C \<longrightarrow> U \<notin> set (mergedMembers now st dc)"
  shows "\<forall>ch \<in> set (foldl (mergeDiskChannel tm now st ourIds) chs dcs).
           c_id ch = C \<longrightarrow> U \<notin> set (c_members ch)"
  using assms
proof (induction dcs arbitrary: chs)
  case Nil
  then show ?case by simp
next
  case (Cons dc dcs)
  have "\<forall>ch \<in> set (mergeDiskChannel tm now st ourIds chs dc). c_id ch = C \<longrightarrow> U \<notin> set (c_members ch)"
    using members_mergeDiskChannel [of chs C U dc now st tm ourIds] Cons.prems by simp
  then show ?case using Cons.IH Cons.prems(2) by simp
qed

lemma hasRecentlyLeft_cong:
  "recentlyLeftChannels st1 = recentlyLeftChannels st
   \<Longrightarrow> hasRecentlyLeftChannel now st1 c = hasRecentlyLeftChannel now st c"
  by (simp add: hasRecentlyLeftChannel_def)

lemma getRecentlyAdded_cong:
  "recentlyAddedMembers st1 = recentlyAddedMembers st
   \<Longrightarrow> getRecentlyAddedMembers now st1 c = getRecentlyAddedMembers now st c"
  by (simp add: getRecentlyAddedMembers_def)

lemma members_loadMerge:
  assumes cu: "currentUser st = Some U"
    and left: "hasRecentlyLeftChannel (e_now env) st C"
    and notAdded: "U \<notin> set (getRecentlyAddedMembers (e_now env) st C)"
    and mem: "\<forall>ch \<in> set (channels (chatData st)). c_id ch = C \<longrightarrow> U \<notin> set (c_members ch)"
  shows "\<forall>ch \<in> set (channels (chatData (loadMerge env st diskData))).
           c_id ch = C \<longrightarrow> U \<notin> set (c_members ch)"
proof -
  let ?st1 = "loadTombstones env st diskData"
  obtain ids where f: "channels (chatData ?st1)
       = filter (\<lambda>ch. c_id ch \<notin> set ids) (channels (chatData st))"
    using channels_loadTombstones [of diskData env st] by blast
  have a: "\<forall>ch \<in> set (channels (chatData ?st1)). c_id ch = C \<longrightarrow> U \<notin> set (c_members ch)"
    using mem unfolding f by simp
  have l: "hasRecentlyLeftChannel (e_now env) ?st1 C"
    using left hasRecentlyLeft_cong [of ?st1 st "e_now env" C] by simp
  have n: "U \<notin> set (getRecentlyAddedMembers (e_now env) ?st1 C)"
    using notAdded getRecentlyAdded_cong [of ?st1 st "e_now env" C] by simp
  have c: "currentUser ?st1 = Some U" using cu by simp
  have b: "\<forall>dc \<in> set (channels diskData). c_id dc = C
             \<longrightarrow> U \<notin> set (mergedMembers (e_now env) ?st1 dc)"
    using mergedMembers_without_user [OF c] l n by blast
  show ?thesis
    unfolding channels_loadMerge
    by (rule members_foldl_mergeDiskChannel [OF a b])
qed

lemma members_loadChat:
  assumes cu: "currentUser st = Some U"
    and left: "hasRecentlyLeftChannel (e_now env) st C"
    and notAdded: "U \<notin> set (getRecentlyAddedMembers (e_now env) st C)"
    and mem: "\<forall>ch \<in> set (channels (chatData st)). c_id ch = C \<longrightarrow> U \<notin> set (c_members ch)"
    and nonempty: "channels (chatData st) \<noteq> []"
  shows "\<forall>ch \<in> set (channels (chatData (loadChat env r st))).
           c_id ch = C \<longrightarrow> U \<notin> set (c_members ch)"
proof (cases r)
  case FileMissing
  then show ?thesis by (simp add: loadChat_def createEmptyV2Data_def)
next
  case AllAttemptsFailed
  then show ?thesis using mem nonempty by (simp add: loadChat_def)
next
  case (Loaded rawData)
  define diskData where
    "diskData = (case rawData of V2 d \<Rightarrow> d | V1 v1 \<Rightarrow> migrateV1ToV2 (e_iso env) v1)"
  have "channels (chatData (loadChat env r st)) = channels (chatData (loadMerge env st diskData))"
    using Loaded nonempty by (simp add: loadChat_def Let_def diskData_def)
  then show ?thesis
    using members_loadMerge [OF cu left notAdded mem, of diskData] by simp
qed

lemma leaveChannel_cases:
  assumes "getChannel st C = Some channel" "c_type channel \<noteq> General"
  shows "\<exists>st4. channels (chatData st4)
           = updateFirst (\<lambda>ch. c_id ch = C)
               (\<lambda>ch. ch\<lparr>c_members := filter (\<lambda>m. m \<noteq> U) (c_members ch)\<rparr>) (channels (chatData st))
         \<and> recentlyLeftChannels st4 = (recentlyLeftChannels st)(C \<mapsto> e_now env)
         \<and> recentlyAddedMembers st4 C = map_option (AList.delete U) (recentlyAddedMembers st C)
         \<and> currentUser st4 = currentUser st
         \<and> (snd (leaveChannel env C U st) = snd (deleteChannel env C st4)
            \<or> snd (leaveChannel env C U st) = st4
            \<or> (\<exists>st5. pushSystemMessage env C (U @ '' left the conversation'') st4 = Some st5
                  \<and> snd (leaveChannel env C U st) = saveChat env st5))"
proof -
  let ?chs1 = "updateFirst (\<lambda>ch. c_id ch = C)
               (\<lambda>ch. ch\<lparr>c_members := filter (\<lambda>m. m \<noteq> U) (c_members ch)\<rparr>) (channels (chatData st))"
  define st4 where "st4 =
      (let st1 = setChannels ?chs1 st;
           st2 = st1\<lparr>recentlyLeftChannels := (recentlyLeftChannels st1)(C \<mapsto> e_now env)\<rparr>;
           st3 = (case recentlyAddedMembers st2 C of
                    None \<Rightarrow> st2
                  | Some channelAddedMembers \<Rightarrow>
                      st2\<lparr>recentlyAddedMembers :=
                           (recentlyAddedMembers st2)(C \<mapsto> AList.delete U channelAddedMembers)\<rparr>)
       in (if activeChannelId st3 = C
           then st3\<lparr>activeChannelId := GENERAL_CHANNEL_ID\<rparr> else st3))"
  have c4: "channels (chatData st4) = ?chs1"
    by (simp add: st4_def Let_def setChannels_def split: option.splits)
  have l4: "recentlyLeftChannels st4 = (recentlyLeftChannels st)(C \<mapsto> e_now env)"
    by (simp add: st4_def Let_def setChannels_def split: option.splits)
  have a4: "recentlyAddedMembers st4 C = map_option (AList.delete U) (recentlyAddedMembers st C)"
    by (simp add: st4_def Let_def setChannels_def split: option.splits)
  have u4: "currentUser st4 = currentUser st"
    by (simp add: st4_def Let_def setChannels_def split: option.splits)
  have r: "snd (leaveChannel env C U st) =
       (if length (filter (\<lambda>m. m \<noteq> U) (c_members channel)) = 0
        then snd (deleteChannel env C st4)
        else (case pushSystemMessage env C (U @ '' left the conversation'') st4 of
                None \<Rightarrow> st4 | Some st5 \<Rightarrow> saveChat env st5))"
    using assms
    by (simp add: leaveChannel_def st4_def Let_def split: option.splits)
  have "snd (leaveChannel env C U st) = snd (deleteChannel env C st4)
            \<or> snd (leaveChannel env C U st) = st4
            \<or> (\<exists>st5. pushSystemMessage env C (U @ '' left the conversation'') st4 = Some st5
                  \<and> snd (leaveChannel env C U st) = saveChat env st5)"
    unfolding r by (auto split: option.splits)
  then show ?thesis using c4 l4 a4 u4 by blast
qed

lemma ledgers_deleteChannel [simp]:
  "recentlyLeftChannels (snd (deleteChannel env c st)) = recentlyLeftChannels st"
  "recentlyAddedMembers (snd (deleteChannel env c st)) = recentlyAddedMembers st"
  "currentUser (snd (deleteChannel env c st)) = currentUser st"
  by (simp_all add: deleteChannel_def Let_def)

lemma ledgers_pushSystemMessage:
  assumes "pushSystemMessage env c text st = Some st'"
  shows "recentlyLeftChannels st' = recentlyLeftChannels st"
    "recentlyAddedMembers st' = recentlyAddedMembers st"
    "currentUser st' = currentUser st"
  using assms by (auto simp: pushSystemMessage_def setChannelMessages_def split: option.splits)

lemma channels_deleteChannel_general:
  "channels (chatData (snd (deleteChannel env c st)))
   = (if c = GENERAL_CHANNEL_ID then channels (chatData st)
      else filter (\<lambda>ch. c_id ch \<noteq> c) (channels (chatData st)))"
  by (simp add: deleteChannel_def Let_def)

lemma updateFirst_distinct:
  assumes "distinct (map g xs)" "\<And>x. g (f x) = g x"
    and "x \<in> set (updateFirst (\<lambda>x. g x = k) f xs)" "g x = k"
  shows "\<exists>y. x = f y"
  using assms
proof (induction xs)
  case Nil
  then show ?case by simp
next
  case (Cons a xs)
  show ?case
  proof (cases "g a = k")
    case True
    then have "x = f a \<or> x \<in> set xs" using Cons.prems(3) by simp
    moreover have "x \<notin> set xs" using Cons.prems(1,4) True by force
    ultimately show ?thesis by blast
  next
    case False
    then have "x \<in> set (updateFirst (\<lambda>x. g x = k) f xs)"
      using Cons.prems(3,4) by auto
    then show ?thesis using Cons.IH Cons.prems by simp
  qed
qed

lemma getRecentlyAdded_after_delete:
  assumes "recentlyAddedMembers st C = map_option (AList.delete U) m"
  shows "U \<notin> set (getRecentlyAddedMembers now st C)"
proof (cases m)
  case None
  then show ?thesis using assms by (simp add: getRecentlyAddedMembers_def)
next
  case (Some ms)
  have "U \<notin> fst ` set (AList.delete U ms)"
    by (rule delete_notin_dom)
  then show ?thesis using assms Some
    by (auto simp: getRecentlyAddedMembers_def)
qed

lemma leave_establishes:
  assumes cu: "currentUser st = Some U"
    and dist: "distinct (map c_id (channels (chatData st)))"
    and gen: "GENERAL_CHANNEL_ID \<in> set (map c_id (channels (chatData st)))"
    and ok: "fst (leaveChannel env C U st) \<noteq> Returned Failed"
  shows "currentUser (snd (leaveChannel env C U st)) = Some U
    \<and> recentlyLeftChannels (snd (leaveChannel env C U st)) C = Some (e_now env)
    \<and> U \<notin> set (getRecentlyAddedMembers now (snd (leaveChannel env C U st)) C)
    \<and> (\<forall>ch \<in> set (channels (chatData (snd (leaveChannel env C U st)))).
          c_id ch = C \<longrightarrow> U \<notin> set (c_members ch))
    \<and> channels (chatData (snd (leaveChannel env C U st))) \<noteq> []"
proof -
  obtain channel where g: "getChannel st C = Some channel" and ty: "c_type channel \<noteq> General"
    using ok by (cases "getChannel st C") (auto simp: leaveChannel_def split: if_splits)
  let ?f = "\<lambda>ch. ch\<lparr>c_members := filter (\<lambda>m. m \<noteq> U) (c_members ch)\<rparr>"
  let ?chs1 = "updateFirst (\<lambda>ch. c_id ch = C) ?f (channels (chatData st))"
  let ?st' = "snd (leaveChannel env C U st)"
  obtain st4 where c4: "channels (chatData st4) = ?chs1"
    and l4: "recentlyLeftChannels st4 = (recentlyLeftChannels st)(C \<mapsto> e_now env)"
    and a4: "recentlyAddedMembers st4 C = map_option (AList.delete U) (recentlyAddedMembers st C)"
    and u4: "currentUser st4 = currentUser st"
    and r: "?st' = snd (deleteChannel env C st4) \<or> ?st' = st4
            \<or> (\<exists>st5. pushSystemMessage env C (U @ '' left the conversation'') st4 = Some st5
                  \<and> ?st' = saveChat env st5)"
    using leaveChannel_cases [OF g ty, of U env] by blast
  have ids1: "map c_id ?chs1 = map c_id (channels (chatData st))"
    by (rule sig_updateFirst) simp
  have m1: "\<forall>ch \<in> set ?chs1. c_id ch = C \<longrightarrow> U \<notin> set (c_members ch)"
  proof (intro ballI impI)
    fix ch assume "ch \<in> set ?chs1" "c_id ch = C"
    then obtain y where "ch = ?f y"
      using updateFirst_distinct [of c_id "channels (chatData st)" ?f ch C] dist by auto
    then show "U \<notin> set (c_members ch)" by simp
  qed
  have g1: "GENERAL_CHANNEL_ID \<in> set (map c_id ?chs1)" using gen ids1 by simp
  from r show ?thesis
  proof (elim disjE exE conjE)
    assume e: "?st' = snd (deleteChannel env C st4)"
    have "GENERAL_CHANNEL_ID \<in> set (map c_id (channels (chatData ?st')))"
      using g1 unfolding e channels_deleteChannel_general c4 by auto
    then have "channels (chatData ?st') \<noteq> []" by auto
    moreover have "\<forall>ch \<in> set (channels (chatData ?st')). c_id ch = C \<longrightarrow> U \<notin> set (c_members ch)"
      using m1 unfolding e channels_deleteChannel_general c4 by auto
    moreover have "recentlyAddedMembers ?st' C = map_option (AList.delete U) (recentlyAddedMembers st C)"
      unfolding e using a4 by simp
    ultimately show ?thesis
      using getRecentlyAdded_after_delete [of ?st' C U "recentlyAddedMembers st C" now]
        l4 u4 cu unfolding e by simp
  next
    assume e: "?st' = st4"
    have "channels (chatData ?st') \<noteq> []" using g1 unfolding e c4 by auto
    then show ?thesis
      using getRecentlyAdded_after_delete [of st4 C U "recentlyAddedMembers st C" now]
        m1 c4 l4 a4 u4 cu unfolding e by simp
  next
    fix st5
    assume p: "pushSystemMessage env C (U @ '' left the conversation'') st4 = Some st5"
      and e: "?st' = saveChat env st5"
    have c5: "channels (chatData st5) = ?chs1"
      using channels_pushSystemMessage [OF p] c4 by simp
    have "channels (chatData ?st') \<noteq> []" using g1 unfolding e by (auto simp: c5)
    moreover have "recentlyAddedMembers ?st' C = map_option (AList.delete U) (recentlyAddedMembers st C)"
      unfolding e using a4 ledgers_pushSystemMessage [OF p] by simp
    ultimately show ?thesis
      using getRecentlyAdded_after_delete [of ?st' C U "recentlyAddedMembers st C" now]
        m1 c5 l4 u4 cu ledgers_pushSystemMessage [OF p] unfolding e by simp
  qed
qed

text \<open>
  Claim C5 (leave-no-rejoin). The current user \<open>U\<close> leaves channel \<open>C\<close> (the call does not
  fail) at a clock reading after the epoch start, in a document whose channel ids are
  distinct and which has its General channel. A \<open>loadChat\<close> that runs while the leave is
  at most 300 seconds old then yields, whatever the file holds, no channel \<open>C\<close> in memory
  that lists \<open>U\<close> as a member.
\<close>

theorem leave_no_rejoin:
  assumes "currentUser st = Some U"
    and "distinct (map c_id (channels (chatData st)))"
    and "GENERAL_CHANNEL_ID \<in> set (map c_id (channels (chatData st)))"
    and "fst (leaveChannel env C U st) \<noteq> Returned Failed"
    and "0 < e_now env"
    and "e_now env' - e_now env \<le> LEAVE_PROTECTION_DURATION"
  shows "\<forall>ch \<in> set (channels (chatData (loadChat env' r (snd (leaveChannel env C U st))))).
           c_id ch = C \<longrightarrow> U \<notin> set (c_members ch)"
proof -
  let ?st' = "snd (leaveChannel env C U st)"
  have e: "currentUser ?st' = Some U
    \<and> recentlyLeftChannels ?st' C = Some (e_now env)
    \<and> U \<notin> set (getRecentlyAddedMembers (e_now env') ?st' C)
    \<and> (\<forall>ch \<in> set (channels (chatData ?st')). c_id ch = C \<longrightarrow> U \<notin> set (c_members ch))
    \<and> channels (chatData ?st') \<noteq> []"
    by (rule leave_establishes [OF assms(1-4)])
  have left: "hasRecentlyLeftChannel (e_now env') ?st' C"
    using e assms(5,6) by (simp add: hasRecentlyLeftChannel_def Let_def)
  show ?thesis
    using members_loadChat [of ?st' U env' C r] e left by blast
qed

lemma leave_not_failed:
  "getChannel st C = Some ch \<Longrightarrow> c_type ch \<noteq> General
   \<Longrightarrow> fst (leaveChannel env C U st) \<noteq> Returned Failed"
  by (simp add: leaveChannel_def Let_def split: option.splits)

theorem leave_no_rejoin_witness:
  "currentUser chatState = Some ''alice''
   \<and> distinct (map c_id (channels (chatData chatState)))
   \<and> GENERAL_CHANNEL_ID \<in> set (map c_id (channels (chatData chatState)))
   \<and> fst (leaveChannel sampleEnv ''g1'' ''alice'' chatState) \<noteq> Returned Failed
   \<and> 0 < e_now sampleEnv
   \<and> e_now laterEnv - e_now sampleEnv \<le> LEAVE_PROTECTION_DURATION
   \<and> ''alice'' \<in> set (c_members groupChannel)
   \<and> groupChannel \<in> set (channels (chatData chatState))
   \<and> filter (\<lambda>ch. c_id ch = ''g1'' \<and> ''alice'' \<in> set (c_members ch))
        (channels (chatData (loadChat laterEnv (Loaded (V2 (chatData chatState)))
                               (snd (leaveChannel sampleEnv ''g1'' ''alice'' chatState))))) = []"
proof -
  have h1: "currentUser chatState = Some ''alice''"
    by (simp add: chatState_def stateWith_def)
  have h2: "distinct (map c_id (channels (chatData chatState)))"
    by (simp add: channels_chatState GENERAL_CHANNEL_ID_def dmChannel_def groupChannel_def)
  have h3: "GENERAL_CHANNEL_ID \<in> set (map c_id (channels (chatData chatState)))"
    by (simp add: channels_chatState)
  have g: "getChannel chatState ''g1'' = Some groupChannel"
    by (simp add: getChannel_def channels_chatState GENERAL_CHANNEL_ID_def dmChannel_def
        groupChannel_def)
  have h4: "fst (leaveChannel sampleEnv ''g1'' ''alice'' chatState) \<noteq> Returned Failed"
    by (rule leave_not_failed [OF g]) (simp add: groupChannel_def)
  have h5: "0 < e_now sampleEnv" by (simp add: sampleEnv_def)
  have h6: "e_now laterEnv - e_now sampleEnv \<le> LEAVE_PROTECTION_DURATION"
    by (simp add: laterEnv_def sampleEnv_def LEAVE_PROTECTION_DURATION_def)
  have h7: "''alice'' \<in> set (c_members groupChannel)
     \<and> groupChannel \<in> set (channels (chatData chatState))"
    by (simp add: channels_chatState groupChannel_def)
  have "filter (\<lambda>ch. c_id ch = ''g1'' \<and> ''alice'' \<in> set (c_members ch))
        (channels (chatData (loadChat laterEnv (Loaded (V2 (chatData chatState)))
                               (snd (leaveChannel sampleEnv ''g1'' ''alice'' chatState))))) = []"
    using leave_no_rejoin [OF h1 h2 h3 h4 h5 h6, of "Loaded (V2 (chatData chatState))"]
    by (simp add: filter_empty_conv)
  then show ?thesis
    using h1 h2 h3 h4 h5 h6 h7 by blast
qed

section \<open>The primary admin of the user registry\<close>

text \<open>
  The merge of \<open>saveUsers\<close> renumbers the sorted list from 1 and makes its first user the
  only primary admin, whatever the list in memory and on disk were.
\<close>

lemma fixPrimary_numbered:
  "1 < k \<Longrightarrow> \<not> isPrimary (fixPrimary (u\<lparr>u_registrationNumber := Some k\<rparr>))
     \<and> u_registrationNumber (fixPrimary (u\<lparr>u_registrationNumber := Some k\<rparr>)) = Some k"
  by (simp add: fixPrimary_def isPrimary_def)

lemma fixPrimary_first:
  "isPrimary (fixPrimary (u\<lparr>u_registrationNumber := Some 1\<rparr>))
     \<and> u_registrationNumber (fixPrimary (u\<lparr>u_registrationNumber := Some 1\<rparr>)) = Some 1"
  by (simp add: fixPrimary_def isPrimary_def)

lemma numbered_Cons:
  "numbered n (a # us) = fixPrimary (a\<lparr>u_registrationNumber := Some (int n + 1)\<rparr>) # numbered (Suc n) us"
  by (simp add: numbered_def)

lemma numbered_Nil: "numbered n [] = []"
  by (simp add: numbered_def)

lemma renumber_tail:
  "u \<in> set (numbered (Suc n) us) \<Longrightarrow>
     \<not> isPrimary u \<and> (\<exists>k. u_registrationNumber u = Some k \<and> 1 < k)"
proof (induction us arbitrary: n)
  case Nil
  then show ?case by (simp add: numbered_Nil)
next
  case (Cons a us)
  have "u = fixPrimary (a\<lparr>u_registrationNumber := Some (int (Suc n) + 1)\<rparr>) \<or> u \<in> set (numbered (Suc (Suc n)) us)"
    using Cons.prems by (simp add: numbered_Cons)
  then show ?case
  proof
    assume "u = fixPrimary (a\<lparr>u_registrationNumber := Some (int (Suc n) + 1)\<rparr>)"
    then show ?thesis using fixPrimary_numbered [of "int (Suc n) + 1" a] by auto
  next
    assume "u \<in> set (numbered (Suc (Suc n)) us)"
    then show ?thesis by (rule Cons.IH)
  qed
qed

lemma singlePrimaryLowest_renumber:
  assumes "us \<noteq> []"
  shows "singlePrimaryLowest (map fixPrimary (renumber us))"
proof -
  obtain a rest where us: "us = a # rest" using assms by (cases us) auto
  let ?h = "fixPrimary (a\<lparr>u_registrationNumber := Some 1\<rparr>)"
  let ?t = "numbered (Suc 0) rest"
  have "map fixPrimary (renumber us) = numbered 0 us"
    by (simp add: renumber_def numbered_def)
  then have eq: "map fixPrimary (renumber us) = ?h # ?t"
    by (simp add: us numbered_Cons)
  have h: "isPrimary ?h" "u_registrationNumber ?h = Some 1"
    using fixPrimary_first [of a] by simp_all
  have t: "\<And>u. u \<in> set ?t \<Longrightarrow> \<not> isPrimary u \<and> (\<exists>k. u_registrationNumber u = Some k \<and> 1 < k)"
    by (rule renumber_tail)
  have f: "filter isPrimary ?t = []" using t by (simp add: filter_empty_conv)
  have b: "list_all (\<lambda>q. isPrimary q \<or> regBelow ?h q) ?t"
    unfolding list_all_iff
  proof
    fix q assume "q \<in> set ?t"
    then obtain k where "u_registrationNumber q = Some k" "1 < k" using t by blast
    then show "isPrimary q \<or> regBelow ?h q" using h(2) by (simp add: regBelow_def)
  qed
  show ?thesis unfolding eq singlePrimaryLowest_def using h(1) f b by simp
qed

lemma adminInvariant_mergeUsers: "adminInvariant (mergeUsers env st diskUsers)"
proof (cases "sortByRegistered (ue_tm env) (usersConfig st
                   @ filter (\<lambda>diskUser. u_localIdentifier diskUser \<notin> set (map u_localIdentifier (usersConfig st))
                               \<and> \<not> isRecentlyDeletedUser (ue_now env) st (u_localIdentifier diskUser))
                       diskUsers) = []")
  case True
  then show ?thesis by (simp add: adminInvariant_def mergeUsers_def Let_def renumber_def)
next
  case False
  then show ?thesis using singlePrimaryLowest_renumber [OF False]
    by (simp add: adminInvariant_def mergeUsers_def Let_def)
qed

lemma readUsersFile_cases:
  assumes "othersOk env"
  shows "fst (readUsersFile env st) = um_file st \<or> fileOk (fst (readUsersFile env st))"
proof (cases "map_of (ue_others env) (um_reads st)")
  case None
  then show ?thesis by (simp add: readUsersFile_def)
next
  case (Some f)
  then have "(um_reads st, f) \<in> set (ue_others env)" by (rule map_of_SomeD)
  then have "fileOk f" using assms by (auto simp add: othersOk_def list_all_iff)
  then show ?thesis using Some by (simp add: readUsersFile_def)
qed

lemma readUsersFile_snd:
  "usersConfig (snd (readUsersFile env st)) = usersConfig st"
  "um_file (snd (readUsersFile env st)) = fst (readUsersFile env st)"
  by (simp_all add: readUsersFile_def Let_def)

lemma saveUsers_ok:
  assumes "othersOk env" and "saveReady st"
  shows "consistent (saveUsers env st)"
proof -
  obtain f st1 where r: "readUsersFile env st = (f, st1)" by (cases "readUsersFile env st")
  have c: "f = um_file st \<or> fileOk f" using readUsersFile_cases [OF assms(1), of st] r by simp
  have u: "usersConfig st1 = usersConfig st" using readUsersFile_snd(1) [of env st] r by simp
  show ?thesis
  proof (cases f)
    case (Valid d)
    then show ?thesis using r adminInvariant_mergeUsers [of env st1 d]
      by (simp add: saveUsers_def Let_def consistent_def)
  next
    case Missing
    then have "adminInvariant (usersConfig st)" using c assms(2) by (auto simp add: saveReady_def)
    then show ?thesis using r Missing u by (simp add: saveUsers_def Let_def consistent_def)
  next
    case Corrupt
    then have False using c assms(2) by (auto simp add: saveReady_def)
    then show ?thesis ..
  qed
qed

lemma ensureAdminSteps_unchanged:
  assumes "ensureAdminSteps tm us = (us', False)"
  shows "us' = us"
proof (cases "length us = 0")
  case True
  then show ?thesis using assms by (simp add: ensureAdminSteps_def)
next
  case False
  define us1 where "us1 = assignRegNums tm us"
  define us2 where "us2 = demoteExtraPrimaries us1"
  define us3 where "us3 = promoteFirst us2"
  define us4 where "us4 = levelAdmins us3"
  have "ensureAdminSteps tm us = (us4, us1 \<noteq> us \<or> us2 \<noteq> us1 \<or> us3 \<noteq> us2 \<or> us4 \<noteq> us3)"
    using False unfolding ensureAdminSteps_def us1_def us2_def us3_def us4_def Let_def by simp
  then have "us' = us4" "us1 = us" "us2 = us1" "us3 = us2" "us4 = us3" using assms by auto
  then show ?thesis by simp
qed

text \<open>
  Without a readable file \<open>saveUsers\<close> writes the list as it is: nothing is repaired.
\<close>

lemma saveUsers_without_merge:
  assumes "um_file st = Corrupt" and "ue_others env = []"
  shows "usersConfig (saveUsers env st) = usersConfig st"
  using assms by (simp add: saveUsers_def readUsersFile_def Let_def)

text \<open>Every operation keeps a manager at rest in order.\<close>

lemma ensureAdminExists_ok:
  assumes "othersOk env" and "consistent st"
  shows "consistent (ensureAdminExists env st)"
proof -
  obtain us' ns where e: "ensureAdminSteps (ue_tm env) (usersConfig st) = (us', ns)"
    by (cases "ensureAdminSteps (ue_tm env) (usersConfig st)")
  show ?thesis
  proof (cases ns)
    case True
    have "saveReady (st\<lparr>usersConfig := us'\<rparr>)" using assms(2) by (simp add: saveReady_def consistent_def)
    then have "consistent (saveUsers env (st\<lparr>usersConfig := us'\<rparr>))" by (rule saveUsers_ok [OF assms(1)])
    then show ?thesis using e True by (simp add: ensureAdminExists_def)
  next
    case False
    then have "us' = usersConfig st"
      using e ensureAdminSteps_unchanged [of "ue_tm env" "usersConfig st" us'] by simp
    then show ?thesis using e False assms(2) by (simp add: ensureAdminExists_def consistent_def)
  qed
qed

lemma loadUsers_ok:
  assumes "othersOk env" and "fileOk (um_file st) \<or> um_file st = Missing"
  shows "consistent (loadUsers env st)"
proof -
  let ?st0 = "st\<lparr>um_currentUser := detach st\<rparr>"
  obtain f st1 where r: "readUsersFile env ?st0 = (f, st1)" by (cases "readUsersFile env ?st0")
  have c: "f = um_file st \<or> fileOk f" using readUsersFile_cases [OF assms(1), of ?st0] r by simp
  have f1: "um_file st1 = f" using readUsersFile_snd(2) [of env ?st0] r by simp
  show ?thesis
  proof (cases f)
    case (Valid d)
    have "fileOk f" using c assms(2) Valid by (metis usersFile.distinct(3))
    then have "adminInvariant d" using Valid by simp
    then have "consistent (st1\<lparr>usersConfig := d\<rparr>)" using f1 Valid by (simp add: consistent_def)
    then have "consistent (ensureAdminExists env (st1\<lparr>usersConfig := d\<rparr>))"
      by (rule ensureAdminExists_ok [OF assms(1)])
    then show ?thesis using r Valid by (simp add: loadUsers_def)
  next
    case Missing
    have "saveReady (st1\<lparr>usersConfig := []\<rparr>)" using f1 Missing by (simp add: saveReady_def adminInvariant_def)
    then have "consistent (saveUsers env (st1\<lparr>usersConfig := []\<rparr>))" by (rule saveUsers_ok [OF assms(1)])
    then show ?thesis using r Missing by (simp add: loadUsers_def)
  next
    case Corrupt
    then have False using c assms(2) by auto
    then show ?thesis ..
  qed
qed

lemma consistent_currentUser: "consistent (st\<lparr>um_currentUser := r\<rparr>) = consistent st"
  by (simp add: consistent_def)

lemma registerAttempt_ok:
  assumes "othersOk env" and "fileOk (um_file st) \<or> um_file st = Missing"
  shows "consistent (snd (registerAttempt env vaultName lastAttempt st))"
proof -
  define st1 where "st1 = loadUsers env st"
  have c1: "consistent st1" unfolding st1_def by (rule loadUsers_ok [OF assms])
  show ?thesis
  proof (cases "um_localId st1 \<in> set (map u_localIdentifier (usersConfig st1))
                \<or> toLowerCase vaultName \<in> set (map (\<lambda>u. toLowerCase (u_vaultName u)) (usersConfig st1))")
    case True
    then have "snd (registerAttempt env vaultName lastAttempt st) = st1"
      unfolding registerAttempt_def st1_def [symmetric] Let_def by auto
    then show ?thesis using c1 by simp
  next
    case False
    define newUser where "newUser = \<lparr>u_vaultName = vaultName, u_localIdentifier = um_localId st1, u_os = um_os st1,
                           u_registered = ue_iso env,
                           u_registrationNumber = Some (maxRegNum (usersConfig st1) + 1),
                           u_color = Some (colors ! (length (usersConfig st1) mod length colors)),
                           u_isAdmin = Some (maxRegNum (usersConfig st1) + 1 = 1),
                           u_adminLevel = (if maxRegNum (usersConfig st1) + 1 = 1 then Some Primary else None)\<rparr>"
    define st2 where "st2 = saveUsers env (st1\<lparr>usersConfig := usersConfig st1 @ [newUser]\<rparr>)"
    define st3 where "st3 = loadUsers env st2"
    have "saveReady (st1\<lparr>usersConfig := usersConfig st1 @ [newUser]\<rparr>)"
      using c1 by (simp add: saveReady_def consistent_def)
    then have "consistent st2" unfolding st2_def by (rule saveUsers_ok [OF assms(1)])
    then have "fileOk (um_file st2) \<or> um_file st2 = Missing" by (simp add: consistent_def)
    then have c3: "consistent st3" unfolding st3_def by (rule loadUsers_ok [OF assms(1)])
    have "snd (registerAttempt env vaultName lastAttempt st) = st3
          \<or> snd (registerAttempt env vaultName lastAttempt st) = st3\<lparr>um_currentUser := Attached (um_localId st1)\<rparr>"
      using False
      unfolding registerAttempt_def st1_def [symmetric] Let_def newUser_def [symmetric]
        st2_def [symmetric] st3_def [symmetric]
      by auto
    then show ?thesis using c3 consistent_currentUser by auto
  qed
qed

lemma registerLoop_ok:
  assumes "othersOk env"
  shows "managerOk st \<Longrightarrow> managerOk (snd (registerLoop env locks vaultName attempt left st))"
proof (induction left arbitrary: attempt st)
  case 0
  then show ?case by simp
next
  case (Suc left)
  show ?case
  proof (cases "locks attempt")
    case False
    then show ?thesis using Suc.IH [OF Suc.prems] Suc.prems by simp
  next
    case True
    obtain res st1 where a: "registerAttempt env vaultName (MAX_REGISTRATION_RETRIES \<le> attempt) st = (res, st1)"
      by (cases "registerAttempt env vaultName (MAX_REGISTRATION_RETRIES \<le> attempt) st")
    have "fileOk (um_file st) \<or> um_file st = Missing" using Suc.prems
      by (auto simp add: managerOk_def consistent_def)
    then have "consistent (snd (registerAttempt env vaultName (MAX_REGISTRATION_RETRIES \<le> attempt) st))"
      by (rule registerAttempt_ok [OF assms])
    then have m1: "managerOk st1" using a by (simp add: managerOk_def)
    show ?thesis
    proof (cases res)
      case None
      then show ?thesis using True a Suc.IH [OF m1] by simp
    next
      case (Some b)
      then show ?thesis using True a m1 by simp
    qed
  qed
qed

lemma saveUsers_managerOk:
  assumes "othersOk env" and "managerOk st"
  shows "managerOk (saveUsers env st)"
proof -
  have "saveReady st" using assms(2) by (auto simp add: managerOk_def consistent_def saveReady_def adminInvariant_def)
  then have "consistent (saveUsers env st)" by (rule saveUsers_ok [OF assms(1)])
  then show ?thesis by (simp add: managerOk_def)
qed

lemma managerOk_currentUser: "managerOk (st\<lparr>um_currentUser := r\<rparr>) = managerOk st"
  by (simp add: managerOk_def consistent_def)

lemma unregister_ok:
  assumes "othersOk env" and "managerOk st"
  shows "managerOk (snd (unregisterCurrentUser env st))"
proof (cases "getCurrentUser st")
  case None
  then show ?thesis using assms(2) by (simp add: unregisterCurrentUser_def)
next
  case (Some cu)
  show ?thesis
  proof (cases "u_localIdentifier cu \<in> set (map u_localIdentifier (usersConfig st))")
    case False
    then show ?thesis using Some assms(2) by (simp add: unregisterCurrentUser_def)
  next
    case True
    then have "usersConfig st \<noteq> []" by auto
    then have f: "fileOk (um_file st)" using assms(2) by (simp add: managerOk_def consistent_def)
    define us1 where "us1 = removeFirst (\<lambda>u. u_localIdentifier u = u_localIdentifier cu) (usersConfig st)"
    define us2 where "us2 = (if u_adminLevel cu = Some Primary \<and> 0 < length us1 then promoteNext us1 else us1)"
    define st0 where "st0 = st\<lparr>recentlyDeletedUsers :=
                               (recentlyDeletedUsers st)(u_localIdentifier cu \<mapsto> ue_now env),
                             usersConfig := us2\<rparr>"
    have "saveReady st0" using f by (simp add: st0_def saveReady_def)
    then have "consistent (saveUsers env st0)" by (rule saveUsers_ok [OF assms(1)])
    then have m: "managerOk ((saveUsers env st0)\<lparr>um_currentUser := NoUser\<rparr>)"
      by (simp add: managerOk_def consistent_def)
    have "snd (unregisterCurrentUser env st) = (saveUsers env st0)\<lparr>um_currentUser := NoUser\<rparr>"
      using Some True
      by (simp add: unregisterCurrentUser_def Let_def st0_def us2_def us1_def)
    then show ?thesis using m by simp
  qed
qed

lemma ustep_ok:
  assumes "othersOk env" and "managerOk st"
  shows "managerOk (ustep env op st)"
proof (cases op)
  case (URegister locks vaultName)
  then show ?thesis using registerLoop_ok [OF assms] by (simp add: registerUser_def)
next
  case UUnregister
  then show ?thesis using unregister_ok [OF assms] by simp
next
  case ULoad
  have "fileOk (um_file st) \<or> um_file st = Missing" using assms(2)
    by (auto simp add: managerOk_def consistent_def)
  then have "consistent (loadUsers env st)" by (rule loadUsers_ok [OF assms(1)])
  then show ?thesis using ULoad by (simp add: managerOk_def)
next
  case UIdentify
  then show ?thesis using assms(2) by (simp add: identifyCurrentUser_def managerOk_currentUser)
next
  case USave
  then show ?thesis using saveUsers_managerOk [OF assms] by simp
qed

lemma urun_ok:
  "runOk ops \<Longrightarrow> managerOk st \<Longrightarrow> managerOk (urun ops st)"
proof (induction ops arbitrary: st)
  case Nil
  then show ?case by simp
next
  case (Cons a ops)
  obtain env op where a: "a = (env, op)" by (cases a)
  have o: "othersOk env" and r: "runOk ops" using Cons.prems(1) a by (simp_all add: runOk_def)
  have "managerOk (ustep env op st)" by (rule ustep_ok [OF o Cons.prems(2)])
  then have "managerOk (urun ops (ustep env op st))" by (rule Cons.IH [OF r])
  then show ?case using a by simp
qed


text \<open>The example run.\<close>

lemma tm_carol: "sampleUserTm ''2024-05-01T09:59:59.000Z'' = Some 1714557599000"
  by (simp add: sampleUserTm_def)

lemma tm_bob: "sampleUserTm ''2024-05-01T10:00:00.000Z'' = Some 1714557600000"
  by (simp add: sampleUserTm_def)

lemma sample_load_new:
  "loadUsers registerEnv (bobsManager [] NoUser Missing 0) = bobsManager [] NoUser (Valid []) 2"
  by (simp add: loadUsers_def readUsersFile_def bobsManager_def registerEnv_def detach_def
      saveUsers_def Let_def)

lemma sample_sorted: "sortByRegistered sampleUserTm [bobAsRegistered, carol] = [carol, bobAsRegistered]"
  by (simp add: sortByRegistered_def bobAsRegistered_def bob_def carol_def tm_carol tm_bob)

lemma sample_renumber: "map fixPrimary (renumber [carol, bobAsRegistered]) = [carol, bob]"
  by (simp add: renumber_def fixPrimary_def carol_def bobAsRegistered_def bob_def)

lemma sample_merge:
  "mergeUsers registerEnv (bobsManager [bobAsRegistered] NoUser (Valid [carol]) 3) [carol] = [carol, bob]"
proof -
  have r: "isRecentlyDeletedUser (ue_now registerEnv) (bobsManager [bobAsRegistered] NoUser (Valid [carol]) 3)
             (u_localIdentifier carol) = False"
    by (simp add: isRecentlyDeletedUser_def bobsManager_def)
  have n: "u_localIdentifier carol \<noteq> u_localIdentifier bobAsRegistered"
    by (simp add: carol_def bobAsRegistered_def bob_def)
  have e: "ue_tm registerEnv = sampleUserTm" by (simp add: registerEnv_def)
  have u: "usersConfig (bobsManager [bobAsRegistered] NoUser (Valid [carol]) 3) = [bobAsRegistered]"
    by (simp add: bobsManager_def)
  show ?thesis
    unfolding mergeUsers_def Let_def using r n e u sample_renumber sample_sorted by simp
qed

lemma sample_read:
  "readUsersFile registerEnv (bobsManager [bobAsRegistered] NoUser (Valid []) 2)
     = (Valid [carol], bobsManager [bobAsRegistered] NoUser (Valid [carol]) 3)"
  by (simp add: readUsersFile_def registerEnv_def bobsManager_def Let_def)

lemma sample_save:
  "saveUsers registerEnv (bobsManager [bobAsRegistered] NoUser (Valid []) 2)
     = bobsManager [carol, bob] NoUser (Valid [carol, bob]) 3"
  unfolding saveUsers_def sample_read by (simp add: sample_merge) (simp add: bobsManager_def Let_def)

lemma sample_steps: "ensureAdminSteps sampleUserTm [carol, bob] = ([carol, bob], False)"
  by (simp add: ensureAdminSteps_def Let_def assignRegNums_def noRegNum_def demoteExtraPrimaries_def
      isPrimary_def promoteFirst_def levelAdmins_def carol_def bob_def)

lemma sample_load:
  "loadUsers registerEnv (bobsManager [carol, bob] NoUser (Valid [carol, bob]) 3)
     = bobsManager [carol, bob] NoUser (Valid [carol, bob]) 4"
proof -
  have r: "readUsersFile registerEnv ((bobsManager [carol, bob] NoUser (Valid [carol, bob]) 3)
             \<lparr>um_currentUser := detach (bobsManager [carol, bob] NoUser (Valid [carol, bob]) 3)\<rparr>)
           = (Valid [carol, bob], bobsManager [carol, bob] NoUser (Valid [carol, bob]) 4)"
    by (simp add: readUsersFile_def registerEnv_def bobsManager_def detach_def Let_def)
  have e: "ue_tm registerEnv = sampleUserTm" by (simp add: registerEnv_def)
  have u: "(bobsManager [carol, bob] NoUser (Valid [carol, bob]) 4)\<lparr>usersConfig := [carol, bob]\<rparr>
             = bobsManager [carol, bob] NoUser (Valid [carol, bob]) 4"
    by (simp add: bobsManager_def)
  have c: "usersConfig (bobsManager [carol, bob] NoUser (Valid [carol, bob]) 4) = [carol, bob]"
    by (simp add: bobsManager_def)
  show ?thesis
    unfolding loadUsers_def r by (simp add: ensureAdminExists_def u c e sample_steps)
qed

lemma sample_register:
  "registerAttempt registerEnv ''bob'' False (bobsManager [] NoUser Missing 0)
     = (Some True, bobsManager [carol, bob] (Attached ''bob@desktop'') (Valid [carol, bob]) 4)"
proof -
  have n: "\<lparr>u_vaultName = ''bob'', u_localIdentifier = ''bob@desktop'', u_os = ''linux'',
            u_registered = ''2024-05-01T10:00:00.000Z'', u_registrationNumber = Some 1,
            u_color = Some ''#7c3aed'', u_isAdmin = Some True, u_adminLevel = Some Primary\<rparr> = bobAsRegistered"
    by (simp add: bobAsRegistered_def bob_def)
  have p: "(bobsManager [] NoUser (Valid []) 2)\<lparr>usersConfig := [bobAsRegistered]\<rparr>
             = bobsManager [bobAsRegistered] NoUser (Valid []) 2"
    by (simp add: bobsManager_def)
  have f: "u_localIdentifier bob = ''bob@desktop''" "u_vaultName bob = ''bob''"
    by (simp_all add: bob_def)
  have g: "usersConfig (bobsManager [] NoUser (Valid []) 2) = []"
      "um_localId (bobsManager [] NoUser (Valid []) 2) = ''bob@desktop''"
      "um_os (bobsManager [] NoUser (Valid []) 2) = ''linux''"
      "usersConfig (bobsManager [carol, bob] NoUser (Valid [carol, bob]) 4) = [carol, bob]"
      "ue_iso registerEnv = ''2024-05-01T10:00:00.000Z''"
    by (simp_all add: bobsManager_def registerEnv_def)
  have q: "(bobsManager [carol, bob] NoUser (Valid [carol, bob]) 4)\<lparr>um_currentUser := Attached ''bob@desktop''\<rparr>
            = bobsManager [carol, bob] (Attached ''bob@desktop'') (Valid [carol, bob]) 4"
    by (simp add: bobsManager_def)
  show ?thesis
    unfolding registerAttempt_def sample_load_new Let_def g
    by (simp add: maxRegNum_def colors_def n p sample_save sample_load g f q)
qed

lemma sample_run:
  "urun sampleRun newVault = bobsManager [carol, bob] (Attached ''bob@desktop'') (Valid [carol, bob]) 4"
  by (simp add: sampleRun_def newVault_def registerUser_def MAX_REGISTRATION_RETRIES_def
      numeral_3_eq_3 sample_register)

text \<open>
  While every read finds the file readable (or missing in a new vault) and what the other
  machines write has the property, the list in memory and the list in the file keep it
  through every run: each save ends with the merge, which repairs whatever came before.
\<close>

lemma readable_runs_keep_primary:
  assumes "managerOk st" and "runOk ops"
  shows "(usersConfig (urun ops st) \<noteq> [] \<longrightarrow> singlePrimaryLowest (usersConfig (urun ops st)))
       \<and> (\<forall>us. um_file (urun ops st) = Valid us \<longrightarrow> us \<noteq> [] \<longrightarrow> singlePrimaryLowest us)"
proof -
  have "managerOk (urun ops st)" by (rule urun_ok [OF assms(2) assms(1)])
  then show ?thesis by (auto simp add: managerOk_def consistent_def adminInvariant_def)
qed

text \<open>The run in which bob, by then the primary admin, unregisters.\<close>

lemma urun_append: "urun (xs @ ys) st = urun ys (urun xs st)"
  by (induction xs arbitrary: st) auto

lemma steps_bobPrimary_dave:
  "ensureAdminSteps sampleUserTm [bobPrimary, dave] = ([bobPrimary, dave], False)"
  by (simp add: ensureAdminSteps_def Let_def assignRegNums_def noRegNum_def demoteExtraPrimaries_def
      isPrimary_def promoteFirst_def levelAdmins_def bobPrimary_def bob_def dave_def)

lemma steps_dave: "ensureAdminSteps sampleUserTm [dave] = ([dave], False)"
  by (simp add: ensureAdminSteps_def Let_def assignRegNums_def noRegNum_def demoteExtraPrimaries_def
      isPrimary_def promoteFirst_def levelAdmins_def dave_def)

lemma reload_sample:
  "loadUsers reloadEnv (bobsManager [carol, bob] (Attached ''bob@desktop'') (Valid [carol, bob]) 4)
     = bobsManager [bobPrimary, dave] (Detached bob) (Valid [bobPrimary, dave]) 5"
proof -
  have d: "detach (bobsManager [carol, bob] (Attached ''bob@desktop'') (Valid [carol, bob]) 4) = Detached bob"
    by (simp add: detach_def bobsManager_def carol_def bob_def)
  have r: "readUsersFile reloadEnv ((bobsManager [carol, bob] (Attached ''bob@desktop'') (Valid [carol, bob]) 4)
             \<lparr>um_currentUser := Detached bob\<rparr>)
           = (Valid [bobPrimary, dave], bobsManager [carol, bob] (Detached bob) (Valid [bobPrimary, dave]) 5)"
    by (simp add: readUsersFile_def reloadEnv_def bobsManager_def Let_def)
  have e: "ue_tm reloadEnv = sampleUserTm" by (simp add: reloadEnv_def)
  have u: "(bobsManager [carol, bob] (Detached bob) (Valid [bobPrimary, dave]) 5)\<lparr>usersConfig := [bobPrimary, dave]\<rparr>
             = bobsManager [bobPrimary, dave] (Detached bob) (Valid [bobPrimary, dave]) 5"
    by (simp add: bobsManager_def)
  have c: "usersConfig (bobsManager [bobPrimary, dave] (Detached bob) (Valid [bobPrimary, dave]) 5) = [bobPrimary, dave]"
    by (simp add: bobsManager_def)
  show ?thesis
    unfolding loadUsers_def d r by (simp add: ensureAdminExists_def u c e steps_bobPrimary_dave)
qed

lemma unregister_sample:
  "unregisterCurrentUser unregisterEnv
       (bobsManager [bobPrimary, dave] (Detached bob) (Valid [bobPrimary, dave]) 5)
     = (True, (bobsManager [dave] NoUser (Valid [dave]) 6)
                \<lparr>recentlyDeletedUsers := (\<lambda>k. None)(''bob@desktop'' \<mapsto> 1714557720000)\<rparr>)"
proof -
  have g: "getCurrentUser (bobsManager [bobPrimary, dave] (Detached bob) (Valid [bobPrimary, dave]) 5) = Some bob"
    by (simp add: getCurrentUser_def bobsManager_def)
  have l: "u_localIdentifier bob = ''bob@desktop''" "u_localIdentifier bobPrimary = ''bob@desktop''"
      "u_localIdentifier dave = ''dave@tablet''" "u_adminLevel bob = Some Secondary"
    by (simp_all add: bob_def bobPrimary_def dave_def)
  have c: "usersConfig (bobsManager [bobPrimary, dave] (Detached bob) (Valid [bobPrimary, dave]) 5) = [bobPrimary, dave]"
    by (simp add: bobsManager_def)
  have s: "saveUsers unregisterEnv
             ((bobsManager [bobPrimary, dave] (Detached bob) (Valid [bobPrimary, dave]) 5)
                \<lparr>recentlyDeletedUsers := (recentlyDeletedUsers (bobsManager [bobPrimary, dave] (Detached bob) (Valid [bobPrimary, dave]) 5))
                     (''bob@desktop'' \<mapsto> ue_now unregisterEnv),
                  usersConfig := [dave]\<rparr>)
           = (bobsManager [dave] (Detached bob) (Valid [dave]) 6)
                \<lparr>recentlyDeletedUsers := (\<lambda>k. None)(''bob@desktop'' \<mapsto> 1714557720000)\<rparr>"
    by (simp add: saveUsers_def readUsersFile_def unregisterEnv_def bobsManager_def Let_def)
  show ?thesis
    unfolding unregisterCurrentUser_def g
    by (simp add: Let_def l c s) (simp add: bobsManager_def)
qed

lemma reload_after_unregister:
  "loadUsers quietEnv ((bobsManager [dave] NoUser (Valid [dave]) 6)
                \<lparr>recentlyDeletedUsers := (\<lambda>k. None)(''bob@desktop'' \<mapsto> 1714557720000)\<rparr>)
     = (bobsManager [dave] NoUser (Valid [dave]) 7)
                \<lparr>recentlyDeletedUsers := (\<lambda>k. None)(''bob@desktop'' \<mapsto> 1714557720000)\<rparr>"
  by (simp add: loadUsers_def detach_def readUsersFile_def quietEnv_def bobsManager_def Let_def
      ensureAdminExists_def steps_dave)

lemma reloaded_run:
  "urun reloadedRun newVault = bobsManager [bobPrimary, dave] (Detached bob) (Valid [bobPrimary, dave]) 5"
  by (simp add: reloadedRun_def urun_append sample_run reload_sample)

lemma failing_run:
  "urun failingRun newVault
     = (bobsManager [dave] NoUser (Valid [dave]) 7)
         \<lparr>recentlyDeletedUsers := (\<lambda>k. None)(''bob@desktop'' \<mapsto> 1714557720000)\<rparr>"
  by (simp add: failingRun_def urun_append reloaded_run unregister_sample reload_after_unregister)


text \<open>
  Claim C3 fails on the code. The run starts in a new vault: bob registers (while carol
  registers too), carol leaves and dave joins on other machines, and bob's manager reloads
  the file: the list is \<open>[bobPrimary, dave]\<close>, bob is its only primary admin with the lowest
  number, and \<open>currentUser\<close> still is the object loaded before, a secondary admin. Bob
  unregisters while the file cannot be parsed: \<open>unregisterCurrentUser\<close> reads the admin level
  of the old object, promotes nobody, and \<open>saveUsers\<close> saves without its merge. The list in
  memory and in the file is \<open>[dave]\<close>, numbered 2, with no primary admin, and the repair
  pass of the next \<open>loadUsers\<close> leaves it so.
\<close>

theorem unregister_leaves_no_primary:
  "usersConfig (urun reloadedRun newVault) = [bobPrimary, dave]
   \<and> singlePrimaryLowest [bobPrimary, dave]
   \<and> um_currentUser (urun reloadedRun newVault) = Detached bob
   \<and> u_adminLevel bob = Some Secondary
   \<and> usersConfig (urun failingRun newVault) = [dave]
   \<and> um_file (urun failingRun newVault) = Valid [dave]
   \<and> u_registrationNumber dave = Some 2
   \<and> filter isPrimary (usersConfig (urun failingRun newVault)) = []
   \<and> \<not> singlePrimaryLowest (usersConfig (urun failingRun newVault))"
proof -
  have a: "singlePrimaryLowest [bobPrimary, dave]"
    by (simp add: singlePrimaryLowest_def isPrimary_def regBelow_def bobPrimary_def bob_def dave_def)
  have b: "filter isPrimary [dave] = []" by (simp add: isPrimary_def dave_def)
  have c: "\<not> singlePrimaryLowest [dave]" using b by (simp add: singlePrimaryLowest_def)
  show ?thesis
    using a b c by (simp add: reloaded_run failing_run bobsManager_def) (simp add: bob_def dave_def)
qed

end
